theory Spec2Isabelle
  imports Main "HOL-Library.Word" "HOL-Library.Sublist"
begin

text \<open>
  The package \<open>mtOpenGL\<close> is a layer of helper functions over the OpenGL binding: it
  compiles and links shader programs, creates textures and framebuffers, and packs vertex
  and index buffers. Each function is a fixed sequence of driver calls. The functions are
  embedded here as functions on an explicit world: the files, the driver's compiler and
  linker, and the driver's objects and bindings. The driver is modelled as far as the
  package observes it: names, compile and link status, info logs, bindings, and the state
  the calls of the package set.
\<close>

section \<open>Machine types and the constants of the graphics API\<close>

text \<open>
  \<open>uint32\<close> and \<open>int32\<close> are 32-bit words; an \<open>int32\<close> is read with \<open>sint\<close>. The
  constants are those of the binding \<open>gl/v4.5-core\<close>, with their values.
\<close>

type_synonym u8 = "8 word"
type_synonym u32 = "32 word"
type_synonym i32 = "32 word"

text \<open>
  A \<open>float32\<close> is carried as its 32 bits: the program stores, copies and uploads such
  values and never computes with them. A \<open>Vec2\<close> is \<open>[2]float32\<close>.
\<close>

type_synonym float32 = "32 word"
type_synonym Vec2 = "float32 \<times> float32"

abbreviation (input) NUL :: char where "NUL \<equiv> CHR 0x00"

abbreviation (input) FALSE :: i32 where "FALSE \<equiv> 0"
abbreviation (input) TRUE :: i32 where "TRUE \<equiv> 1"
abbreviation (input) COMPILE_STATUS :: u32 where "COMPILE_STATUS \<equiv> 0x8B81"
abbreviation (input) LINK_STATUS :: u32 where "LINK_STATUS \<equiv> 0x8B82"
abbreviation (input) INFO_LOG_LENGTH :: u32 where "INFO_LOG_LENGTH \<equiv> 0x8B84"
abbreviation (input) FRAGMENT_SHADER :: u32 where "FRAGMENT_SHADER \<equiv> 0x8B30"
abbreviation (input) VERTEX_SHADER :: u32 where "VERTEX_SHADER \<equiv> 0x8B31"
abbreviation (input) GEOMETRY_SHADER :: u32 where "GEOMETRY_SHADER \<equiv> 0x8DD9"
abbreviation (input) TESS_EVALUATION_SHADER :: u32 where "TESS_EVALUATION_SHADER \<equiv> 0x8E87"
abbreviation (input) TESS_CONTROL_SHADER :: u32 where "TESS_CONTROL_SHADER \<equiv> 0x8E88"
abbreviation (input) COMPUTE_SHADER :: u32 where "COMPUTE_SHADER \<equiv> 0x91B9"
abbreviation (input) TEXTURE_2D :: u32 where "TEXTURE_2D \<equiv> 0x0DE1"
abbreviation (input) TEXTURE_2D_MULTISAMPLE :: u32 where "TEXTURE_2D_MULTISAMPLE \<equiv> 0x9100"
abbreviation (input) TEXTURE_MAG_FILTER :: u32 where "TEXTURE_MAG_FILTER \<equiv> 0x2800"
abbreviation (input) TEXTURE_MIN_FILTER :: u32 where "TEXTURE_MIN_FILTER \<equiv> 0x2801"
abbreviation (input) TEXTURE_WRAP_S :: u32 where "TEXTURE_WRAP_S \<equiv> 0x2802"
abbreviation (input) TEXTURE_WRAP_T :: u32 where "TEXTURE_WRAP_T \<equiv> 0x2803"
abbreviation (input) NEAREST :: i32 where "NEAREST \<equiv> 0x2600"
abbreviation (input) REPEAT :: i32 where "REPEAT \<equiv> 0x2901"
abbreviation (input) CLAMP_TO_EDGE :: i32 where "CLAMP_TO_EDGE \<equiv> 0x812F"
abbreviation (input) UNSIGNED_BYTE :: u32 where "UNSIGNED_BYTE \<equiv> 0x1401"
abbreviation (input) FLOAT :: u32 where "FLOAT \<equiv> 0x1406"
abbreviation (input) DEPTH_COMPONENT :: u32 where "DEPTH_COMPONENT \<equiv> 0x1902"
abbreviation (input) RGBA :: u32 where "RGBA \<equiv> 0x1908"
abbreviation (input) RG :: u32 where "RG \<equiv> 0x8227"
abbreviation (input) RGBA8 :: u32 where "RGBA8 \<equiv> 0x8058"
abbreviation (input) DEPTH_COMPONENT32 :: u32 where "DEPTH_COMPONENT32 \<equiv> 0x81A7"
abbreviation (input) RG32F :: u32 where "RG32F \<equiv> 0x8230"
abbreviation (input) RGBA32F :: u32 where "RGBA32F \<equiv> 0x8814"
abbreviation (input) FRAMEBUFFER :: u32 where "FRAMEBUFFER \<equiv> 0x8D40"
abbreviation (input) COLOR_ATTACHMENT0 :: u32 where "COLOR_ATTACHMENT0 \<equiv> 0x8CE0"
abbreviation (input) DEPTH_ATTACHMENT :: u32 where "DEPTH_ATTACHMENT \<equiv> 0x8D00"
abbreviation (input) ARRAY_BUFFER :: u32 where "ARRAY_BUFFER \<equiv> 0x8892"
abbreviation (input) ELEMENT_ARRAY_BUFFER :: u32 where "ELEMENT_ARRAY_BUFFER \<equiv> 0x8893"
abbreviation (input) STATIC_DRAW :: u32 where "STATIC_DRAW \<equiv> 0x88E4"

section \<open>Errors and panics\<close>

text \<open>
  A Go \<open>error\<close> is a value with a message; \<open>nil\<close> is \<open>None\<close> of \<open>error option\<close>, and a
  function returning \<open>(uint32, error)\<close> returns the pair. A panic is the left summand of
  the result of every function that can reach one.
\<close>

datatype error = Errorf string

fun Error :: "error \<Rightarrow> string" where
  "Error (Errorf m) = m"

datatype panic = Panic string

definition bindP :: "panic + 'a \<Rightarrow> ('a \<Rightarrow> panic + 'b) \<Rightarrow> panic + 'b" where
  "bindP m f = (case m of Inl p \<Rightarrow> Inl p | Inr x \<Rightarrow> f x)"

text \<open>\<open>strings.Repeat\<close> panics on a negative count.\<close>

definition strings_Repeat :: "string \<Rightarrow> int \<Rightarrow> panic + string" where
  "strings_Repeat s count =
     (if count < 0 then Inl (Panic ''strings: negative Repeat count'')
      else Inr (concat (replicate (nat count) s)))"

text \<open>\<open>gl.Str\<close> hands the bytes of a Go string to the driver; it panics unless the string
  ends with a NUL.\<close>

definition gl_Str :: "string \<Rightarrow> panic + string" where
  "gl_Str str =
     (if str \<noteq> [] \<and> last str = NUL then Inr str
      else Inl (Panic ''str argument missing null terminator''))"

text \<open>\<open>gl.Ptr\<close> of a slice is the address of its first element; it panics on an empty
  slice. The model hands the elements on.\<close>

definition gl_Ptr :: "'a list \<Rightarrow> panic + 'a list" where
  "gl_Ptr data =
     (if data = [] then Inl (Panic ''reflect: slice index out of range'') else Inr data)"

section \<open>The data types of the package\<close>

record MeshBuffer =
  ArrayBuffer :: u32
  VertexBuffer :: u32
  VertexCount :: i32
  IndexBuffer :: u32
  IndexCount :: i32

record ImageTexture =
  TextureHandle :: u32
  TextureSize :: Vec2

text \<open>
  Modelled from the spec: \<open>LoadImage\<close> and the type of its result are not among the source
  files; the spec calls it "an external image-loading collaborator". \<open>CreateImageTexture\<close>
  reads the field \<open>Img\<close> of the result, calls \<open>Bounds()\<close> on it and draws it into an RGBA
  image. \<open>Img\<close> is an interface value and may be nil (\<open>None\<close>). Of an image the model keeps
  the corner \<open>Bounds().Max\<close> and what \<open>image.NewRGBA\<close> of its bounds and \<open>draw.Draw\<close> of the
  image into it give. Both are library calls that can panic (\<open>NewRGBA\<close> on bounds of huge
  or negative dimensions, \<open>Draw\<close> through the methods of the image), so \<open>RGBA_Pix\<close> is either
  that panic or the bytes the two calls leave in \<open>Pix\<close>.
\<close>

record Image =
  Bounds_Max_X :: int
  Bounds_Max_Y :: int
  RGBA_Pix :: "panic + u8 list"

record ImageData =
  Img :: "Image option"

section \<open>The driver and the rest of the world\<close>

record shader_obj =
  stype :: u32
  ssource :: string
  compile_status :: bool
  sinfo_log :: string
  delete_status :: bool

record program_obj =
  attached :: "u32 list"
  link_status :: bool
  pinfo_log :: string

datatype tex_store =
  NoStorage
  | Storage2D i32 u32 i32 i32
  | Storage2DMultisample i32 u32 i32 i32 bool
  | TexImage i32 i32 i32 i32 i32 u32 u32 "u8 list"

record texture_obj =
  tparams :: "u32 \<Rightarrow> i32 option"
  tstore :: tex_store

record fbo_obj =
  attachments :: "u32 \<Rightarrow> (u32 \<times> u32 \<times> i32) option"

datatype payload = NoData | Points "Vec2 list" | Indices "u32 list"

record buffer_obj =
  bsize :: int
  bdata :: payload
  busage :: u32

record attrib_pointer =
  asize :: i32
  atype :: u32
  anormalized :: bool
  astride :: i32
  aoffset :: int
  abuffer :: u32

record vao_obj =
  enabled :: "u32 set"
  pointers :: "u32 \<Rightarrow> attrib_pointer option"

text \<open>
  The world a call runs in. The first five fields are the environment and never change:
  the file system as \<open>os.Open\<close> and \<open>io.Copy\<close> see it, the driver's shader compiler (stage
  type and source text to compile status and info log), its linker (the stage types and
  source texts of the attached shaders to link status and info log), \<open>LoadImage\<close>, and the
  conversion of an integer to \<open>float32\<close>. The rest is state: what was printed, the memory
  behind \<open>*uint32\<close> pointers, and the driver's objects and bindings. The driver hands out
  object names from the counter \<open>name_count\<close>. Object name 0 is never handed out; for
  textures, framebuffers, buffers and vertex arrays it stands for "nothing bound" (for
  textures: the default texture of the target).
\<close>

record world =
  files :: "string \<Rightarrow> error + string"
  compiler :: "u32 \<Rightarrow> string \<Rightarrow> bool \<times> string"
  linker :: "(u32 \<times> string) list \<Rightarrow> bool \<times> string"
  load_image :: "string \<Rightarrow> ImageData \<times> error option"
  float32_of_int :: "int \<Rightarrow> float32"
  stdout :: string
  mem :: "nat \<Rightarrow> u32"
  name_count :: nat
  shaders :: "u32 \<Rightarrow> shader_obj option"
  programs :: "u32 \<Rightarrow> program_obj option"
  textures :: "u32 \<Rightarrow> texture_obj"
  tex_binding :: "u32 \<Rightarrow> u32"
  framebuffers :: "u32 \<Rightarrow> fbo_obj"
  fbo_binding :: "u32 \<Rightarrow> u32"
  buffers :: "u32 \<Rightarrow> buffer_obj option"
  buffer_binding :: "u32 \<Rightarrow> u32"
  vaos :: "u32 \<Rightarrow> vao_obj"
  vao_binding :: u32

subsection \<open>Object names\<close>

text \<open>
  The \<open>c\<close>-th name the driver hands out. Names are never 0, and the driver goes through
  all \<open>2 ^ 32 - 1\<close> non-zero names before it repeats one.
\<close>

definition name_of :: "nat \<Rightarrow> u32" where
  "name_of c = word_of_nat (c mod (2 ^ 32 - 1)) + 1"

definition gen_name :: "world \<Rightarrow> u32 \<times> world" where
  "gen_name w = (name_of (name_count w), w\<lparr>name_count := Suc (name_count w)\<rparr>)"

subsection \<open>Shader and program objects\<close>

definition gl_CreateShader :: "u32 \<Rightarrow> world \<Rightarrow> u32 \<times> world" where
  "gl_CreateShader shaderType w =
     (let (n, w') = gen_name w
      in (n, w'\<lparr>shaders := (shaders w')(n \<mapsto>
            \<lparr>stype = shaderType, ssource = [], compile_status = False,
             sinfo_log = [], delete_status = False\<rparr>)\<rparr>))"

text \<open>
  The text the driver reads from one source string and its length: \<open>length\<close> characters,
  or up to the first NUL when the length is negative.
\<close>

definition shader_text :: "string \<Rightarrow> i32 \<Rightarrow> string" where
  "shader_text source len =
     (if 0 \<le> sint len then take (nat (sint len)) source
      else takeWhile (\<lambda>c. c \<noteq> NUL) source)"

definition gl_ShaderSource :: "u32 \<Rightarrow> string \<Rightarrow> i32 \<Rightarrow> world \<Rightarrow> world" where
  "gl_ShaderSource shader source len w =
     (case shaders w shader of
        None \<Rightarrow> w
      | Some s \<Rightarrow> w\<lparr>shaders := (shaders w)(shader \<mapsto> s\<lparr>ssource := shader_text source len\<rparr>)\<rparr>)"

definition gl_CompileShader :: "u32 \<Rightarrow> world \<Rightarrow> world" where
  "gl_CompileShader shader w =
     (case shaders w shader of
        None \<Rightarrow> w
      | Some s \<Rightarrow>
          (let (ok, lg) = compiler w (stype s) (ssource s)
           in w\<lparr>shaders := (shaders w)(shader \<mapsto> s\<lparr>compile_status := ok, sinfo_log := lg\<rparr>)\<rparr>))"

text \<open>
  The length of an info log as the driver reports it: the characters and the
  terminating NUL, or 0 when there is no log.
\<close>

definition info_log_length :: "string \<Rightarrow> i32" where
  "info_log_length lg = (if lg = [] then 0 else word_of_nat (length lg + 1))"

text \<open>
  A query writes through the pointer \<open>params\<close>; \<open>cur\<close> is the value the variable holds
  before the call, which an invalid query leaves in place.
\<close>

definition gl_GetShaderiv :: "u32 \<Rightarrow> u32 \<Rightarrow> i32 \<Rightarrow> world \<Rightarrow> i32" where
  "gl_GetShaderiv shader pname cur w =
     (case shaders w shader of
        None \<Rightarrow> cur
      | Some s \<Rightarrow>
          if pname = COMPILE_STATUS then (if compile_status s then TRUE else FALSE)
          else if pname = INFO_LOG_LENGTH then info_log_length (sinfo_log s)
          else cur)"

text \<open>
  The driver writes at most \<open>bufSize - 1\<close> characters of the log and a NUL into the buffer,
  over what the buffer held; the result is the buffer afterwards.
\<close>

definition write_info_log :: "string \<Rightarrow> i32 \<Rightarrow> string \<Rightarrow> string" where
  "write_info_log lg bufSize buf =
     (if sint bufSize \<le> 0 then buf
      else (let out = take (nat (sint bufSize) - 1) lg @ [NUL]
            in out @ drop (length out) buf))"

definition gl_GetShaderInfoLog :: "u32 \<Rightarrow> i32 \<Rightarrow> string \<Rightarrow> world \<Rightarrow> string" where
  "gl_GetShaderInfoLog shader bufSize buf w =
     (case shaders w shader of
        None \<Rightarrow> buf
      | Some s \<Rightarrow> write_info_log (sinfo_log s) bufSize buf)"

text \<open>A shader that is deleted is flagged; the driver reclaims it once no program holds it.\<close>

definition gl_DeleteShader :: "u32 \<Rightarrow> world \<Rightarrow> world" where
  "gl_DeleteShader shader w =
     (case shaders w shader of
        None \<Rightarrow> w
      | Some s \<Rightarrow> w\<lparr>shaders := (shaders w)(shader \<mapsto> s\<lparr>delete_status := True\<rparr>)\<rparr>)"

definition gl_CreateProgram :: "world \<Rightarrow> u32 \<times> world" where
  "gl_CreateProgram w =
     (let (n, w') = gen_name w
      in (n, w'\<lparr>programs := (programs w')(n \<mapsto>
            \<lparr>attached = [], link_status = False, pinfo_log = []\<rparr>)\<rparr>))"

text \<open>Attaching a shader twice to one program is an error and changes nothing.\<close>

definition gl_AttachShader :: "u32 \<Rightarrow> u32 \<Rightarrow> world \<Rightarrow> world" where
  "gl_AttachShader program shader w =
     (case programs w program of
        None \<Rightarrow> w
      | Some p \<Rightarrow>
          if shaders w shader = None \<or> shader \<in> set (attached p) then w
          else w\<lparr>programs := (programs w)(program \<mapsto> p\<lparr>attached := attached p @ [shader]\<rparr>)\<rparr>)"

definition stage_of :: "world \<Rightarrow> u32 \<Rightarrow> (u32 \<times> string) list" where
  "stage_of w shader =
     (case shaders w shader of None \<Rightarrow> [] | Some s \<Rightarrow> [(stype s, ssource s)])"

definition gl_LinkProgram :: "u32 \<Rightarrow> world \<Rightarrow> world" where
  "gl_LinkProgram program w =
     (case programs w program of
        None \<Rightarrow> w
      | Some p \<Rightarrow>
          (let (ok, lg) = linker w (concat (map (stage_of w) (attached p)))
           in w\<lparr>programs := (programs w)(program \<mapsto> p\<lparr>link_status := ok, pinfo_log := lg\<rparr>)\<rparr>))"

definition gl_GetProgramiv :: "u32 \<Rightarrow> u32 \<Rightarrow> i32 \<Rightarrow> world \<Rightarrow> i32" where
  "gl_GetProgramiv program pname cur w =
     (case programs w program of
        None \<Rightarrow> cur
      | Some p \<Rightarrow>
          if pname = LINK_STATUS then (if link_status p then TRUE else FALSE)
          else if pname = INFO_LOG_LENGTH then info_log_length (pinfo_log p)
          else cur)"

definition gl_GetProgramInfoLog :: "u32 \<Rightarrow> i32 \<Rightarrow> string \<Rightarrow> world \<Rightarrow> string" where
  "gl_GetProgramInfoLog program bufSize buf w =
     (case programs w program of
        None \<Rightarrow> buf
      | Some p \<Rightarrow> write_info_log (pinfo_log p) bufSize buf)"

section \<open>Compiling a shader\<close>

text \<open>
  \<open>compileShader\<close>, lines 31 to 53. \<open>int32(len(source))\<close> truncates; \<open>logLength+1\<close> is
  32-bit addition and \<open>int(...)\<close> reads it signed.
\<close>

definition compileShader ::
  "string \<Rightarrow> u32 \<Rightarrow> world \<Rightarrow> panic + ((u32 \<times> error option) \<times> world)" where
  "compileShader source shaderType w0 =
     (let (shader, w1) = gl_CreateShader shaderType w0;
          csourceslength = (word_of_nat (length source) :: i32);
          w2 = gl_ShaderSource shader source csourceslength w1;
          w3 = gl_CompileShader shader w2;
          status = gl_GetShaderiv shader COMPILE_STATUS 0 w3
      in if status = FALSE then
           (let logLength = gl_GetShaderiv shader INFO_LOG_LENGTH 0 w3
            in bindP (strings_Repeat [NUL] (sint (logLength + 1))) (\<lambda>log0.
               bindP (gl_Str log0) (\<lambda>buf.
                 let log = gl_GetShaderInfoLog shader logLength buf w3
                 in Inr ((0, Some (Errorf (''failed to compile '' @ source @ '': '' @ log))),
                         w3))))
         else Inr ((shader, None), w3))"

text \<open>\<open>readFile\<close>, lines 55 to 66: the content of the file, or the error of \<open>os.Open\<close>.\<close>

definition readFile :: "string \<Rightarrow> world \<Rightarrow> string \<times> error option" where
  "readFile name w =
     (case files w name of
        Inl err \<Rightarrow> ([], Some err)
      | Inr content \<Rightarrow> (content, None))"

section \<open>Linking a program\<close>

text \<open>
  \<open>NewProgram\<close>, lines 85 to 103: the block that compiles the two tessellation stages.
  It yields the two variables (zero when the block is skipped) and the error with which
  \<open>NewProgram\<close> returns from inside the block, if it does.
\<close>

definition NewProgram_tessellation ::
  "bool \<Rightarrow> string \<Rightarrow> string \<Rightarrow> world \<Rightarrow> panic + ((u32 \<times> u32 \<times> error option) \<times> world)" where
  "NewProgram_tessellation useTessellationShader tessControlShaderName tessEvalShaderName w0 =
     (if useTessellationShader then
        (case readFile tessControlShaderName w0 of
           (_, Some err) \<Rightarrow> Inr ((0, 0, Some err), w0)
         | (tessControlSource, None) \<Rightarrow>
        bindP (compileShader tessControlSource TESS_CONTROL_SHADER w0)
          (\<lambda>((tessControlShader, err), w1).
        if err \<noteq> None then Inr ((tessControlShader, 0, err), w1)
        else
        (case readFile tessEvalShaderName w1 of
           (_, Some err) \<Rightarrow> Inr ((tessControlShader, 0, Some err), w1)
         | (tessEvalSource, None) \<Rightarrow>
        bindP (compileShader tessEvalSource TESS_EVALUATION_SHADER w1)
          (\<lambda>((tessEvalShader, err), w2).
        Inr ((tessControlShader, tessEvalShader, err), w2)))))
      else Inr ((0, 0, None), w0))"

text \<open>\<open>NewProgram\<close>, lines 114 to 124: the block that compiles the geometry stage.\<close>

definition NewProgram_geometry ::
  "bool \<Rightarrow> string \<Rightarrow> world \<Rightarrow> panic + ((u32 \<times> error option) \<times> world)" where
  "NewProgram_geometry useGeometryShader geometryShaderName w0 =
     (if useGeometryShader then
        (case readFile geometryShaderName w0 of
           (_, Some err) \<Rightarrow> Inr ((0, Some err), w0)
         | (geometryShaderSource, None) \<Rightarrow>
             compileShader geometryShaderSource GEOMETRY_SHADER w0)
      else Inr ((0, None), w0))"

text \<open>
  \<open>NewProgram\<close>, lines 126 to 161: create the program, attach the stages, link, check
  the link status, and delete the stage objects.
\<close>

definition NewProgram_link ::
  "bool \<Rightarrow> bool \<Rightarrow> u32 \<Rightarrow> u32 \<Rightarrow> u32 \<Rightarrow> u32 \<Rightarrow> u32 \<Rightarrow> world
     \<Rightarrow> panic + ((u32 \<times> error option) \<times> world)" where
  "NewProgram_link useTessellationShader useGeometryShader vertexShader tessControlShader
       tessEvalShader fragmentShader geometryShader w0 =
     (let (program, w1) = gl_CreateProgram w0;
          w2 = gl_AttachShader program vertexShader w1;
          w3 = (if useTessellationShader
                then gl_AttachShader program tessEvalShader
                       (gl_AttachShader program tessControlShader w2)
                else w2);
          w4 = gl_AttachShader program fragmentShader w3;
          w5 = (if useGeometryShader then gl_AttachShader program geometryShader w4 else w4);
          w6 = gl_LinkProgram program w5;
          status = gl_GetProgramiv program LINK_STATUS 0 w6
      in if status = FALSE then
           (let logLength = gl_GetProgramiv program INFO_LOG_LENGTH 0 w6
            in bindP (strings_Repeat [NUL] (sint (logLength + 1))) (\<lambda>log0.
               bindP (gl_Str log0) (\<lambda>buf.
                 let log = gl_GetProgramInfoLog program logLength buf w6
                 in Inr ((0, Some (Errorf (''failed to link program: '' @ log))), w6))))
         else
           (let w7 = gl_DeleteShader vertexShader w6;
                w8 = (if useTessellationShader
                      then gl_DeleteShader tessEvalShader (gl_DeleteShader tessControlShader w7)
                      else w7);
                w9 = gl_DeleteShader fragmentShader w8;
                w10 = (if useGeometryShader then gl_DeleteShader geometryShader w9 else w9)
            in Inr ((program, None), w10)))"

text \<open>\<open>NewProgram\<close>, lines 70 to 162. \<open>fmt.Printf\<close> appends to the standard output.\<close>

definition NewProgram ::
  "string \<Rightarrow> string \<Rightarrow> string \<Rightarrow> string \<Rightarrow> string \<Rightarrow> world
     \<Rightarrow> panic + ((u32 \<times> error option) \<times> world)" where
  "NewProgram vertexShaderName geometryShaderName tessControlShaderName tessEvalShaderName
       fragmentShaderName w0 =
     (let useTessellationShader = (tessControlShaderName \<noteq> [] \<and> tessEvalShaderName \<noteq> []);
          useGeometryShader = (geometryShaderName \<noteq> [])
      in
      case readFile vertexShaderName w0 of
        (_, Some err) \<Rightarrow> Inr ((0, Some err), w0)
      | (vertexShaderSource, None) \<Rightarrow>
      bindP (compileShader vertexShaderSource VERTEX_SHADER w0) (\<lambda>((vertexShader, err), w1).
      case err of
        Some e \<Rightarrow>
          Inr ((0, err), w1\<lparr>stdout := stdout w1 @ ''error: '' @ Error e @ [CHR 0x0A]\<rparr>)
      | None \<Rightarrow>
      bindP (NewProgram_tessellation useTessellationShader tessControlShaderName
               tessEvalShaderName w1)
        (\<lambda>((tessControlShader, tessEvalShader, err), w2).
      if err \<noteq> None then Inr ((0, err), w2)
      else
      case readFile fragmentShaderName w2 of
        (_, Some err) \<Rightarrow> Inr ((0, Some err), w2)
      | (fragmentShaderSource, None) \<Rightarrow>
      bindP (compileShader fragmentShaderSource FRAGMENT_SHADER w2)
        (\<lambda>((fragmentShader, err), w3).
      if err \<noteq> None then Inr ((0, err), w3)
      else
      bindP (NewProgram_geometry useGeometryShader geometryShaderName w3)
        (\<lambda>((geometryShader, err), w4).
      if err \<noteq> None then Inr ((0, err), w4)
      else NewProgram_link useTessellationShader useGeometryShader vertexShader
             tessControlShader tessEvalShader fragmentShader geometryShader w4)))))"

text \<open>\<open>NewComputeProgram\<close>, lines 164 to 194.\<close>

definition NewComputeProgram ::
  "string \<Rightarrow> world \<Rightarrow> panic + ((u32 \<times> error option) \<times> world)" where
  "NewComputeProgram computeShaderName w0 =
     (case readFile computeShaderName w0 of
        (_, Some err) \<Rightarrow> Inr ((0, Some err), w0)
      | (computeShaderSource, None) \<Rightarrow>
      bindP (compileShader computeShaderSource COMPUTE_SHADER w0)
        (\<lambda>((computeShader, err), w1).
      if err \<noteq> None then Inr ((0, err), w1)
      else
        (let (program, w2) = gl_CreateProgram w1;
             w3 = gl_AttachShader program computeShader w2;
             w4 = gl_LinkProgram program w3;
             status = gl_GetProgramiv program LINK_STATUS 0 w4
         in if status = FALSE then
              (let logLength = gl_GetProgramiv program INFO_LOG_LENGTH 0 w4
               in bindP (strings_Repeat [NUL] (sint (logLength + 1))) (\<lambda>log0.
                  bindP (gl_Str log0) (\<lambda>buf.
                    let log = gl_GetProgramInfoLog program logLength buf w4
                    in Inr ((0, Some (Errorf (''failed to link program: '' @ log))), w4))))
            else Inr ((program, None), gl_DeleteShader computeShader w4))))"

section \<open>Textures and framebuffers\<close>

subsection \<open>The driver's texture and framebuffer objects\<close>

definition new_texture :: texture_obj where
  "new_texture = \<lparr>tparams = (\<lambda>_. None), tstore = NoStorage\<rparr>"

definition gl_GenTextures :: "world \<Rightarrow> u32 \<times> world" where
  "gl_GenTextures w =
     (let (n, w') = gen_name w
      in (n, w'\<lparr>textures := (textures w')(n := new_texture)\<rparr>))"

definition gl_BindTexture :: "u32 \<Rightarrow> u32 \<Rightarrow> world \<Rightarrow> world" where
  "gl_BindTexture target texture w = w\<lparr>tex_binding := (tex_binding w)(target := texture)\<rparr>"

text \<open>A parameter is set on the texture that is bound to the target of the call.\<close>

definition gl_TexParameteri :: "u32 \<Rightarrow> u32 \<Rightarrow> i32 \<Rightarrow> world \<Rightarrow> world" where
  "gl_TexParameteri target pname param w =
     (let t = tex_binding w target; obj = textures w t
      in w\<lparr>textures := (textures w)(t := obj\<lparr>tparams := (tparams obj)(pname \<mapsto> param)\<rparr>)\<rparr>)"

text \<open>Storage is given to the texture bound to the target; the default texture takes none.\<close>

definition gl_TexStorage2D :: "u32 \<Rightarrow> i32 \<Rightarrow> u32 \<Rightarrow> i32 \<Rightarrow> i32 \<Rightarrow> world \<Rightarrow> world" where
  "gl_TexStorage2D target levels internalformat width height w =
     (let t = tex_binding w target
      in if t = 0 then w
         else w\<lparr>textures := (textures w)(t := (textures w t)
                \<lparr>tstore := Storage2D levels internalformat width height\<rparr>)\<rparr>)"

definition gl_TexStorage2DMultisample ::
  "u32 \<Rightarrow> i32 \<Rightarrow> u32 \<Rightarrow> i32 \<Rightarrow> i32 \<Rightarrow> bool \<Rightarrow> world \<Rightarrow> world" where
  "gl_TexStorage2DMultisample target samples internalformat width height fixed w =
     (let t = tex_binding w target
      in if t = 0 then w
         else w\<lparr>textures := (textures w)(t := (textures w t)
                \<lparr>tstore := Storage2DMultisample samples internalformat width height fixed\<rparr>)\<rparr>)"

definition gl_TexImage2D ::
  "u32 \<Rightarrow> i32 \<Rightarrow> i32 \<Rightarrow> i32 \<Rightarrow> i32 \<Rightarrow> i32 \<Rightarrow> u32 \<Rightarrow> u32 \<Rightarrow> u8 list \<Rightarrow> world \<Rightarrow> world" where
  "gl_TexImage2D target level internalformat width height border format xtype pixels w =
     (let t = tex_binding w target
      in w\<lparr>textures := (textures w)(t := (textures w t)
             \<lparr>tstore := TexImage level internalformat width height border format xtype pixels\<rparr>)\<rparr>)"

definition new_fbo :: fbo_obj where
  "new_fbo = \<lparr>attachments = (\<lambda>_. None)\<rparr>"

definition gl_GenFramebuffers :: "world \<Rightarrow> u32 \<times> world" where
  "gl_GenFramebuffers w =
     (let (n, w') = gen_name w
      in (n, w'\<lparr>framebuffers := (framebuffers w')(n := new_fbo)\<rparr>))"

definition gl_BindFramebuffer :: "u32 \<Rightarrow> u32 \<Rightarrow> world \<Rightarrow> world" where
  "gl_BindFramebuffer target framebuffer w =
     w\<lparr>fbo_binding := (fbo_binding w)(target := framebuffer)\<rparr>"

definition gl_FramebufferTexture2D :: "u32 \<Rightarrow> u32 \<Rightarrow> u32 \<Rightarrow> u32 \<Rightarrow> i32 \<Rightarrow> world \<Rightarrow> world" where
  "gl_FramebufferTexture2D target attachment textarget texture level w =
     (let f = fbo_binding w target; obj = framebuffers w f
      in if f = 0 then w
         else w\<lparr>framebuffers := (framebuffers w)(f := obj
                \<lparr>attachments := (attachments obj)(attachment \<mapsto> (textarget, texture, level))\<rparr>)\<rparr>)"

subsection \<open>The factory functions\<close>

text \<open>\<open>CreateTexture\<close>, lines 196 to 218. \<open>format\<close> and \<open>internalType\<close> are not used.\<close>

definition CreateTexture ::
  "i32 \<Rightarrow> i32 \<Rightarrow> u32 \<Rightarrow> u32 \<Rightarrow> u32 \<Rightarrow> bool \<Rightarrow> i32 \<Rightarrow> i32 \<Rightarrow> world \<Rightarrow> u32 \<times> world" where
  "CreateTexture width height internalFormat format internalType multisampling samples
       mipmapLevels w0 =
     (let texType = (if multisampling then TEXTURE_2D_MULTISAMPLE else TEXTURE_2D);
          (tex, w1) = gl_GenTextures w0;
          w2 = gl_BindTexture texType tex w1;
          w3 = gl_TexParameteri TEXTURE_2D TEXTURE_WRAP_S CLAMP_TO_EDGE w2;
          w4 = gl_TexParameteri TEXTURE_2D TEXTURE_WRAP_T CLAMP_TO_EDGE w3;
          w5 = gl_TexParameteri TEXTURE_2D TEXTURE_MIN_FILTER NEAREST w4;
          w6 = gl_TexParameteri TEXTURE_2D TEXTURE_MAG_FILTER NEAREST w5;
          w7 = (if multisampling
                then gl_TexStorage2DMultisample TEXTURE_2D_MULTISAMPLE samples internalFormat
                       width height False w6
                else gl_TexStorage2D TEXTURE_2D mipmapLevels internalFormat width height w6)
      in (tex, w7))"

text \<open>
  \<open>CreateImageTexture\<close>, lines 220 to 249. \<open>img.Img.Bounds()\<close> on a nil \<open>Img\<close> panics, at
  line 234, after the message of line 226 is printed. \<open>gl.Ptr\<close> is evaluated as the last
  argument of \<open>gl.TexImage2D\<close>, after the calls of lines 237 to 242. A panic is returned
  with the world it leaves behind, so what was printed and done before it is kept.
  \<open>int32(...)\<close> truncates the bounds.
\<close>

definition CreateImageTexture ::
  "string \<Rightarrow> bool \<Rightarrow> world \<Rightarrow> (panic \<times> world) + (ImageTexture \<times> world)" where
  "CreateImageTexture imageName isRepeating w0 =
     (let (img, err) = load_image w0 imageName;
          w1 = (case err of
                  None \<Rightarrow> w0
                | Some e \<Rightarrow>
                    w0\<lparr>stdout := stdout w0 @ ''Image load failed: '' @ Error e @ ''.'' @ [CHR 0x0A]\<rparr>);
          textureWrap = (if isRepeating then REPEAT else CLAMP_TO_EDGE)
      in case Img img of
           None \<Rightarrow> Inl (Panic ''invalid memory address or nil pointer dereference'', w1)
         | Some im \<Rightarrow>
             (case RGBA_Pix im of
                Inl p \<Rightarrow> Inl (p, w1)
              | Inr Pix \<Rightarrow>
                  (let (handle, w2) = gl_GenTextures w1;
                       w3 = gl_BindTexture TEXTURE_2D handle w2;
                       w4 = gl_TexParameteri TEXTURE_2D TEXTURE_WRAP_S textureWrap w3;
                       w5 = gl_TexParameteri TEXTURE_2D TEXTURE_WRAP_T textureWrap w4;
                       w6 = gl_TexParameteri TEXTURE_2D TEXTURE_MIN_FILTER NEAREST w5;
                       w7 = gl_TexParameteri TEXTURE_2D TEXTURE_MAG_FILTER NEAREST w6
                   in case gl_Ptr Pix of
                        Inl p \<Rightarrow> Inl (p, w7)
                      | Inr pixels \<Rightarrow>
                          (let w8 = gl_TexImage2D TEXTURE_2D 0 RGBA8
                                      (word_of_int (Bounds_Max_X im))
                                      (word_of_int (Bounds_Max_Y im)) 0 RGBA UNSIGNED_BYTE
                                      pixels w7
                           in Inr (\<lparr>TextureHandle = handle,
                                    TextureSize = (float32_of_int w8 (Bounds_Max_X im),
                                                   float32_of_int w8 (Bounds_Max_Y im))\<rparr>,
                                   w8)))))"

text \<open>
  A \<open>*uint32\<close> is an address into \<open>mem\<close>, or nil (\<open>None\<close>).
  \<open>CreateFboWithExistingTextures\<close>, lines 251 to 267.
\<close>

definition CreateFboWithExistingTextures ::
  "nat option \<Rightarrow> nat option \<Rightarrow> u32 \<Rightarrow> world \<Rightarrow> u32 \<times> world" where
  "CreateFboWithExistingTextures colorTex depthTex texType w0 =
     (let (fbo, w1) = gl_GenFramebuffers w0;
          w2 = gl_BindFramebuffer FRAMEBUFFER fbo w1;
          w3 = (case colorTex of
                  None \<Rightarrow> w2
                | Some c \<Rightarrow> gl_FramebufferTexture2D FRAMEBUFFER COLOR_ATTACHMENT0 texType
                             (mem w2 c) 0 w2);
          w4 = (case depthTex of
                  None \<Rightarrow> w3
                | Some d \<Rightarrow> gl_FramebufferTexture2D FRAMEBUFFER DEPTH_ATTACHMENT texType
                             (mem w3 d) 0 w3);
          w5 = gl_BindFramebuffer FRAMEBUFFER 0 w4
      in (fbo, w5))"

text \<open>The assignment \<open>*p = CreateTexture(...)\<close>.\<close>

definition store_texture :: "nat \<Rightarrow> u32 \<times> world \<Rightarrow> world" where
  "store_texture p r = (let (tex, w) = r in w\<lparr>mem := (mem w)(p := tex)\<rparr>)"

text \<open>\<open>CreateLightFbo\<close>, lines 270 to 285.\<close>

definition CreateLightFbo ::
  "nat option \<Rightarrow> nat option \<Rightarrow> i32 \<Rightarrow> i32 \<Rightarrow> bool \<Rightarrow> i32 \<Rightarrow> world \<Rightarrow> u32 \<times> world" where
  "CreateLightFbo colorTex depthTex width height multisampling samples w0 =
     (let w1 = (case colorTex of
                  None \<Rightarrow> w0
                | Some c \<Rightarrow> store_texture c
                    (CreateTexture width height RG32F RG FLOAT multisampling samples 1 w0));
          w2 = (case depthTex of
                  None \<Rightarrow> w1
                | Some d \<Rightarrow> store_texture d
                    (CreateTexture width height DEPTH_COMPONENT32 DEPTH_COMPONENT FLOAT
                       multisampling samples 1 w1));
          texType = (if multisampling then TEXTURE_2D_MULTISAMPLE else TEXTURE_2D)
      in CreateFboWithExistingTextures colorTex depthTex texType w2)"

text \<open>\<open>CreateFbo\<close>, lines 287 to 311.\<close>

definition CreateFbo ::
  "nat option \<Rightarrow> nat option \<Rightarrow> i32 \<Rightarrow> i32 \<Rightarrow> bool \<Rightarrow> i32 \<Rightarrow> bool \<Rightarrow> i32 \<Rightarrow> world
     \<Rightarrow> u32 \<times> world" where
  "CreateFbo colorTex depthTex width height multisampling samples isFloatingPoint mipmapLevels
       w0 =
     (let intFormat = (if isFloatingPoint then RGBA32F else RGBA8);
          format = RGBA;
          ttype = (if isFloatingPoint then FLOAT else UNSIGNED_BYTE);
          w1 = (case colorTex of
                  None \<Rightarrow> w0
                | Some c \<Rightarrow> store_texture c
                    (CreateTexture width height intFormat format ttype multisampling samples
                       mipmapLevels w0));
          w2 = (case depthTex of
                  None \<Rightarrow> w1
                | Some d \<Rightarrow> store_texture d
                    (CreateTexture width height DEPTH_COMPONENT32 DEPTH_COMPONENT FLOAT
                       multisampling samples 1 w1));
          texType = (if multisampling then TEXTURE_2D_MULTISAMPLE else TEXTURE_2D)
      in CreateFboWithExistingTextures colorTex depthTex texType w2)"

section \<open>Vertex and index buffers\<close>

subsection \<open>The driver's buffer and vertex array objects\<close>

definition gl_GenBuffers :: "world \<Rightarrow> u32 \<times> world" where
  "gl_GenBuffers w =
     (let (n, w') = gen_name w
      in (n, w'\<lparr>buffers := (buffers w')(n := None)\<rparr>))"

definition gl_BindBuffer :: "u32 \<Rightarrow> u32 \<Rightarrow> world \<Rightarrow> world" where
  "gl_BindBuffer target buffer w = w\<lparr>buffer_binding := (buffer_binding w)(target := buffer)\<rparr>"

text \<open>The data go to the buffer bound to the target; with nothing bound the call fails.\<close>

definition gl_BufferData :: "u32 \<Rightarrow> int \<Rightarrow> payload \<Rightarrow> u32 \<Rightarrow> world \<Rightarrow> world" where
  "gl_BufferData target nbytes payload usage w =
     (let b = buffer_binding w target
      in if b = 0 then w
         else w\<lparr>buffers := (buffers w)(b \<mapsto>
                \<lparr>bsize = nbytes, bdata = payload, busage = usage\<rparr>)\<rparr>)"

text \<open>Deleting a buffer unbinds it; name 0 is ignored.\<close>

definition gl_DeleteBuffers :: "u32 \<Rightarrow> world \<Rightarrow> world" where
  "gl_DeleteBuffers buffer w =
     (if buffer = 0 then w
      else w\<lparr>buffers := (buffers w)(buffer := None),
             buffer_binding := (\<lambda>t. if buffer_binding w t = buffer then 0
                                     else buffer_binding w t)\<rparr>)"

definition new_vao :: vao_obj where
  "new_vao = \<lparr>enabled = {}, pointers = (\<lambda>_. None)\<rparr>"

definition gl_GenVertexArrays :: "world \<Rightarrow> u32 \<times> world" where
  "gl_GenVertexArrays w =
     (let (n, w') = gen_name w
      in (n, w'\<lparr>vaos := (vaos w')(n := new_vao)\<rparr>))"

definition gl_BindVertexArray :: "u32 \<Rightarrow> world \<Rightarrow> world" where
  "gl_BindVertexArray array w = w\<lparr>vao_binding := array\<rparr>"

text \<open>Attribute state belongs to the bound vertex array; with none bound the calls fail.\<close>

definition gl_EnableVertexAttribArray :: "u32 \<Rightarrow> world \<Rightarrow> world" where
  "gl_EnableVertexAttribArray index w =
     (let v = vao_binding w; obj = vaos w v
      in if v = 0 then w
         else w\<lparr>vaos := (vaos w)(v := obj\<lparr>enabled := insert index (enabled obj)\<rparr>)\<rparr>)"

definition gl_VertexAttribPointer ::
  "u32 \<Rightarrow> i32 \<Rightarrow> u32 \<Rightarrow> bool \<Rightarrow> i32 \<Rightarrow> int \<Rightarrow> world \<Rightarrow> world" where
  "gl_VertexAttribPointer index ncomponents xtype normalized stride offset w =
     (let v = vao_binding w; obj = vaos w v
      in if v = 0 then w
         else w\<lparr>vaos := (vaos w)(v := obj\<lparr>pointers := (pointers obj)(index \<mapsto>
                \<lparr>asize = ncomponents, atype = xtype, anormalized = normalized, astride = stride,
                 aoffset = offset, abuffer = buffer_binding w ARRAY_BUFFER\<rparr>)\<rparr>)\<rparr>)"

definition gl_DeleteVertexArrays :: "u32 \<Rightarrow> world \<Rightarrow> world" where
  "gl_DeleteVertexArrays array w =
     (if array = 0 then w
      else w\<lparr>vaos := (vaos w)(array := new_vao),
             vao_binding := (if vao_binding w = array then 0 else vao_binding w)\<rparr>)"

subsection \<open>Packing and releasing\<close>

text \<open>
  The \<open>*MeshBuffer\<close> argument is the record, passed in and returned. \<open>unsafe.Sizeof\<close> of a
  \<open>Vec2\<close> is 8 and of a \<open>uint32\<close> is 4. A Go \<open>int\<close> is an \<open>int\<close>; \<open>int32(len(...))\<close> truncates.
\<close>

definition sizeof_Vec2 :: int where
  "sizeof_Vec2 = 8"

definition sizeof_uint32 :: int where
  "sizeof_uint32 = 4"

text \<open>\<open>GenerateBufferFromTriangles2D\<close>, lines 313 to 335.\<close>

definition GenerateBufferFromTriangles2D ::
  "MeshBuffer \<Rightarrow> Vec2 list \<Rightarrow> world \<Rightarrow> MeshBuffer \<times> world" where
  "GenerateBufferFromTriangles2D bufferObject points w0 =
     (if length points < 3 then (bufferObject, w0)
      else
        (let stride = (word_of_int sizeof_Vec2 :: i32);
             (a, w1) = gl_GenBuffers w0;
             b1 = bufferObject\<lparr>ArrayBuffer := a\<rparr>;
             w2 = gl_BindBuffer ARRAY_BUFFER (ArrayBuffer b1) w1;
             w3 = gl_BufferData ARRAY_BUFFER (sint stride * int (length points))
                    (Points points) STATIC_DRAW w2;
             (v, w4) = gl_GenVertexArrays w3;
             b2 = b1\<lparr>VertexBuffer := v\<rparr>;
             w5 = gl_BindVertexArray (VertexBuffer b2) w4;
             w6 = gl_EnableVertexAttribArray 0 w5;
             w7 = gl_VertexAttribPointer 0 2 FLOAT False stride 0 w6;
             b3 = b2\<lparr>VertexCount := word_of_nat (length points)\<rparr>;
             w8 = gl_BindBuffer ARRAY_BUFFER 0 w7
         in (b3, w8)))"

text \<open>\<open>GenerateBufferFromLines2D\<close>, lines 337 to 368.\<close>

definition GenerateBufferFromLines2D ::
  "MeshBuffer \<Rightarrow> Vec2 list \<Rightarrow> u32 list \<Rightarrow> world \<Rightarrow> MeshBuffer \<times> world" where
  "GenerateBufferFromLines2D bufferObject points indices w0 =
     (if length points < 2 \<or> length indices < 2 then (bufferObject, w0)
      else
        (let stride = (word_of_int sizeof_Vec2 :: i32);
             uiStride = sizeof_uint32;
             (a, w1) = gl_GenBuffers w0;
             b1 = bufferObject\<lparr>ArrayBuffer := a\<rparr>;
             w2 = gl_BindBuffer ARRAY_BUFFER (ArrayBuffer b1) w1;
             w3 = gl_BufferData ARRAY_BUFFER (sint stride * int (length points))
                    (Points points) STATIC_DRAW w2;
             (v, w4) = gl_GenVertexArrays w3;
             b2 = b1\<lparr>VertexBuffer := v\<rparr>;
             w5 = gl_BindVertexArray (VertexBuffer b2) w4;
             w6 = gl_EnableVertexAttribArray 0 w5;
             w7 = gl_VertexAttribPointer 0 2 FLOAT False stride 0 w6;
             b3 = b2\<lparr>VertexCount := word_of_nat (length points)\<rparr>;
             w8 = gl_BindBuffer ARRAY_BUFFER 0 w7;
             (i, w9) = gl_GenBuffers w8;
             b4 = b3\<lparr>IndexBuffer := i\<rparr>;
             w10 = gl_BindBuffer ELEMENT_ARRAY_BUFFER (IndexBuffer b4) w9;
             w11 = gl_BufferData ELEMENT_ARRAY_BUFFER (uiStride * int (length indices))
                     (Indices indices) STATIC_DRAW w10;
             w12 = gl_BindBuffer ELEMENT_ARRAY_BUFFER 0 w11;
             b5 = b4\<lparr>IndexCount := word_of_nat (length indices)\<rparr>
         in (b5, w12)))"

text \<open>\<open>FreeGLBuffer\<close>, lines 370 to 385. The counts are \<open>int32\<close>, compared signed.\<close>

definition FreeGLBuffer :: "MeshBuffer \<Rightarrow> world \<Rightarrow> MeshBuffer \<times> world" where
  "FreeGLBuffer buffer w0 =
     (let (b1, w1) =
            (if 0 < sint (VertexCount buffer)
             then (buffer\<lparr>VertexCount := 0, ArrayBuffer := 0, VertexBuffer := 0\<rparr>,
                   gl_DeleteVertexArrays (VertexBuffer buffer)
                     (gl_DeleteBuffers (ArrayBuffer buffer) w0))
             else (buffer, w0))
      in if 0 < sint (IndexCount b1)
         then (b1\<lparr>VertexCount := 0, IndexBuffer := 0\<rparr>, gl_DeleteBuffers (IndexBuffer b1) w1)
         else (b1, w1))"

section \<open>A small world to run the functions in\<close>

text \<open>
  Every file but "missing" exists and holds its own name as content; the shader compiler
  rejects the source "bad", the linker rejects a fragment stage "nolink"; the image
  "missing" fails to load and leaves no image, "broken" fails to load and leaves an image,
  every other image is two by one pixels. The conversion to \<open>float32\<close> is right on 0, 1
  and 2. One texture, 7, is bound to the 2D target.
\<close>

definition demo_image :: Image where
  "demo_image = \<lparr>Bounds_Max_X = 2, Bounds_Max_Y = 1,
                 RGBA_Pix = Inr [0, 0, 0, 255, 255, 255, 255, 255]\<rparr>"

definition demo_world :: world where
  "demo_world =
     \<lparr>files = (\<lambda>name. if name = ''missing''
                       then Inl (Errorf ''open missing: no such file or directory'')
                       else Inr name),
      compiler = (\<lambda>ty src. if src = ''bad'' then (False, ''syntax error'') else (True, [])),
      linker = (\<lambda>stages. if (FRAGMENT_SHADER, ''nolink'') \<in> set stages
                          then (False, ''link error'') else (True, [])),
      load_image = (\<lambda>name. if name = ''missing''
                            then (\<lparr>Img = None\<rparr>, Some (Errorf ''open missing: no such file''))
                            else if name = ''broken''
                            then (\<lparr>Img = Some demo_image\<rparr>, Some (Errorf ''unexpected EOF''))
                            else (\<lparr>Img = Some demo_image\<rparr>, None)),
      float32_of_int = (\<lambda>k. if k = 1 then 0x3F800000 else if k = 2 then 0x40000000 else 0),
      stdout = [],
      mem = (\<lambda>_. 0),
      name_count = 7,
      shaders = (\<lambda>_. None),
      programs = (\<lambda>_. None),
      textures = (\<lambda>_. new_texture),
      tex_binding = (\<lambda>t. if t = TEXTURE_2D then 7 else 0),
      framebuffers = (\<lambda>_. new_fbo),
      fbo_binding = (\<lambda>_. 0),
      buffers = (\<lambda>_. None),
      buffer_binding = (\<lambda>_. 0),
      vaos = (\<lambda>_. new_vao),
      vao_binding = 0\<rparr>"

text \<open>A zero \<open>MeshBuffer\<close> and the points (0, 0), (1, 0), (0, 1).\<close>

definition empty_mesh :: MeshBuffer where
  "empty_mesh = \<lparr>ArrayBuffer = 0, VertexBuffer = 0, VertexCount = 0, IndexBuffer = 0,
                  IndexCount = 0\<rparr>"

definition demo_points :: "Vec2 list" where
  "demo_points = [(0, 0), (0x3F800000, 0), (0, 0x3F800000)]"

section \<open>Notions the properties are stated with\<close>

subsection \<open>Shaders and programs\<close>

text \<open>
  What the driver's compiler says of a source string, as \<open>compileShader\<close> hands it over,
  and the world after \<open>compileShader\<close>: one more name handed out, and the shader object of
  that name.
\<close>

definition compiles :: "string \<Rightarrow> u32 \<Rightarrow> world \<Rightarrow> bool" where
  "compiles source shaderType w =
     fst (compiler w shaderType (shader_text source (word_of_nat (length source))))"

definition compile_log :: "string \<Rightarrow> u32 \<Rightarrow> world \<Rightarrow> string" where
  "compile_log source shaderType w =
     snd (compiler w shaderType (shader_text source (word_of_nat (length source))))"

definition after_compile :: "string \<Rightarrow> u32 \<Rightarrow> world \<Rightarrow> world" where
  "after_compile source shaderType w =
     (let text = shader_text source (word_of_nat (length source));
          (ok, lg) = compiler w shaderType text
      in w\<lparr>name_count := Suc (name_count w),
           shaders := (shaders w)(name_of (name_count w) \<mapsto>
             \<lparr>stype = shaderType, ssource = text, compile_status = ok, sinfo_log = lg,
              delete_status = False\<rparr>)\<rparr>)"

text \<open>
  The stage objects \<open>NewProgram\<close> attaches, in the order of its calls, and their stage
  types.
\<close>

definition stage_handles :: "bool \<Rightarrow> bool \<Rightarrow> u32 \<Rightarrow> u32 \<Rightarrow> u32 \<Rightarrow> u32 \<Rightarrow> u32 \<Rightarrow> u32 list" where
  "stage_handles useTessellationShader useGeometryShader vertexShader tessControlShader
       tessEvalShader fragmentShader geometryShader =
     [vertexShader] @ (if useTessellationShader then [tessControlShader, tessEvalShader] else [])
       @ [fragmentShader] @ (if useGeometryShader then [geometryShader] else [])"

definition stage_types :: "bool \<Rightarrow> bool \<Rightarrow> u32 list" where
  "stage_types useTessellationShader useGeometryShader =
     [VERTEX_SHADER]
       @ (if useTessellationShader then [TESS_CONTROL_SHADER, TESS_EVALUATION_SHADER] else [])
       @ [FRAGMENT_SHADER] @ (if useGeometryShader then [GEOMETRY_SHADER] else [])"

definition attach_all :: "u32 \<Rightarrow> u32 list \<Rightarrow> world \<Rightarrow> world" where
  "attach_all program hs w = foldl (\<lambda>w h. gl_AttachShader program h w) w hs"

definition delete_all :: "u32 list \<Rightarrow> world \<Rightarrow> world" where
  "delete_all hs w = foldl (\<lambda>w h. gl_DeleteShader h w) w hs"

text \<open>
  What the driver's linker says of the attached stages, and the world after the program
  is created, the stages are attached and the program is linked.
\<close>

definition links :: "u32 list \<Rightarrow> world \<Rightarrow> bool" where
  "links hs w = fst (linker w (concat (map (stage_of w) hs)))"

definition link_log :: "u32 list \<Rightarrow> world \<Rightarrow> string" where
  "link_log hs w = snd (linker w (concat (map (stage_of w) hs)))"

definition linked_world :: "u32 list \<Rightarrow> world \<Rightarrow> world" where
  "linked_world hs w =
     (let (ok, lg) = linker w (concat (map (stage_of w) hs))
      in w\<lparr>name_count := Suc (name_count w),
           programs := (programs w)(name_of (name_count w) \<mapsto>
             \<lparr>attached = hs, link_status = ok, pinfo_log = lg\<rparr>)\<rparr>)"

text \<open>
  The state of \<open>NewProgram\<close> between two stages: since the world \<open>w0\<close> of the call the
  driver has handed out one name for each shader of \<open>hs\<close>, in this order, these shaders
  exist with the stage types \<open>tys\<close>, and no program has changed.
\<close>

definition staged :: "world \<Rightarrow> world \<Rightarrow> u32 list \<Rightarrow> u32 list \<Rightarrow> bool" where
  "staged w0 w hs tys =
     (name_count w = name_count w0 + length hs
      \<and> hs = map (\<lambda>k. name_of (name_count w0 + k)) [0..<length hs]
      \<and> map (\<lambda>x. map_option stype (shaders w x)) hs = map Some tys
      \<and> programs w = programs w0)"

text \<open>
  The info logs of the driver fit the 32-bit length \<open>compileShader\<close> and \<open>NewProgram\<close>
  compute with: a log, its terminating NUL and the one byte the code adds.
\<close>

definition logs_fit :: "world \<Rightarrow> bool" where
  "logs_fit w =
     ((\<forall>ty src. length (snd (compiler w ty src)) + 2 < 2 ^ 31)
      \<and> (\<forall>stages. length (snd (linker w stages)) + 2 < 2 ^ 31))"

text \<open>The shader objects attached to a program, and the stage type of a shader object.\<close>

definition attached_to :: "u32 \<Rightarrow> world \<Rightarrow> u32 list" where
  "attached_to program w = (case programs w program of None \<Rightarrow> [] | Some p \<Rightarrow> attached p)"

definition stage_type :: "world \<Rightarrow> u32 \<Rightarrow> u32 option" where
  "stage_type w shader = map_option stype (shaders w shader)"

text \<open>
  The stages of a call of \<open>NewProgram\<close>, each a file name and a stage type, in the order
  the code reads and compiles them: vertex, the two tessellation stages when both of
  their names are given, fragment, geometry when its name is given. \<open>NewComputeProgram\<close>
  has the one stage of its file name, of type \<open>COMPUTE_SHADER\<close>.
\<close>

definition stage_list ::
  "string \<Rightarrow> string \<Rightarrow> string \<Rightarrow> string \<Rightarrow> string \<Rightarrow> (string \<times> u32) list" where
  "stage_list vertexShaderName geometryShaderName tessControlShaderName tessEvalShaderName
       fragmentShaderName =
     [(vertexShaderName, VERTEX_SHADER)]
       @ (if tessControlShaderName \<noteq> [] \<and> tessEvalShaderName \<noteq> []
          then [(tessControlShaderName, TESS_CONTROL_SHADER),
                (tessEvalShaderName, TESS_EVALUATION_SHADER)] else [])
       @ [(fragmentShaderName, FRAGMENT_SHADER)]
       @ (if geometryShaderName \<noteq> [] then [(geometryShaderName, GEOMETRY_SHADER)] else [])"

text \<open>
  The three failures of a call. The file of a stage cannot be read: \<open>readFile\<close> returns
  an error for its name. The source of a stage does not compile: the file is read, and
  the driver's compiler rejects its content for the type of the stage. The third, that
  the program does not link, is \<open>links\<close> above, of the names of the stage objects in the
  world after every stage is compiled.
\<close>

definition read_fails :: "world \<Rightarrow> string \<Rightarrow> bool" where
  "read_fails w name = (case files w name of Inl err \<Rightarrow> True | Inr content \<Rightarrow> False)"

definition stage_source :: "world \<Rightarrow> string \<Rightarrow> string" where
  "stage_source w name = (case files w name of Inl err \<Rightarrow> [] | Inr content \<Rightarrow> content)"

definition compile_fails :: "world \<Rightarrow> string \<times> u32 \<Rightarrow> bool" where
  "compile_fails w s =
     (\<not> read_fails w (fst s) \<and> \<not> compiles (stage_source w (fst s)) (snd s) w)"

definition stage_fails :: "world \<Rightarrow> string \<times> u32 \<Rightarrow> bool" where
  "stage_fails w s = (read_fails w (fst s) \<or> compile_fails w s)"

text \<open>
  The world after the stages \<open>ss\<close> are compiled one after the other, and the names the
  driver hands out for \<open>n\<close> objects from the world \<open>w\<close> on.
\<close>

definition stages_world :: "(string \<times> u32) list \<Rightarrow> world \<Rightarrow> world" where
  "stages_world ss w = foldl (\<lambda>v s. after_compile (stage_source w (fst s)) (snd s) v) w ss"

definition stage_names :: "nat \<Rightarrow> world \<Rightarrow> u32 list" where
  "stage_names n w = map (\<lambda>k. name_of (name_count w + k)) [0..<n]"

text \<open>
  The errors a call can return: the error of reading one of the named files, as
  \<open>readFile\<close> passes it on, the error of \<open>compileShader\<close>, or the error of the link check.
\<close>

definition error_kind :: "world \<Rightarrow> string list \<Rightarrow> error \<Rightarrow> bool" where
  "error_kind w names err =
     ((\<exists>n \<in> set names. files w n = Inl err)
      \<or> (\<exists>m. err = Errorf (''failed to compile '' @ m))
      \<or> (\<exists>m. err = Errorf (''failed to link program: '' @ m)))"

subsection \<open>Textures and framebuffers\<close>

text \<open>The four sampling parameters of a texture: wrap S, wrap T, min filter, mag filter.\<close>

definition sampling_of :: "world \<Rightarrow> u32 \<Rightarrow> i32 option list" where
  "sampling_of w t =
     map (tparams (textures w t))
       [TEXTURE_WRAP_S, TEXTURE_WRAP_T, TEXTURE_MIN_FILTER, TEXTURE_MAG_FILTER]"

text \<open>The internal format a texture's storage was given.\<close>

fun internal_format_of :: "tex_store \<Rightarrow> u32 option" where
  "internal_format_of NoStorage = None"
| "internal_format_of (Storage2D levels f wd ht) = Some f"
| "internal_format_of (Storage2DMultisample samples f wd ht fixed) = Some f"
| "internal_format_of (TexImage level f wd ht border format xtype pixels) = Some f"

text \<open>
  The type of the pixel data a storage was given with: only \<open>gl.TexImage2D\<close> takes one,
  \<open>gl.TexStorage2D\<close> and \<open>gl.TexStorage2DMultisample\<close> take an internal format alone. And
  the storage \<open>CreateTexture\<close> gives a texture.
\<close>

fun pixel_type_of :: "tex_store \<Rightarrow> u32 option" where
  "pixel_type_of NoStorage = None"
| "pixel_type_of (Storage2D levels f wd ht) = None"
| "pixel_type_of (Storage2DMultisample samples f wd ht fixed) = None"
| "pixel_type_of (TexImage level f wd ht border format xtype pixels) = Some xtype"

definition texture_storage :: "bool \<Rightarrow> i32 \<Rightarrow> i32 \<Rightarrow> u32 \<Rightarrow> i32 \<Rightarrow> i32 \<Rightarrow> tex_store" where
  "texture_storage multisampling samples mipmapLevels internalFormat width height =
     (if multisampling then Storage2DMultisample samples internalFormat width height False
      else Storage2D mipmapLevels internalFormat width height)"

text \<open>
  A framebuffer preset: through each pointer that is not nil a texture is created and
  stored, the color texture first; then the framebuffer is assembled from the two
  pointers.
\<close>

definition create_if :: "nat option \<Rightarrow> (world \<Rightarrow> u32 \<times> world) \<Rightarrow> world \<Rightarrow> world" where
  "create_if p create w = (case p of None \<Rightarrow> w | Some a \<Rightarrow> store_texture a (create w))"

definition fbo_with_textures ::
  "nat option \<Rightarrow> nat option \<Rightarrow> bool \<Rightarrow> (world \<Rightarrow> u32 \<times> world) \<Rightarrow> (world \<Rightarrow> u32 \<times> world)
     \<Rightarrow> world \<Rightarrow> u32 \<times> world" where
  "fbo_with_textures colorTex depthTex multisampling createColor createDepth w =
     CreateFboWithExistingTextures colorTex depthTex
       (if multisampling then TEXTURE_2D_MULTISAMPLE else TEXTURE_2D)
       (create_if depthTex createDepth (create_if colorTex createColor w))"

text \<open>
  What a preset leaves in the world \<open>w'\<close>. The driver has handed out one name for each
  pointer that is not nil, the color texture first, and one for the framebuffer. The
  texture created for a non-nil color pointer has the color storage, the one created for
  a non-nil depth pointer the depth storage, neither has a pixel type, and the storage of
  every other texture is as before. The name of each created texture is stored through
  its pointer (the depth texture last, if both pointers are the same address), and no
  other address is written.
\<close>

definition creates_textures ::
  "nat option \<Rightarrow> nat option \<Rightarrow> tex_store \<Rightarrow> tex_store \<Rightarrow> world \<Rightarrow> world \<Rightarrow> bool" where
  "creates_textures colorTex depthTex colorStorage depthStorage w w' =
     (let k = (if colorTex = None then 0 else 1);
          color = name_of (name_count w);
          depth = name_of (name_count w + k);
          created = (if colorTex = None then [] else [color])
                      @ (if depthTex = None then [] else [depth])
      in name_count w' = name_count w + length created + 1
         \<and> (colorTex \<noteq> None \<longrightarrow> tstore (textures w' color) = colorStorage)
         \<and> (depthTex \<noteq> None \<longrightarrow> tstore (textures w' depth) = depthStorage)
         \<and> (\<forall>t. t \<notin> set created \<longrightarrow> tstore (textures w' t) = tstore (textures w t))
         \<and> (\<forall>t \<in> set created. pixel_type_of (tstore (textures w' t)) = None)
         \<and> (\<forall>d. depthTex = Some d \<longrightarrow> mem w' d = depth)
         \<and> (\<forall>c. colorTex = Some c \<and> depthTex \<noteq> Some c \<longrightarrow> mem w' c = color)
         \<and> (\<forall>p. colorTex \<noteq> Some p \<and> depthTex \<noteq> Some p \<longrightarrow> mem w' p = mem w p))"

subsection \<open>Buffers and images\<close>

text \<open>
  The vertex array both packing functions set up: attribute 0 alone enabled, 2 FLOAT
  components, not normalised, stride of one \<open>Vec2\<close>, offset 0 in the given array buffer.
\<close>

definition vertex_layout :: "u32 \<Rightarrow> vao_obj" where
  "vertex_layout arrayBuffer =
     \<lparr>enabled = {0},
      pointers = (\<lambda>_. None)(0 \<mapsto>
        \<lparr>asize = 2, atype = FLOAT, anormalized = False, astride = word_of_int sizeof_Vec2,
         aoffset = 0, abuffer = arrayBuffer\<rparr>)\<rparr>"

text \<open>What \<open>CreateImageTexture\<close> prints for the error of the load.\<close>

definition load_message :: "error option \<Rightarrow> string" where
  "load_message err =
     (case err of None \<Rightarrow> [] | Some e \<Rightarrow> ''Image load failed: '' @ Error e @ ''.'' @ [CHR 0x0A])"

text \<open>The world a call of \<open>CreateImageTexture\<close> leaves, whether it returns or panics.\<close>

definition world_after :: "(panic \<times> world) + (ImageTexture \<times> world) \<Rightarrow> world" where
  "world_after r = (case r of Inl (p, w) \<Rightarrow> w | Inr (t, w) \<Rightarrow> w)"

section \<open>Properties\<close>

subsection \<open>Words, strings and object names\<close>

lemma sint_nat: "n < 2 ^ 31 \<Longrightarrow> sint (word_of_nat n :: 32 word) = int n"
proof -
  assume a: "n < 2 ^ 31"
  have "sint (word_of_nat n :: 32 word) = signed_take_bit 31 (int n)"
    using sint_sbintrunc' [where 'a = 32, of "int n"] by simp
  also have "\<dots> = int n"
    using a by (intro signed_take_bit_int_eq_self) auto
  finally show ?thesis by simp
qed

lemma concat_replicate_single: "concat (replicate n [c]) = replicate n c"
  by (induction n) simp_all

lemma drop_Cons_replicate: "drop n (c # replicate n c) = [c]"
  by (induction n) simp_all

lemma unat_name_of: "unat (name_of c) = c mod (2 ^ 32 - 1) + 1"
proof -
  have lt: "c mod (2 ^ 32 - 1) < (2 ^ 32 - 1 :: nat)" by simp
  have "unat (name_of c) = (c mod (2 ^ 32 - 1) + 1) mod 2 ^ 32"
    unfolding name_of_def by (simp add: unat_word_ariths unat_of_nat mod_simps)
  also have "\<dots> = c mod (2 ^ 32 - 1) + 1"
    using lt by simp
  finally show ?thesis .
qed

lemma name_of_nonzero: "name_of c \<noteq> 0"
proof
  assume "name_of c = 0"
  then have "unat (name_of c) = 0" by simp
  then show False by (simp add: unat_name_of)
qed

lemma name_of_distinct:
  assumes "0 < k" and "k < 2 ^ 32 - 1"
  shows "name_of (c + k) \<noteq> name_of c"
proof
  assume "name_of (c + k) = name_of c"
  then have "unat (name_of (c + k)) = unat (name_of c)" by simp
  then have "(c + k) mod (2 ^ 32 - 1) = c mod (2 ^ 32 - 1)"
    by (simp add: unat_name_of)
  then have "(2 ^ 32 - 1 :: nat) dvd k"
    by (metis add_diff_cancel_left' mod_eq_dvd_iff_nat le_add1)
  with assms show False
    by (auto dest: dvd_imp_le)
qed

subsection \<open>Reading an info log back\<close>

lemma sint_info_log_length:
  assumes "length lg + 2 < 2 ^ 31" and "lg \<noteq> []"
  shows "sint (info_log_length lg) = int (length lg) + 1"
    and "sint (info_log_length lg + 1) = int (length lg) + 2"
proof -
  have "sint (word_of_nat (length lg + 1) :: 32 word) = int (length lg + 1)"
    using assms by (intro sint_nat) simp
  then show "sint (info_log_length lg) = int (length lg) + 1"
    using assms by (simp add: info_log_length_def)
  have "sint (word_of_nat (length lg + 2) :: 32 word) = int (length lg + 2)"
    using assms by (intro sint_nat) simp
  moreover have "info_log_length lg + 1 = word_of_nat (length lg + 2)"
    using assms by (simp add: info_log_length_def)
  ultimately show "sint (info_log_length lg + 1) = int (length lg) + 2"
    by simp
qed

text \<open>
  With a log that fits, the buffer is \<open>logLength + 1\<close> NULs, and it comes back holding the
  whole log, followed by NULs.
\<close>

lemma info_log_buffer:
  assumes "length lg + 2 < 2 ^ 31"
  shows "bindP (strings_Repeat [NUL] (sint (info_log_length lg + 1)))
           (\<lambda>log0. bindP (gl_Str log0) G)
         = G (replicate (if lg = [] then 1 else length lg + 2) NUL)"
proof (cases "lg = []")
  case True
  then show ?thesis
    by (simp add: info_log_length_def strings_Repeat_def gl_Str_def bindP_def)
next
  case False
  note len = sint_info_log_length [OF assms False]
  have rep: "nat (int (length lg) + 2) = Suc (Suc (length lg))"
    by simp
  show ?thesis
    using False
    by (simp add: len rep strings_Repeat_def gl_Str_def bindP_def concat_replicate_single)
qed

lemma write_info_log_full:
  assumes "length lg + 2 < 2 ^ 31"
  shows "write_info_log lg (info_log_length lg)
           (replicate (if lg = [] then 1 else length lg + 2) NUL)
         = lg @ (if lg = [] then [NUL] else [NUL, NUL])"
proof (cases "lg = []")
  case True
  then show ?thesis
    by (simp add: info_log_length_def write_info_log_def)
next
  case False
  note len = sint_info_log_length [OF assms False]
  show ?thesis
    using False
    by (simp add: len write_info_log_def drop_Cons_replicate Let_def)
qed

subsection \<open>Compiling a shader\<close>

lemma compileShader_unfold:
  assumes "compiler w shaderType (shader_text source (word_of_nat (length source))) = (ok, lg)"
  shows "compileShader source shaderType w =
     (let shader = name_of (name_count w);
          w3 = w\<lparr>name_count := Suc (name_count w),
                shaders := (shaders w)(shader \<mapsto>
                  \<lparr>stype = shaderType,
                   ssource = shader_text source (word_of_nat (length source)),
                   compile_status = ok, sinfo_log = lg, delete_status = False\<rparr>)\<rparr>
      in if ok then Inr ((shader, None), w3)
         else bindP (strings_Repeat [NUL] (sint (info_log_length lg + 1))) (\<lambda>log0.
              bindP (gl_Str log0) (\<lambda>buf.
                Inr ((0, Some (Errorf (''failed to compile '' @ source @ '': '' @
                        write_info_log lg (info_log_length lg) buf))), w3))))"
  using assms
  by (simp add: compileShader_def gl_CreateShader_def gen_name_def gl_ShaderSource_def
      gl_CompileShader_def gl_GetShaderiv_def gl_GetShaderInfoLog_def Let_def)

text \<open>
  C4. With an info log that fits the 32-bit length the code computes with,
  \<open>compileShader\<close> returns; its error is non-nil exactly when the driver reports the compile
  status FALSE for the shader it created; then the handle is 0 and the message of the error
  contains the info log of the shader; otherwise the handle is the non-zero name of the
  created shader and the error is nil.
\<close>

theorem compileShader_error_iff_status_false:
  assumes "compiler w shaderType (shader_text source (word_of_nat (length source))) = (ok, lg)"
      and "length lg + 2 < 2 ^ 31"
  shows "\<exists>h e w'. compileShader source shaderType w = Inr ((h, e), w')
           \<and> map_option sinfo_log (shaders w' (name_of (name_count w))) = Some lg
           \<and> (e \<noteq> None \<longleftrightarrow>
                gl_GetShaderiv (name_of (name_count w)) COMPILE_STATUS TRUE w' = FALSE)
           \<and> (e \<noteq> None \<longrightarrow> h = 0 \<and> (\<exists>m. e = Some (Errorf m) \<and> sublist lg m))
           \<and> (e = None \<longrightarrow> h = name_of (name_count w) \<and> h \<noteq> 0)"
proof (cases ok)
  case True
  then show ?thesis
    by (simp add: compileShader_unfold [OF assms(1)] Let_def gl_GetShaderiv_def
        name_of_nonzero)
next
  case False
  define m where "m = ''failed to compile '' @ source @ '': '' @ lg @
          (if lg = [] then [NUL] else [NUL, NUL])"
  have sub: "sublist lg m"
    unfolding m_def by (metis sublist_appendI append.assoc)
  have "compileShader source shaderType w =
          Inr ((0, Some (Errorf m)),
               w\<lparr>name_count := Suc (name_count w),
                 shaders := (shaders w)(name_of (name_count w) \<mapsto>
                   \<lparr>stype = shaderType,
                    ssource = shader_text source (word_of_nat (length source)),
                    compile_status = ok, sinfo_log = lg, delete_status = False\<rparr>)\<rparr>)"
    using False unfolding m_def
    by (simp only: compileShader_unfold [OF assms(1)] Let_def if_False
        info_log_buffer [OF assms(2)] write_info_log_full [OF assms(2)])
  with False sub show ?thesis
    by (simp add: gl_GetShaderiv_def)
qed

theorem compileShader_error_iff_status_false_witness:
  "compiler demo_world VERTEX_SHADER (shader_text ''bad'' (word_of_nat (length ''bad'')))
     = (False, ''syntax error'')
   \<and> length ''syntax error'' + 2 < (2 :: nat) ^ 31
   \<and> (\<exists>h e w'. compileShader ''bad'' VERTEX_SHADER demo_world = Inr ((h, e), w')
           \<and> map_option sinfo_log (shaders w' (name_of (name_count demo_world)))
               = Some ''syntax error''
           \<and> (e \<noteq> None \<longleftrightarrow>
                gl_GetShaderiv (name_of (name_count demo_world)) COMPILE_STATUS TRUE w' = FALSE)
           \<and> (e \<noteq> None \<longrightarrow> h = 0 \<and> (\<exists>m. e = Some (Errorf m) \<and> sublist ''syntax error'' m))
           \<and> (e = None \<longrightarrow> h = name_of (name_count demo_world) \<and> h \<noteq> 0))"
proof -
  have c: "compiler demo_world VERTEX_SHADER (shader_text ''bad'' (word_of_nat (length ''bad'')))
             = (False, ''syntax error'')"
    by (simp add: demo_world_def shader_text_def)
  have l: "length ''syntax error'' + 2 < (2 :: nat) ^ 31"
    by simp
  from compileShader_error_iff_status_false [OF c l] c l show ?thesis
    by blast
qed

subsection \<open>Linking a program\<close>

lemma compileShader_Inr:
  assumes "compileShader source shaderType w = Inr ((h, e), w')"
  shows "w' = after_compile source shaderType w"
    and "compiles source shaderType w \<Longrightarrow> h = name_of (name_count w) \<and> e = None"
    and "\<not> compiles source shaderType w \<Longrightarrow> h = 0 \<and> e \<noteq> None"
proof -
  obtain ok lg where c:
    "compiler w shaderType (shader_text source (word_of_nat (length source))) = (ok, lg)"
    by (cases "compiler w shaderType (shader_text source (word_of_nat (length source)))")
  from assms have r: "(if ok then h = name_of (name_count w) \<and> e = None else h = 0 \<and> e \<noteq> None)
      \<and> w' = after_compile source shaderType w"
    by (auto simp: compileShader_unfold [OF c] after_compile_def c Let_def bindP_def
        split: if_splits sum.splits)
  from r show "w' = after_compile source shaderType w" by simp
  from r c show "compiles source shaderType w \<Longrightarrow> h = name_of (name_count w) \<and> e = None"
    by (simp add: compiles_def split: if_splits)
  from r c show "\<not> compiles source shaderType w \<Longrightarrow> h = 0 \<and> e \<noteq> None"
    by (simp add: compiles_def split: if_splits)
qed

lemma after_compile_fields [simp]:
  "files (after_compile s t w) = files w"
  "compiler (after_compile s t w) = compiler w"
  "linker (after_compile s t w) = linker w"
  "stdout (after_compile s t w) = stdout w"
  "programs (after_compile s t w) = programs w"
  "name_count (after_compile s t w) = Suc (name_count w)"
  by (simp_all add: after_compile_def Let_def split: prod.splits)

lemma after_compile_shaders:
  "shaders (after_compile s t w) h =
     (if h = name_of (name_count w)
      then Some \<lparr>stype = t, ssource = shader_text s (word_of_nat (length s)),
                 compile_status = compiles s t w,
                 sinfo_log = snd (compiler w t (shader_text s (word_of_nat (length s)))),
                 delete_status = False\<rparr>
      else shaders w h)"
  by (simp add: after_compile_def compiles_def Let_def split: prod.splits)


lemma attach_all_eq:
  assumes "programs w p = Some pr" and "distinct (attached pr @ hs)"
      and "\<forall>h \<in> set hs. shaders w h \<noteq> None"
  shows "attach_all p hs w = w\<lparr>programs := (programs w)(p \<mapsto> pr\<lparr>attached := attached pr @ hs\<rparr>)\<rparr>"
  using assms
proof (induction hs arbitrary: w pr)
  case Nil
  then show ?case by (simp add: attach_all_def fun_upd_idem)
next
  case (Cons h hs)
  let ?w = "gl_AttachShader p h w"
  have step: "?w = w\<lparr>programs := (programs w)(p \<mapsto> pr\<lparr>attached := attached pr @ [h]\<rparr>)\<rparr>"
    using Cons.prems by (auto simp: gl_AttachShader_def)
  have "attach_all p hs ?w =
          ?w\<lparr>programs := (programs ?w)(p \<mapsto> (pr\<lparr>attached := attached pr @ [h]\<rparr>)
                \<lparr>attached := attached (pr\<lparr>attached := attached pr @ [h]\<rparr>) @ hs\<rparr>)\<rparr>"
    using Cons.prems by (intro Cons.IH) (auto simp: step)
  then show ?case
    by (simp add: attach_all_def step) (simp add: fun_upd_def)
qed

lemma delete_all_fields [simp]:
  "programs (delete_all hs w) = programs w"
  "name_count (delete_all hs w) = name_count w"
  "stdout (delete_all hs w) = stdout w"
  by (induction hs arbitrary: w; simp add: delete_all_def gl_DeleteShader_def split: option.splits)+

lemma delete_all_shaders:
  "shaders (delete_all hs w) h =
     (if h \<in> set hs then map_option (\<lambda>s. s\<lparr>delete_status := True\<rparr>) (shaders w h)
      else shaders w h)"
proof (induction hs arbitrary: w)
  case Nil
  then show ?case by (simp add: delete_all_def)
next
  case (Cons x hs)
  have "delete_all (x # hs) w = delete_all hs (gl_DeleteShader x w)"
    by (simp add: delete_all_def)
  then show ?case
    by (auto simp: Cons.IH gl_DeleteShader_def split: option.splits)
qed


lemma NewProgram_link_unfold:
  assumes hs: "hs = stage_handles ut ug v tc te f g"
      and d: "distinct hs" and l: "\<forall>h \<in> set hs. shaders w h \<noteq> None"
  shows "NewProgram_link ut ug v tc te f g w =
     (if links hs w then Inr ((name_of (name_count w), None), delete_all hs (linked_world hs w))
      else bindP (strings_Repeat [NUL] (sint (info_log_length (link_log hs w) + 1))) (\<lambda>log0.
           bindP (gl_Str log0) (\<lambda>buf.
             Inr ((0, Some (Errorf (''failed to link program: '' @
                     write_info_log (link_log hs w) (info_log_length (link_log hs w)) buf))),
                  linked_world hs w))))"
proof -
  define p where "p = name_of (name_count w)"
  define w1 where "w1 = snd (gl_CreateProgram w)"
  have cp: "gl_CreateProgram w = (p, w1)"
    by (simp add: w1_def p_def gl_CreateProgram_def gen_name_def)
  have w1: "w1 = w\<lparr>name_count := Suc (name_count w),
                   programs := (programs w)(p \<mapsto> \<lparr>attached = [], link_status = False, pinfo_log = []\<rparr>)\<rparr>"
    by (simp add: w1_def p_def gl_CreateProgram_def gen_name_def)
  define w5 where "w5 = attach_all p hs w1"
  have att: "(let w2 = gl_AttachShader p v w1;
                  w3 = (if ut then gl_AttachShader p te (gl_AttachShader p tc w2) else w2);
                  w4 = gl_AttachShader p f w3
              in (if ug then gl_AttachShader p g w4 else w4)) = w5"
    by (simp add: w5_def hs stage_handles_def attach_all_def Let_def)
  have w5: "w5 = w1\<lparr>programs := (programs w1)(p \<mapsto>
                    \<lparr>attached = hs, link_status = False, pinfo_log = []\<rparr>)\<rparr>"
    unfolding w5_def
    using attach_all_eq [of w1 p "\<lparr>attached = [], link_status = False, pinfo_log = []\<rparr>" hs] d l
    by (simp add: w1)
  have stage: "stage_of w5 = stage_of w"
    by (simp add: w5 w1 stage_of_def fun_eq_iff)
  have lk: "linker w5 = linker w"
    by (simp add: w5 w1)
  have pp: "programs w5 p = Some \<lparr>attached = hs, link_status = False, pinfo_log = []\<rparr>"
    by (simp add: w5)
  define w6 where "w6 = gl_LinkProgram p w5"
  have "w6 = (let (ok, lg) = linker w (concat (map (stage_of w) hs))
              in w5\<lparr>programs := (programs w5)(p \<mapsto>
                     \<lparr>attached = hs, link_status = ok, pinfo_log = lg\<rparr>)\<rparr>)"
    by (simp add: w6_def gl_LinkProgram_def pp stage lk Let_def split: prod.splits)
  then have w6: "w6 = linked_world hs w"
    by (simp add: linked_world_def p_def w5 w1 Let_def split: prod.splits)
  have del: "(let w7 = gl_DeleteShader v w6;
                  w8 = (if ut then gl_DeleteShader te (gl_DeleteShader tc w7) else w7);
                  w9 = gl_DeleteShader f w8
              in (if ug then gl_DeleteShader g w9 else w9)) = delete_all hs w6"
    by (simp add: hs stage_handles_def delete_all_def Let_def)
  have st: "gl_GetProgramiv p LINK_STATUS 0 w6 = (if links hs w then 1 else 0)"
    by (simp add: w6 gl_GetProgramiv_def linked_world_def links_def p_def Let_def
        split: prod.splits)
  have ll: "gl_GetProgramiv p INFO_LOG_LENGTH 0 w6 = info_log_length (link_log hs w)"
    by (simp add: w6 gl_GetProgramiv_def linked_world_def link_log_def p_def Let_def
        split: prod.splits)
  have gl: "\<And>n buf. gl_GetProgramInfoLog p n buf w6 = write_info_log (link_log hs w) n buf"
    by (simp add: w6 gl_GetProgramInfoLog_def linked_world_def link_log_def p_def Let_def
        split: prod.splits)
  show ?thesis
    unfolding NewProgram_link_def cp
    apply (simp only: prod.case Let_def)
    apply (simp only: att [unfolded Let_def] w6_def [symmetric] st ll gl del [unfolded Let_def])
    apply (simp add: w6 p_def)
    done
qed


lemma compileShader_programs:
  "compileShader s t w = Inr (r, w') \<Longrightarrow> programs w' = programs w"
  using compileShader_Inr(1) [of s t w "fst r" "snd r" w'] by simp

lemma NewProgram_tessellation_programs:
  "NewProgram_tessellation ut tcn ten w = Inr (r, w') \<Longrightarrow> programs w' = programs w"
  by (auto simp: NewProgram_tessellation_def bindP_def compileShader_programs
      split: if_splits prod.splits option.splits sum.splits)

lemma NewProgram_geometry_programs:
  "NewProgram_geometry ug gn w = Inr (r, w') \<Longrightarrow> programs w' = programs w"
  by (auto simp: NewProgram_geometry_def
      split: if_splits prod.splits option.splits dest: compileShader_programs)

lemma NewProgram_path:
  assumes "NewProgram vn gn tcn ten fn w = Inr ((h, e), w')"
  shows "(h = 0 \<and> e \<noteq> None \<and> programs w' = programs w) \<or>
         (\<exists>vsrc v w1 tc te w2 fsrc f w3 g w4.
            readFile vn w = (vsrc, None) \<and>
            compileShader vsrc VERTEX_SHADER w = Inr ((v, None), w1) \<and>
            NewProgram_tessellation (tcn \<noteq> [] \<and> ten \<noteq> []) tcn ten w1 = Inr ((tc, te, None), w2) \<and>
            readFile fn w2 = (fsrc, None) \<and>
            compileShader fsrc FRAGMENT_SHADER w2 = Inr ((f, None), w3) \<and>
            NewProgram_geometry (gn \<noteq> []) gn w3 = Inr ((g, None), w4) \<and>
            NewProgram_link (tcn \<noteq> [] \<and> ten \<noteq> []) (gn \<noteq> []) v tc te f g w4 = Inr ((h, e), w'))"
  using assms
  unfolding NewProgram_def Let_def
  by (auto simp: bindP_def
        compileShader_programs NewProgram_tessellation_programs NewProgram_geometry_programs
      split: if_splits prod.splits option.splits sum.splits)


lemma name_of_inj:
  assumes "j < 2 ^ 32 - 1" and "k < 2 ^ 32 - 1"
  shows "name_of (c + j) = name_of (c + k) \<longleftrightarrow> j = k"
proof
  assume eq: "name_of (c + j) = name_of (c + k)"
  show "j = k"
  proof (rule ccontr)
    assume "j \<noteq> k"
    then consider "j < k" | "k < j" by linarith
    then show False
    proof cases
      case 1
      then have "name_of (c + j + (k - j)) \<noteq> name_of (c + j)"
        using assms by (intro name_of_distinct) auto
      with 1 eq show False by simp
    next
      case 2
      then have "name_of (c + k + (j - k)) \<noteq> name_of (c + k)"
        using assms by (intro name_of_distinct) auto
      with 2 eq show False by simp
    qed
  qed
qed simp

lemma staged_distinct:
  assumes "staged w0 w hs tys" and "length hs < 2 ^ 32 - 1"
  shows "distinct hs"
proof -
  have "inj_on (\<lambda>k. name_of (name_count w0 + k)) (set [0..<length hs])"
    using assms(2) by (auto simp: inj_on_def name_of_inj)
  then have "distinct (map (\<lambda>k. name_of (name_count w0 + k)) [0..<length hs])"
    by (simp add: distinct_map)
  with assms(1) show ?thesis
    by (simp add: staged_def)
qed

lemma staged_live:
  assumes "staged w0 w hs tys"
  shows "\<forall>h \<in> set hs. shaders w h \<noteq> None"
proof
  fix h assume "h \<in> set hs"
  then obtain i where i: "i < length hs" "hs ! i = h"
    by (auto simp: in_set_conv_nth)
  from assms have m: "map (\<lambda>x. map_option stype (shaders w x)) hs = map Some tys"
    by (simp add: staged_def)
  then have "length tys = length hs"
    by (metis length_map)
  with i m have "map_option stype (shaders w h) = Some (tys ! i)"
    by (metis nth_map)
  then show "shaders w h \<noteq> None" by auto
qed

lemma staged_compile:
  assumes st: "staged w0 w hs tys" and len: "length hs < 2 ^ 32 - 2"
      and c: "compileShader s t w = Inr ((h, None), w')"
  shows "staged w0 w' (hs @ [h]) (tys @ [t])"
proof -
  have w': "w' = after_compile s t w"
    using compileShader_Inr(1) [OF c] .
  have "compiles s t w"
    using compileShader_Inr(3) [OF c] by auto
  then have h: "h = name_of (name_count w0 + length hs)"
    using compileShader_Inr(2) [OF c] st by (simp add: staged_def)
  have nc: "name_count w = name_count w0 + length hs"
    using st by (simp add: staged_def)
  have hs: "hs = map (\<lambda>k. name_of (name_count w0 + k)) [0..<length hs]"
    using st by (simp add: staged_def)
  have old: "x \<noteq> h" if "x \<in> set hs" for x
  proof -
    from that hs obtain k where "k < length hs" "x = name_of (name_count w0 + k)"
      by (metis (no_types, lifting) in_set_conv_nth length_map nth_map nth_upt add_0 length_upt diff_zero)
    with len show ?thesis
      by (simp add: h name_of_inj)
  qed
  have m: "map (\<lambda>x. map_option stype (shaders w x)) hs = map Some tys"
    using st by (simp add: staged_def)
  have "map (\<lambda>x. map_option stype (shaders w' x)) hs = map (\<lambda>x. map_option stype (shaders w x)) hs"
    using old by (simp add: w' after_compile_shaders nc h)
  then have a: "map (\<lambda>x. map_option stype (shaders w' x)) hs = map Some tys"
    using m by simp
  have b: "map_option stype (shaders w' h) = Some t"
    by (simp add: w' after_compile_shaders nc h)
  have c1: "name_count w' = name_count w0 + length (hs @ [h])"
    by (simp add: w' nc)
  have c2: "hs @ [h] = map (\<lambda>k. name_of (name_count w0 + k)) [0..<length (hs @ [h])]"
    using hs by (simp add: h)
  have c3: "programs w' = programs w0"
    using st by (simp add: w' staged_def)
  show ?thesis
    unfolding staged_def using a b c1 c2 c3 by simp
qed


lemma staged_tessellation:
  assumes st: "staged w0 w hs tys" and len: "length hs < 100"
      and c: "NewProgram_tessellation ut tcn ten w = Inr ((tc, te, None), w')"
  shows "staged w0 w' (hs @ (if ut then [tc, te] else []))
           (tys @ (if ut then [TESS_CONTROL_SHADER, TESS_EVALUATION_SHADER] else []))"
proof (cases ut)
  case False
  with c st show ?thesis
    by (simp add: NewProgram_tessellation_def)
next
  case True
  with c obtain s1 w1 s2 where
    c1: "compileShader s1 TESS_CONTROL_SHADER w = Inr ((tc, None), w1)" and
    c2: "compileShader s2 TESS_EVALUATION_SHADER w1 = Inr ((te, None), w')"
    by (auto simp: NewProgram_tessellation_def bindP_def
        split: if_splits prod.splits option.splits sum.splits)
  have a: "staged w0 w1 (hs @ [tc]) (tys @ [TESS_CONTROL_SHADER])"
    using len by (intro staged_compile [OF st _ c1]) simp
  have "staged w0 w' ((hs @ [tc]) @ [te]) ((tys @ [TESS_CONTROL_SHADER]) @ [TESS_EVALUATION_SHADER])"
    using len by (intro staged_compile [OF a _ c2]) simp
  with True show ?thesis by simp
qed

lemma staged_geometry:
  assumes st: "staged w0 w hs tys" and len: "length hs < 100"
      and c: "NewProgram_geometry ug gn w = Inr ((g, None), w')"
  shows "staged w0 w' (hs @ (if ug then [g] else [])) (tys @ (if ug then [GEOMETRY_SHADER] else []))"
proof (cases ug)
  case False
  with c st show ?thesis
    by (simp add: NewProgram_geometry_def)
next
  case True
  with c obtain s1 where
    c1: "compileShader s1 GEOMETRY_SHADER w = Inr ((g, None), w')"
    by (auto simp: NewProgram_geometry_def split: if_splits prod.splits option.splits)
  have "staged w0 w' (hs @ [g]) (tys @ [GEOMETRY_SHADER])"
    using len by (intro staged_compile [OF st _ c1]) simp
  with True show ?thesis by simp
qed

lemma staged_empty: "staged w w [] []"
  by (simp add: staged_def)

lemma NewProgram_Inr:
  assumes "NewProgram vn gn tcn ten fn w = Inr ((h, e), w')"
  shows "(h = 0 \<and> e \<noteq> None \<and> programs w' = programs w) \<or>
         (\<exists>hs w4. staged w w4 hs (stage_types (tcn \<noteq> [] \<and> ten \<noteq> []) (gn \<noteq> []))
            \<and> distinct hs
            \<and> (if links hs w4
                then h = name_of (name_count w4) \<and> e = None
                     \<and> w' = delete_all hs (linked_world hs w4)
                else h = 0 \<and> e \<noteq> None \<and> w' = linked_world hs w4))"
proof -
  let ?ut = "tcn \<noteq> [] \<and> ten \<noteq> []" and ?ug = "gn \<noteq> []"
  from NewProgram_path [OF assms] show ?thesis
  proof (elim disjE exE conjE)
    fix vsrc v w1 tc te w2 fsrc f w3 g w4
    assume cv: "compileShader vsrc VERTEX_SHADER w = Inr ((v, None), w1)"
       and ct: "NewProgram_tessellation ?ut tcn ten w1 = Inr ((tc, te, None), w2)"
       and cf: "compileShader fsrc FRAGMENT_SHADER w2 = Inr ((f, None), w3)"
       and cg: "NewProgram_geometry ?ug gn w3 = Inr ((g, None), w4)"
       and lk: "NewProgram_link ?ut ?ug v tc te f g w4 = Inr ((h, e), w')"
    define hs where "hs = stage_handles ?ut ?ug v tc te f g"
    have s1: "staged w w1 [v] [VERTEX_SHADER]"
      using staged_compile [OF staged_empty _ cv] by simp
    have s2: "staged w w2 ([v] @ (if ?ut then [tc, te] else []))
                ([VERTEX_SHADER] @ (if ?ut then [TESS_CONTROL_SHADER, TESS_EVALUATION_SHADER] else []))"
      using staged_tessellation [OF s1 _ ct] by simp
    have s3: "staged w w3 (([v] @ (if ?ut then [tc, te] else [])) @ [f])
                (([VERTEX_SHADER] @ (if ?ut then [TESS_CONTROL_SHADER, TESS_EVALUATION_SHADER] else []))
                  @ [FRAGMENT_SHADER])"
      using staged_compile [OF s2 _ cf] by simp
    have s4: "staged w w4 ((([v] @ (if ?ut then [tc, te] else [])) @ [f]) @ (if ?ug then [g] else []))
                ((([VERTEX_SHADER] @ (if ?ut then [TESS_CONTROL_SHADER, TESS_EVALUATION_SHADER] else []))
                  @ [FRAGMENT_SHADER]) @ (if ?ug then [GEOMETRY_SHADER] else []))"
      using staged_geometry [OF s3 _ cg] by simp
    then have st: "staged w w4 hs (stage_types ?ut ?ug)"
      by (simp add: hs_def stage_handles_def stage_types_def)
    have "length hs \<le> 5"
      by (simp add: hs_def stage_handles_def)
    then have d: "distinct hs"
      by (intro staged_distinct [OF st]) simp
    note u = NewProgram_link_unfold [OF hs_def d staged_live [OF st]]
    have "if links hs w4
          then h = name_of (name_count w4) \<and> e = None \<and> w' = delete_all hs (linked_world hs w4)
          else h = 0 \<and> e \<noteq> None \<and> w' = linked_world hs w4"
      using lk unfolding u
      by (auto simp: bindP_def split: if_splits sum.splits)
    with st d show ?thesis by blast
  qed simp
qed


lemma compileShader_ok:
  assumes "compiles s t w"
  shows "compileShader s t w = Inr ((name_of (name_count w), None), after_compile s t w)"
proof -
  obtain ok lg where c: "compiler w t (shader_text s (word_of_nat (length s))) = (ok, lg)"
    by (cases "compiler w t (shader_text s (word_of_nat (length s)))")
  with assms have "ok" by (simp add: compiles_def)
  then show ?thesis
    by (simp add: compileShader_unfold [OF c] after_compile_def c Let_def)
qed

lemma compileShader_fail:
  assumes "\<not> compiles s t w" and "length (compile_log s t w) + 2 < 2 ^ 31"
  shows "compileShader s t w =
           Inr ((0, Some (Errorf (''failed to compile '' @ s @ '': '' @ compile_log s t w @
                   (if compile_log s t w = [] then [NUL] else [NUL, NUL])))),
                after_compile s t w)"
proof -
  obtain ok lg where c: "compiler w t (shader_text s (word_of_nat (length s))) = (ok, lg)"
    by (cases "compiler w t (shader_text s (word_of_nat (length s)))")
  with assms have ok: "\<not> ok" and lg: "compile_log s t w = lg" and len: "length lg + 2 < 2 ^ 31"
    by (simp_all add: compiles_def compile_log_def)
  have "compileShader s t w =
          Inr ((0, Some (Errorf (''failed to compile '' @ s @ '': '' @ lg @
                  (if lg = [] then [NUL] else [NUL, NUL])))),
               w\<lparr>name_count := Suc (name_count w),
                 shaders := (shaders w)(name_of (name_count w) \<mapsto>
                   \<lparr>stype = t, ssource = shader_text s (word_of_nat (length s)),
                    compile_status = ok, sinfo_log = lg, delete_status = False\<rparr>)\<rparr>)"
    using ok
    by (simp only: compileShader_unfold [OF c] Let_def if_False
        info_log_buffer [OF len] write_info_log_full [OF len])
  then show ?thesis
    by (simp add: lg after_compile_def c Let_def)
qed

lemma after_compile_env [simp]:
  "compiles s t (after_compile s' t' w) = compiles s t w"
  "compile_log s t (after_compile s' t' w) = compile_log s t w"
  "readFile n (after_compile s' t' w) = readFile n w"
  by (simp_all add: compiles_def compile_log_def readFile_def)

lemma NewProgram_link_fail:
  assumes hs: "hs = stage_handles ut ug v tc te f g"
      and d: "distinct hs" and l: "\<forall>h \<in> set hs. shaders w h \<noteq> None"
      and nl: "\<not> links hs w" and len: "length (link_log hs w) + 2 < 2 ^ 31"
  shows "NewProgram_link ut ug v tc te f g w =
           Inr ((0, Some (Errorf (''failed to link program: '' @ link_log hs w @
                   (if link_log hs w = [] then [NUL] else [NUL, NUL])))),
                linked_world hs w)"
  using nl
  by (simp only: NewProgram_link_unfold [OF hs d l] if_False
      info_log_buffer [OF len] write_info_log_full [OF len])

lemma NewProgram_link_ok:
  assumes hs: "hs = stage_handles ut ug v tc te f g"
      and d: "distinct hs" and l: "\<forall>h \<in> set hs. shaders w h \<noteq> None"
      and nl: "links hs w"
  shows "NewProgram_link ut ug v tc te f g w =
           Inr ((name_of (name_count w), None), delete_all hs (linked_world hs w))"
  using nl by (simp only: NewProgram_link_unfold [OF hs d l] if_True)


lemma linked_world_fields [simp]:
  "shaders (linked_world hs w) = shaders w"
  "name_count (linked_world hs w) = Suc (name_count w)"
  "programs (linked_world hs w) =
     (programs w)(name_of (name_count w) \<mapsto>
        \<lparr>attached = hs, link_status = links hs w, pinfo_log = link_log hs w\<rparr>)"
  by (simp_all add: linked_world_def links_def link_log_def Let_def split: prod.splits)

lemma delete_all_stage_type [simp]:
  "stage_type (delete_all hs w) = stage_type w"
  by (auto simp: stage_type_def fun_eq_iff delete_all_shaders option.map_comp comp_def)

lemma staged_stage_types:
  "staged w0 w hs tys \<Longrightarrow> map (stage_type w) hs = map Some tys"
  by (simp add: staged_def stage_type_def [abs_def])

text \<open>
  C1, amended. A call of \<open>NewProgram\<close> that returns either fails before it creates a
  program object (the table of programs is as before and the error is non-nil), or it has
  created the program whose name the driver handed out last; the shader objects attached
  to that program are distinct, their stage types are vertex, then tessellation control and
  tessellation evaluation exactly when both tessellation file names are non-empty, then
  fragment, then geometry exactly when its file name is non-empty: between 2 and 5 objects.
\<close>

theorem NewProgram_attaches_two_to_five_stages:
  assumes "NewProgram vertexShaderName geometryShaderName tessControlShaderName
             tessEvalShaderName fragmentShaderName w = Inr ((h, e), w')"
  shows "(programs w' = programs w \<and> e \<noteq> None) \<or>
         (let program = name_of (name_count w' - 1); hs = attached_to program w'
          in programs w' = (programs w)(program := programs w' program)
             \<and> (e = None \<longrightarrow> h = program)
             \<and> distinct hs
             \<and> map (stage_type w') hs = map Some
                 ([VERTEX_SHADER]
                  @ (if tessControlShaderName \<noteq> [] \<and> tessEvalShaderName \<noteq> []
                     then [TESS_CONTROL_SHADER, TESS_EVALUATION_SHADER] else [])
                  @ [FRAGMENT_SHADER]
                  @ (if geometryShaderName \<noteq> [] then [GEOMETRY_SHADER] else []))
             \<and> 2 \<le> length hs \<and> length hs \<le> 5)"
proof -
  let ?ut = "tessControlShaderName \<noteq> [] \<and> tessEvalShaderName \<noteq> []"
  let ?ug = "geometryShaderName \<noteq> []"
  from NewProgram_Inr [OF assms] show ?thesis
  proof (elim disjE exE conjE)
    fix hs w4
    assume st: "staged w w4 hs (stage_types ?ut ?ug)" and d: "distinct hs"
      and r: "if links hs w4
              then h = name_of (name_count w4) \<and> e = None
                   \<and> w' = delete_all hs (linked_world hs w4)
              else h = 0 \<and> e \<noteq> None \<and> w' = linked_world hs w4"
    have ty: "map (stage_type w4) hs = map Some (stage_types ?ut ?ug)"
      using st by (rule staged_stage_types)
    then have "length hs = length (stage_types ?ut ?ug)"
      by (metis length_map)
    then have len: "2 \<le> length hs \<and> length hs \<le> 5"
      by (simp add: stage_types_def)
    have pw: "programs w4 = programs w"
      using st by (simp add: staged_def)
    have sty: "stage_type (linked_world hs w4) = stage_type w4"
      by (simp add: stage_type_def fun_eq_iff)
    show ?thesis
    proof (cases "links hs w4")
      case True
      with r have w': "w' = delete_all hs (linked_world hs w4)" and h: "h = name_of (name_count w4)"
        by simp_all
      show ?thesis
        using d ty len h
        by (simp add: w' attached_to_def Let_def pw sty stage_types_def)
    next
      case False
      with r have w': "w' = linked_world hs w4" and e: "e \<noteq> None"
        by simp_all
      show ?thesis
        using d ty len e
        by (auto simp: w' attached_to_def Let_def pw sty stage_types_def)
    qed
  qed simp
qed

subsection \<open>With logs that fit, every call returns\<close>

lemma logs_fit_after_compile [simp]: "logs_fit (after_compile s t w) = logs_fit w"
  by (simp add: logs_fit_def)

lemma compileShader_returns:
  assumes "logs_fit w"
  shows "\<exists>h e. compileShader s t w = Inr ((h, e), after_compile s t w)"
proof (cases "compiles s t w")
  case True
  then show ?thesis by (simp add: compileShader_ok)
next
  case False
  have "length (compile_log s t w) + 2 < 2 ^ 31"
    using assms by (simp add: logs_fit_def compile_log_def)
  with False show ?thesis by (simp add: compileShader_fail)
qed

lemma NewProgram_tessellation_returns:
  assumes "logs_fit w"
  shows "\<exists>r w'. NewProgram_tessellation ut tcn ten w = Inr (r, w') \<and> logs_fit w'"
proof (cases ut)
  case False
  with assms show ?thesis by (simp add: NewProgram_tessellation_def)
next
  case True
  show ?thesis
  proof (cases "readFile tcn w")
    case (Pair s1 e1)
    show ?thesis
    proof (cases e1)
      case (Some a)
      with Pair True assms show ?thesis by (simp add: NewProgram_tessellation_def)
    next
      case None
      obtain h1 c1 where c1: "compileShader s1 TESS_CONTROL_SHADER w
                                = Inr ((h1, c1), after_compile s1 TESS_CONTROL_SHADER w)"
        using compileShader_returns [OF assms] by blast
      let ?w1 = "after_compile s1 TESS_CONTROL_SHADER w"
      have f1: "logs_fit ?w1" using assms by simp
      obtain s2 e2 where r2: "readFile ten ?w1 = (s2, e2)" by (cases "readFile ten ?w1")
      obtain h2 c2 where c2: "compileShader s2 TESS_EVALUATION_SHADER ?w1
                                = Inr ((h2, c2), after_compile s2 TESS_EVALUATION_SHADER ?w1)"
        using compileShader_returns [OF f1] by blast
      show ?thesis
        using True Pair None c1 f1
        by (cases c1; cases e2)
           (use r2 c2 in \<open>auto simp: NewProgram_tessellation_def bindP_def\<close>)
    qed
  qed
qed

lemma NewProgram_geometry_returns:
  assumes "logs_fit w"
  shows "\<exists>r w'. NewProgram_geometry ug gn w = Inr (r, w') \<and> logs_fit w'"
proof (cases "readFile gn w")
  case (Pair s1 e1)
  obtain h1 c1 where c1: "compileShader s1 GEOMETRY_SHADER w
                            = Inr ((h1, c1), after_compile s1 GEOMETRY_SHADER w)"
    using compileShader_returns [OF assms] by blast
  show ?thesis
    using Pair c1 assms by (cases e1) (auto simp: NewProgram_geometry_def)
qed

lemma gl_AttachShader_keeps:
  "(\<exists>y. programs (gl_AttachShader p s w) p = Some y) = (\<exists>y. programs w p = Some y)"
  by (auto simp: gl_AttachShader_def split: option.splits)

lemma link_status_check_returns:
  assumes "logs_fit w" and "\<exists>y. programs w p = Some y"
  shows "\<exists>r. (if gl_GetProgramiv p LINK_STATUS 0 (gl_LinkProgram p w) = FALSE
              then bindP (strings_Repeat [NUL]
                     (sint (gl_GetProgramiv p INFO_LOG_LENGTH 0 (gl_LinkProgram p w) + 1)))
                     (\<lambda>log0. bindP (gl_Str log0) (\<lambda>buf. Inr (F buf)))
              else Inr G) = Inr r"
proof -
  from assms(2) obtain pr where pr: "programs w p = Some pr" by auto
  obtain ok lg where l: "linker w (concat (map (stage_of w) (attached pr))) = (ok, lg)"
    by (cases "linker w (concat (map (stage_of w) (attached pr)))")
  have "length (snd (linker w (concat (map (stage_of w) (attached pr))))) + 2 < 2 ^ 31"
    using assms(1) by (simp add: logs_fit_def)
  then have len: "length lg + 2 < 2 ^ 31"
    by (simp add: l)
  have ll: "gl_GetProgramiv p INFO_LOG_LENGTH 0 (gl_LinkProgram p w) = info_log_length lg"
    by (simp add: gl_GetProgramiv_def gl_LinkProgram_def pr l)
  show ?thesis
    by (simp add: ll info_log_buffer [OF len])
qed

lemma logs_fit_attach [simp]: "logs_fit (gl_AttachShader p s w) = logs_fit w"
  by (simp add: logs_fit_def gl_AttachShader_def split: option.splits)

lemma NewProgram_link_returns:
  assumes "logs_fit w"
  shows "\<exists>r. NewProgram_link ut ug v tc te f g w = Inr r"
proof -
  define p where "p = name_of (name_count w)"
  define w1 where "w1 = snd (gl_CreateProgram w)"
  have cp: "gl_CreateProgram w = (p, w1)"
    by (simp add: w1_def p_def gl_CreateProgram_def gen_name_def)
  have f1: "logs_fit w1" and p1: "\<exists>y. programs w1 p = Some y"
    using assms by (simp_all add: w1_def p_def gl_CreateProgram_def gen_name_def logs_fit_def)
  show ?thesis
    unfolding NewProgram_link_def cp
    by (cases ut; cases ug; simp only: Let_def prod.case if_True if_False)
       (rule link_status_check_returns; simp add: f1 p1 gl_AttachShader_keeps)+
qed

lemma NewProgram_returns:
  assumes "logs_fit w"
  shows "\<exists>r. NewProgram vn gn tcn ten fn w = Inr r"
proof -
  let ?ut = "tcn \<noteq> [] \<and> ten \<noteq> []" and ?ug = "gn \<noteq> []"
  obtain vsrc e0 where r0: "readFile vn w = (vsrc, e0)" by (cases "readFile vn w")
  obtain v e1 where c1: "compileShader vsrc VERTEX_SHADER w
                           = Inr ((v, e1), after_compile vsrc VERTEX_SHADER w)"
    using compileShader_returns [OF assms] by blast
  let ?w1 = "after_compile vsrc VERTEX_SHADER w"
  have f1: "logs_fit ?w1" using assms by simp
  obtain tc te e2 w2 where c2: "NewProgram_tessellation ?ut tcn ten ?w1 = Inr ((tc, te, e2), w2)"
    and f2: "logs_fit w2"
    using NewProgram_tessellation_returns [OF f1, of ?ut tcn ten] by (metis prod_cases3)
  obtain fsrc e3 where r3: "readFile fn w2 = (fsrc, e3)" by (cases "readFile fn w2")
  obtain f e4 where c4: "compileShader fsrc FRAGMENT_SHADER w2
                           = Inr ((f, e4), after_compile fsrc FRAGMENT_SHADER w2)"
    using compileShader_returns [OF f2] by blast
  let ?w3 = "after_compile fsrc FRAGMENT_SHADER w2"
  have f3: "logs_fit ?w3" using f2 by simp
  obtain g e5 w4 where c5: "NewProgram_geometry ?ug gn ?w3 = Inr ((g, e5), w4)"
    and f4: "logs_fit w4"
    using NewProgram_geometry_returns [OF f3, of ?ug gn] by (metis prod.exhaust)
  obtain r where c6: "NewProgram_link ?ut ?ug v tc te f g w4 = Inr r"
    using NewProgram_link_returns [OF f4] by blast
  show ?thesis
    unfolding NewProgram_def Let_def
    by (cases e0; cases e1; cases e2; cases e3; cases e4; cases e5)
       (simp_all add: r0 c1 c2 r3 c4 c5 c6 bindP_def)
qed

lemma NewComputeProgram_returns:
  assumes "logs_fit w"
  shows "\<exists>r. NewComputeProgram cn w = Inr r"
proof -
  obtain src e0 where r0: "readFile cn w = (src, e0)" by (cases "readFile cn w")
  obtain c e1 where c1: "compileShader src COMPUTE_SHADER w
                           = Inr ((c, e1), after_compile src COMPUTE_SHADER w)"
    using compileShader_returns [OF assms] by blast
  let ?w1 = "after_compile src COMPUTE_SHADER w"
  define p where "p = name_of (name_count ?w1)"
  define w2 where "w2 = snd (gl_CreateProgram ?w1)"
  have cp: "gl_CreateProgram ?w1 = (p, w2)"
    by (simp add: w2_def p_def gl_CreateProgram_def gen_name_def)
  have f2: "logs_fit w2" and p2: "\<exists>y. programs w2 p = Some y"
    using assms by (simp_all add: w2_def p_def gl_CreateProgram_def gen_name_def logs_fit_def)
  let ?w4 = "gl_LinkProgram p (gl_AttachShader p c w2)"
  have "\<exists>r. (if gl_GetProgramiv p LINK_STATUS 0 ?w4 = FALSE
              then bindP (strings_Repeat [NUL]
                     (sint (gl_GetProgramiv p INFO_LOG_LENGTH 0 ?w4 + 1)))
                     (\<lambda>log0. bindP (gl_Str log0) (\<lambda>buf. Inr
                        ((0, Some (Errorf (''failed to link program: '' @
                           gl_GetProgramInfoLog p (gl_GetProgramiv p INFO_LOG_LENGTH 0 ?w4)
                             buf ?w4))), ?w4)))
              else Inr ((p, None), gl_DeleteShader c ?w4))
            = Inr r"
    by (rule link_status_check_returns) (simp_all add: f2 p2 gl_AttachShader_keeps)
  then show ?thesis
    unfolding NewComputeProgram_def
    by (cases e0; cases e1) (simp_all only: r0 c1 cp bindP_def Let_def prod.case sum.case
          option.case option.distinct if_True if_False not_False_eq_True not_True_eq_False
          simp_thms, auto)
qed

text \<open>The outcome of a call, from the stages it reads and compiles.\<close>

lemma compileShader_env:
  "compileShader s t w = Inr (r, w') \<Longrightarrow> files w' = files w"
  "compileShader s t w = Inr (r, w') \<Longrightarrow> compiler w' = compiler w"
  "compileShader s t w = Inr (r, w') \<Longrightarrow> linker w' = linker w"
  using compileShader_Inr(1) [of s t w "fst r" "snd r" w'] by simp_all

lemma NewProgram_tessellation_env:
  "NewProgram_tessellation ut tcn ten w = Inr (r, w') \<Longrightarrow> files w' = files w"
  "NewProgram_tessellation ut tcn ten w = Inr (r, w') \<Longrightarrow> compiler w' = compiler w"
  by (auto simp: NewProgram_tessellation_def bindP_def compileShader_env
      split: if_splits prod.splits option.splits sum.splits)

lemma stage_ran:
  assumes "readFile n v = (src, None)" and "compileShader src ty v = Inr ((x, None), v')"
      and "files v = files w" and "compiler v = compiler w"
  shows "\<not> stage_fails w (n, ty)"
proof -
  have f: "files w n = Inr src"
    using assms(1,3) by (auto simp: readFile_def split: sum.splits)
  have "compiles src ty v"
    using compileShader_Inr(3) [OF assms(2)] by auto
  then have "compiles src ty w"
    using assms(4) by (simp add: compiles_def)
  with f show ?thesis
    by (simp add: stage_fails_def read_fails_def compile_fails_def stage_source_def)
qed

lemma tessellation_ran:
  assumes "NewProgram_tessellation True tcn ten v = Inr ((tc, te, None), v')"
      and "files v = files w" and "compiler v = compiler w"
  shows "\<not> stage_fails w (tcn, TESS_CONTROL_SHADER) \<and> \<not> stage_fails w (ten, TESS_EVALUATION_SHADER)"
proof -
  from assms(1) obtain s1 v1 s2 where
    r1: "readFile tcn v = (s1, None)" and
    c1: "compileShader s1 TESS_CONTROL_SHADER v = Inr ((tc, None), v1)" and
    r2: "readFile ten v1 = (s2, None)" and
    c2: "compileShader s2 TESS_EVALUATION_SHADER v1 = Inr ((te, None), v')"
    by (auto simp: NewProgram_tessellation_def bindP_def
        split: if_splits prod.splits option.splits sum.splits)
  have e1: "files v1 = files w" "compiler v1 = compiler w"
    using compileShader_env [OF c1] assms(2,3) by simp_all
  show ?thesis
    using stage_ran [OF r1 c1 assms(2,3)] stage_ran [OF r2 c2 e1] by simp
qed

lemma geometry_ran:
  assumes "NewProgram_geometry True gn v = Inr ((g, None), v')"
      and "files v = files w" and "compiler v = compiler w"
  shows "\<not> stage_fails w (gn, GEOMETRY_SHADER)"
proof -
  from assms(1) obtain s1 where
    r1: "readFile gn v = (s1, None)" and
    c1: "compileShader s1 GEOMETRY_SHADER v = Inr ((g, None), v')"
    by (auto simp: NewProgram_geometry_def split: if_splits prod.splits option.splits)
  show ?thesis
    using stage_ran [OF r1 c1 assms(2,3)] .
qed


lemma stages_world_snoc:
  "stages_world (ss @ [s]) w =
     after_compile (stage_source w (fst s)) (snd s) (stages_world ss w)"
  by (simp add: stages_world_def)

lemma stages_world_fields:
  "files (stages_world ss w) = files w
   \<and> compiler (stages_world ss w) = compiler w
   \<and> linker (stages_world ss w) = linker w
   \<and> programs (stages_world ss w) = programs w
   \<and> name_count (stages_world ss w) = name_count w + length ss"
proof (induction ss rule: rev_induct)
  case Nil
  show ?case by (simp add: stages_world_def)
next
  case (snoc s ss)
  then show ?case by (simp add: stages_world_snoc)
qed

lemma stages_world_env [simp]:
  "files (stages_world ss w) = files w"
  "compiler (stages_world ss w) = compiler w"
  "linker (stages_world ss w) = linker w"
  "programs (stages_world ss w) = programs w"
  "name_count (stages_world ss w) = name_count w + length ss"
  using stages_world_fields [of ss w] by simp_all

lemma stage_names_Suc:
  "stage_names (Suc n) w = stage_names n w @ [name_of (name_count w + n)]"
  by (simp add: stage_names_def)

lemma staged_stages_world:
  assumes "\<forall>s \<in> set ss. \<not> stage_fails w s" and "length ss < 100"
  shows "staged w (stages_world ss w) (stage_names (length ss) w) (map snd ss)"
  using assms
proof (induction ss rule: rev_induct)
  case Nil
  then show ?case by (simp add: stages_world_def stage_names_def staged_def)
next
  case (snoc s ss)
  let ?v = "stages_world ss w"
  have ih: "staged w ?v (stage_names (length ss) w) (map snd ss)"
    using snoc by simp
  have "compiles (stage_source w (fst s)) (snd s) w"
    using snoc.prems(1) by (auto simp: stage_fails_def compile_fails_def)
  then have "compiles (stage_source w (fst s)) (snd s) ?v"
    by (simp add: compiles_def)
  then have c: "compileShader (stage_source w (fst s)) (snd s) ?v =
                  Inr ((name_of (name_count ?v), None),
                       after_compile (stage_source w (fst s)) (snd s) ?v)"
    by (rule compileShader_ok)
  have "staged w (after_compile (stage_source w (fst s)) (snd s) ?v)
          (stage_names (length ss) w @ [name_of (name_count ?v)]) (map snd ss @ [snd s])"
    using snoc.prems(2) by (intro staged_compile [OF ih _ c]) (simp add: stage_names_def)
  then show ?case
    by (simp add: stages_world_snoc stage_names_Suc)
qed

lemma stage_readFile:
  "\<not> stage_fails w (n, ty) \<Longrightarrow> files v = files w \<Longrightarrow> readFile n v = (stage_source w n, None)"
  by (auto simp: stage_fails_def read_fails_def readFile_def stage_source_def split: sum.splits)

lemma stage_compileShader:
  assumes "\<not> stage_fails w (n, ty)" and "compiler v = compiler w"
  shows "compileShader (stage_source w n) ty v =
           Inr ((name_of (name_count v), None), after_compile (stage_source w n) ty v)"
proof -
  have "compiles (stage_source w n) ty w"
    using assms(1) by (auto simp: stage_fails_def compile_fails_def)
  then have "compiles (stage_source w n) ty v"
    using assms(2) by (simp add: compiles_def)
  then show ?thesis by (rule compileShader_ok)
qed

text \<open>With every stage read and compiled, \<open>NewProgram\<close> is its link block on the stages.\<close>

lemma NewProgram_all_stages:
  assumes ok: "\<forall>s \<in> set (stage_list vn gn tcn ten fn). \<not> stage_fails w s"
  shows "\<exists>v tc te f g.
           stage_handles (tcn \<noteq> [] \<and> ten \<noteq> []) (gn \<noteq> []) v tc te f g
             = stage_names (length (stage_list vn gn tcn ten fn)) w
           \<and> NewProgram vn gn tcn ten fn w =
               NewProgram_link (tcn \<noteq> [] \<and> ten \<noteq> []) (gn \<noteq> []) v tc te f g
                 (stages_world (stage_list vn gn tcn ten fn) w)"
proof -
  note run = NewProgram_def NewProgram_tessellation_def NewProgram_geometry_def bindP_def
    stage_readFile stage_compileShader stages_world_def stage_handles_def stage_names_def
    Let_def
  show ?thesis
  proof (cases "tcn \<noteq> [] \<and> ten \<noteq> []"; cases "gn \<noteq> []")
    assume ut: "tcn \<noteq> [] \<and> ten \<noteq> []" and ug: "gn \<noteq> []"
    from ok ut ug have s:
      "\<not> stage_fails w (vn, VERTEX_SHADER)" "\<not> stage_fails w (tcn, TESS_CONTROL_SHADER)"
      "\<not> stage_fails w (ten, TESS_EVALUATION_SHADER)" "\<not> stage_fails w (fn, FRAGMENT_SHADER)"
      "\<not> stage_fails w (gn, GEOMETRY_SHADER)"
      by (simp_all add: stage_list_def)
    show ?thesis
      using ut ug s by (auto simp: run stage_list_def)
  next
    assume ut: "tcn \<noteq> [] \<and> ten \<noteq> []" and ug: "\<not> gn \<noteq> []"
    from ok ut ug have s:
      "\<not> stage_fails w (vn, VERTEX_SHADER)" "\<not> stage_fails w (tcn, TESS_CONTROL_SHADER)"
      "\<not> stage_fails w (ten, TESS_EVALUATION_SHADER)" "\<not> stage_fails w (fn, FRAGMENT_SHADER)"
      by (simp_all add: stage_list_def)
    show ?thesis
      using ut ug s by (auto simp: run stage_list_def)
  next
    assume ut: "\<not> (tcn \<noteq> [] \<and> ten \<noteq> [])" and ug: "gn \<noteq> []"
    from ok ut ug have s:
      "\<not> stage_fails w (vn, VERTEX_SHADER)" "\<not> stage_fails w (fn, FRAGMENT_SHADER)"
      "\<not> stage_fails w (gn, GEOMETRY_SHADER)"
      by (simp_all add: stage_list_def)
    show ?thesis
      using ut ug s by (auto simp: run stage_list_def)
  next
    assume ut: "\<not> (tcn \<noteq> [] \<and> ten \<noteq> [])" and ug: "\<not> gn \<noteq> []"
    from ok ut ug have s:
      "\<not> stage_fails w (vn, VERTEX_SHADER)" "\<not> stage_fails w (fn, FRAGMENT_SHADER)"
      by (simp_all add: stage_list_def)
    show ?thesis
      using ut ug s by (auto simp: run stage_list_def)
  qed
qed


text \<open>A call that gets as far as the link block has read and compiled every stage.\<close>

lemma NewProgram_path_stages:
  assumes rv: "readFile vn w = (vsrc, None)"
      and cv: "compileShader vsrc VERTEX_SHADER w = Inr ((v, None), w1)"
      and ct: "NewProgram_tessellation (tcn \<noteq> [] \<and> ten \<noteq> []) tcn ten w1 = Inr ((tc, te, None), w2)"
      and rf: "readFile fn w2 = (fsrc, None)"
      and cf: "compileShader fsrc FRAGMENT_SHADER w2 = Inr ((f, None), w3)"
      and cg: "NewProgram_geometry (gn \<noteq> []) gn w3 = Inr ((g, None), w4)"
  shows "\<forall>s \<in> set (stage_list vn gn tcn ten fn). \<not> stage_fails w s"
proof -
  have e1: "files w1 = files w" "compiler w1 = compiler w"
    using compileShader_env [OF cv] by simp_all
  have e2: "files w2 = files w" "compiler w2 = compiler w"
    using NewProgram_tessellation_env [OF ct] e1 by simp_all
  have e3: "files w3 = files w" "compiler w3 = compiler w"
    using compileShader_env [OF cf] e2 by simp_all
  have a: "\<not> stage_fails w (vn, VERTEX_SHADER)"
    by (rule stage_ran [OF rv cv]) simp_all
  have b: "\<not> stage_fails w (fn, FRAGMENT_SHADER)"
    by (rule stage_ran [OF rf cf e2])
  have c: "\<not> stage_fails w (tcn, TESS_CONTROL_SHADER) \<and> \<not> stage_fails w (ten, TESS_EVALUATION_SHADER)"
    if "tcn \<noteq> [] \<and> ten \<noteq> []"
    using ct that tessellation_ran [OF _ e1, of tcn ten tc te w2] by simp
  have d: "\<not> stage_fails w (gn, GEOMETRY_SHADER)" if "gn \<noteq> []"
    using cg that geometry_ran [OF _ e3, of gn g w4] by simp
  show ?thesis
    using a b c d by (auto simp: stage_list_def)
qed

lemma NewProgram_outcome:
  assumes ret: "NewProgram vn gn tcn ten fn w = Inr ((h, e), w')"
  defines "ss \<equiv> stage_list vn gn tcn ten fn"
  defines "hs \<equiv> stage_names (length ss) w"
  defines "w4 \<equiv> stages_world ss w"
  shows "if \<exists>s \<in> set ss. stage_fails w s then h = 0 \<and> e \<noteq> None
         else if links hs w4
         then h = name_of (name_count w + length ss) \<and> e = None
              \<and> w' = delete_all hs (linked_world hs w4)
         else h = 0 \<and> e \<noteq> None \<and> w' = linked_world hs w4"
proof (cases "\<exists>s \<in> set ss. stage_fails w s")
  case True
  from NewProgram_path [OF ret] have "h = 0 \<and> e \<noteq> None"
  proof (elim disjE exE conjE)
    fix vsrc v w1 tc te w2 fsrc f w3 g w4'
    assume "readFile vn w = (vsrc, None)"
      "compileShader vsrc VERTEX_SHADER w = Inr ((v, None), w1)"
      "NewProgram_tessellation (tcn \<noteq> [] \<and> ten \<noteq> []) tcn ten w1 = Inr ((tc, te, None), w2)"
      "readFile fn w2 = (fsrc, None)"
      "compileShader fsrc FRAGMENT_SHADER w2 = Inr ((f, None), w3)"
      "NewProgram_geometry (gn \<noteq> []) gn w3 = Inr ((g, None), w4')"
    then have "\<forall>s \<in> set ss. \<not> stage_fails w s"
      unfolding ss_def by (rule NewProgram_path_stages)
    with True show ?thesis by blast
  qed simp
  with True show ?thesis by simp
next
  case False
  then have ok: "\<forall>s \<in> set (stage_list vn gn tcn ten fn). \<not> stage_fails w s"
    by (simp add: ss_def)
  from NewProgram_all_stages [OF ok] obtain v tc te f g where
    hd: "stage_handles (tcn \<noteq> [] \<and> ten \<noteq> []) (gn \<noteq> []) v tc te f g = hs" and
    eq: "NewProgram vn gn tcn ten fn w =
           NewProgram_link (tcn \<noteq> [] \<and> ten \<noteq> []) (gn \<noteq> []) v tc te f g w4"
    unfolding hs_def ss_def w4_def by blast
  have len: "length ss \<le> 5"
    by (simp add: ss_def stage_list_def)
  then have st: "staged w w4 hs (map snd ss)"
    unfolding hs_def w4_def using ok by (intro staged_stages_world) (simp_all add: ss_def)
  have d: "distinct hs"
    using len by (intro staged_distinct [OF st]) (simp add: hs_def stage_names_def)
  note u = NewProgram_link_unfold [OF hd [symmetric] d staged_live [OF st]]
  have nc: "name_count w4 = name_count w + length ss"
    by (simp add: w4_def)
  from ret have "if links hs w4
        then h = name_of (name_count w + length ss) \<and> e = None
             \<and> w' = delete_all hs (linked_world hs w4)
        else h = 0 \<and> e \<noteq> None \<and> w' = linked_world hs w4"
    unfolding eq u by (auto simp: bindP_def nc split: if_splits sum.splits)
  with False show ?thesis by simp
qed


lemma compute_link_unfold:
  assumes live: "shaders w1 cs \<noteq> None"
  shows "(let (program, w2) = gl_CreateProgram w1;
              w3 = gl_AttachShader program cs w2;
              w4 = gl_LinkProgram program w3;
              status = gl_GetProgramiv program LINK_STATUS 0 w4
          in if status = FALSE then
               (let logLength = gl_GetProgramiv program INFO_LOG_LENGTH 0 w4
                in bindP (strings_Repeat [NUL] (sint (logLength + 1))) (\<lambda>log0.
                   bindP (gl_Str log0) (\<lambda>buf.
                     let log = gl_GetProgramInfoLog program logLength buf w4
                     in Inr ((0, Some (Errorf (''failed to link program: '' @ log))), w4))))
             else Inr ((program, None), gl_DeleteShader cs w4)) =
         (if links [cs] w1
          then Inr ((name_of (name_count w1), None), delete_all [cs] (linked_world [cs] w1))
          else bindP (strings_Repeat [NUL] (sint (info_log_length (link_log [cs] w1) + 1)))
                 (\<lambda>log0. bindP (gl_Str log0) (\<lambda>buf.
                    Inr ((0, Some (Errorf (''failed to link program: '' @
                            write_info_log (link_log [cs] w1)
                              (info_log_length (link_log [cs] w1)) buf))),
                         linked_world [cs] w1))))"
proof -
  define p where "p = name_of (name_count w1)"
  define w2 where "w2 = snd (gl_CreateProgram w1)"
  have cp: "gl_CreateProgram w1 = (p, w2)"
    by (simp add: w2_def p_def gl_CreateProgram_def gen_name_def)
  have w2: "w2 = w1\<lparr>name_count := Suc (name_count w1),
                   programs := (programs w1)(p \<mapsto> \<lparr>attached = [], link_status = False, pinfo_log = []\<rparr>)\<rparr>"
    by (simp add: w2_def p_def gl_CreateProgram_def gen_name_def)
  define w3 where "w3 = gl_AttachShader p cs w2"
  have "w3 = attach_all p [cs] w2"
    by (simp add: w3_def attach_all_def)
  then have w3: "w3 = w2\<lparr>programs := (programs w2)(p \<mapsto>
                    \<lparr>attached = [cs], link_status = False, pinfo_log = []\<rparr>)\<rparr>"
    using attach_all_eq [of w2 p "\<lparr>attached = [], link_status = False, pinfo_log = []\<rparr>" "[cs]"] live
    by (simp add: w2)
  have stage: "stage_of w3 = stage_of w1"
    by (simp add: w3 w2 stage_of_def fun_eq_iff)
  have lk: "linker w3 = linker w1"
    by (simp add: w3 w2)
  have pp: "programs w3 p = Some \<lparr>attached = [cs], link_status = False, pinfo_log = []\<rparr>"
    by (simp add: w3)
  define w4 where "w4 = gl_LinkProgram p w3"
  have "w4 = (let (ok, lg) = linker w1 (concat (map (stage_of w1) [cs]))
              in w3\<lparr>programs := (programs w3)(p \<mapsto>
                     \<lparr>attached = [cs], link_status = ok, pinfo_log = lg\<rparr>)\<rparr>)"
    by (simp add: w4_def gl_LinkProgram_def pp stage lk Let_def split: prod.splits)
  then have w4: "w4 = linked_world [cs] w1"
    by (simp add: linked_world_def p_def w3 w2 Let_def split: prod.splits)
  have del: "gl_DeleteShader cs w4 = delete_all [cs] w4"
    by (simp add: delete_all_def)
  have st: "gl_GetProgramiv p LINK_STATUS 0 w4 = (if links [cs] w1 then 1 else 0)"
    by (simp add: w4 gl_GetProgramiv_def linked_world_def links_def p_def Let_def
        split: prod.splits)
  have ll: "gl_GetProgramiv p INFO_LOG_LENGTH 0 w4 = info_log_length (link_log [cs] w1)"
    by (simp add: w4 gl_GetProgramiv_def linked_world_def link_log_def p_def Let_def
        split: prod.splits)
  have gl: "\<And>n buf. gl_GetProgramInfoLog p n buf w4 = write_info_log (link_log [cs] w1) n buf"
    by (simp add: w4 gl_GetProgramInfoLog_def linked_world_def link_log_def p_def Let_def
        split: prod.splits)
  show ?thesis
    unfolding cp
    apply (simp only: prod.case Let_def)
    apply (simp only: w3_def [symmetric] w4_def [symmetric] st ll gl del)
    apply (simp add: w4 p_def)
    done
qed

lemma NewComputeProgram_outcome:
  assumes ret: "NewComputeProgram cn w = Inr ((h, e), w')"
  defines "hs \<equiv> stage_names 1 w"
  defines "w4 \<equiv> stages_world [(cn, COMPUTE_SHADER)] w"
  shows "if stage_fails w (cn, COMPUTE_SHADER) then h = 0 \<and> e \<noteq> None
         else if links hs w4
         then h = name_of (name_count w + 1) \<and> e = None
              \<and> w' = delete_all hs (linked_world hs w4)
         else h = 0 \<and> e \<noteq> None \<and> w' = linked_world hs w4"
proof (cases "stage_fails w (cn, COMPUTE_SHADER)")
  case True
  show ?thesis
  proof (cases "files w cn")
    case (Inl err)
    with ret True show ?thesis
      by (auto simp: NewComputeProgram_def readFile_def)
  next
    case (Inr src)
    with True have nc: "\<not> compiles src COMPUTE_SHADER w"
      by (simp add: stage_fails_def read_fails_def compile_fails_def stage_source_def)
    from ret Inr obtain cs e1 w1 where
      c: "compileShader src COMPUTE_SHADER w = Inr ((cs, e1), w1)"
      by (cases "compileShader src COMPUTE_SHADER w")
         (auto simp: NewComputeProgram_def readFile_def bindP_def)
    from compileShader_Inr(3) [OF c nc] have "e1 \<noteq> None" by simp
    with ret Inr c True show ?thesis
      by (auto simp: NewComputeProgram_def readFile_def bindP_def)
  qed
next
  case False
  let ?src = "stage_source w cn"
  have rf: "readFile cn w = (?src, None)"
    by (rule stage_readFile [OF False]) simp
  have c: "compileShader ?src COMPUTE_SHADER w =
             Inr ((name_of (name_count w), None), after_compile ?src COMPUTE_SHADER w)"
    by (rule stage_compileShader [OF False]) simp
  have w4: "w4 = after_compile ?src COMPUTE_SHADER w"
    by (simp add: w4_def stages_world_def)
  have hs: "hs = [name_of (name_count w)]"
    by (simp add: hs_def stage_names_def)
  have live: "shaders w4 (name_of (name_count w)) \<noteq> None"
    by (simp add: w4 after_compile_shaders)
  let ?cs = "name_of (name_count w)"
  have tail: "NewComputeProgram cn w =
         (let (program, w2) = gl_CreateProgram w4;
              w3 = gl_AttachShader program ?cs w2;
              w4 = gl_LinkProgram program w3;
              status = gl_GetProgramiv program LINK_STATUS 0 w4
          in if status = FALSE then
               (let logLength = gl_GetProgramiv program INFO_LOG_LENGTH 0 w4
                in bindP (strings_Repeat [NUL] (sint (logLength + 1))) (\<lambda>log0.
                   bindP (gl_Str log0) (\<lambda>buf.
                     let log = gl_GetProgramInfoLog program logLength buf w4
                     in Inr ((0, Some (Errorf (''failed to link program: '' @ log))), w4))))
             else Inr ((program, None), gl_DeleteShader ?cs w4))"
    by (simp add: NewComputeProgram_def rf c bindP_def w4)
  from ret have "if links hs w4
        then h = name_of (name_count w + 1) \<and> e = None
             \<and> w' = delete_all hs (linked_world hs w4)
        else h = 0 \<and> e \<noteq> None \<and> w' = linked_world hs w4"
    unfolding tail compute_link_unfold [OF live] hs
    by (auto simp: w4 bindP_def split: if_splits sum.splits)
  with False show ?thesis by simp
qed


lemma linked_world_name_count:
  "name_count (delete_all hs (linked_world hs w)) = Suc (name_count w)"
  by simp

text \<open>The form of the error a call returns.\<close>

lemma compileShader_error_form:
  assumes "compileShader s t w = Inr ((h, Some err), w')"
  shows "\<exists>m. err = Errorf (''failed to compile '' @ m)"
  using assms
  by (auto simp: compileShader_def bindP_def Let_def split_def
      split: if_splits sum.splits)

lemma readFile_error_form:
  "readFile n v = (s, Some err) \<Longrightarrow> files v = files w \<Longrightarrow> files w n = Inl err"
  by (auto simp: readFile_def split: sum.splits)

lemma NewProgram_link_error_form:
  assumes "NewProgram_link ut ug v tc te f g w = Inr ((h, Some err), w')"
  shows "\<exists>m. err = Errorf (''failed to link program: '' @ m)"
  using assms
  by (auto simp: NewProgram_link_def bindP_def Let_def split_def
      split: if_splits sum.splits)


lemma stage_read_error:
  "readFile n v = (s, Some err) \<Longrightarrow> files v = files w \<Longrightarrow> n \<in> set names
     \<Longrightarrow> error_kind w names err"
  by (auto simp: error_kind_def readFile_def split: sum.splits)

lemma stage_compile_error:
  "compileShader s t v = Inr ((h, Some err), v') \<Longrightarrow> error_kind w names err"
  using compileShader_error_form [of s t v h err v'] by (auto simp: error_kind_def)

lemma tessellation_error:
  assumes "NewProgram_tessellation ut tcn ten v = Inr ((tc, te, Some err), v')"
      and "files v = files w" and "ut \<longrightarrow> tcn \<in> set names \<and> ten \<in> set names"
  shows "error_kind w names err"
proof (cases ut)
  case False
  with assms(1) show ?thesis by (simp add: NewProgram_tessellation_def)
next
  case True
  with assms(3) have n: "tcn \<in> set names" "ten \<in> set names" by simp_all
  show ?thesis
  proof (cases "readFile tcn v")
    case (Pair s1 e1)
    show ?thesis
    proof (cases e1)
      case (Some a)
      with Pair True assms(1) have "a = err"
        by (simp add: NewProgram_tessellation_def)
      with Pair Some show ?thesis
        using stage_read_error [OF _ assms(2) n(1)] by simp
    next
      case None
      note r1 = Pair [unfolded None]
      from assms(1) True r1 obtain h1 c1 v1 where
        c1: "compileShader s1 TESS_CONTROL_SHADER v = Inr ((h1, c1), v1)"
        by (cases "compileShader s1 TESS_CONTROL_SHADER v")
           (auto simp: NewProgram_tessellation_def bindP_def)
      show ?thesis
      proof (cases c1)
        case (Some a)
        with assms(1) True r1 c1 have "a = err"
          by (simp add: NewProgram_tessellation_def bindP_def)
        with c1 Some show ?thesis
          using stage_compile_error by blast
      next
        case None
        have f1: "files v1 = files w"
          using compileShader_env(1) [OF c1] assms(2) by simp
        obtain s2 e2 where r2: "readFile ten v1 = (s2, e2)" by (cases "readFile ten v1")
        show ?thesis
        proof (cases e2)
          case (Some a)
          with assms(1) True r1 c1 None r2 have "a = err"
            by (simp add: NewProgram_tessellation_def bindP_def)
          with r2 Some show ?thesis
            using stage_read_error [OF _ f1 n(2)] by simp
        next
          case e2: None
          from assms(1) True r1 c1 None r2 e2
          have "\<exists>h2. compileShader s2 TESS_EVALUATION_SHADER v1 = Inr ((h2, Some err), v')"
            by (cases "compileShader s2 TESS_EVALUATION_SHADER v1")
               (auto simp: NewProgram_tessellation_def bindP_def)
          then show ?thesis
            using stage_compile_error by blast
        qed
      qed
    qed
  qed
qed

lemma geometry_error:
  assumes "NewProgram_geometry ug gn v = Inr ((g, Some err), v')"
      and "files v = files w" and "ug \<longrightarrow> gn \<in> set names"
  shows "error_kind w names err"
proof (cases ug)
  case False
  with assms(1) show ?thesis by (simp add: NewProgram_geometry_def)
next
  case True
  obtain s1 e1 where r1: "readFile gn v = (s1, e1)" by (cases "readFile gn v")
  show ?thesis
  proof (cases e1)
    case (Some a)
    with assms(1) True r1 have "a = err"
      by (simp add: NewProgram_geometry_def)
    with r1 Some assms(3) True show ?thesis
      using stage_read_error [OF _ assms(2)] by simp
  next
    case None
    with assms(1) True r1
    have "compileShader s1 GEOMETRY_SHADER v = Inr ((g, Some err), v')"
      by (simp add: NewProgram_geometry_def)
    then show ?thesis by (rule stage_compile_error)
  qed
qed

lemma link_error:
  "NewProgram_link ut ug v tc te f g v4 = Inr ((h, Some err), w') \<Longrightarrow> error_kind w names err"
  using NewProgram_link_error_form [of ut ug v tc te f g v4 h err w']
  by (auto simp: error_kind_def)

lemma NewProgram_tessellation_files:
  "NewProgram_tessellation ut tcn ten w = Inr (r, w') \<Longrightarrow> files w' = files w"
  by (rule NewProgram_tessellation_env)

lemma NewProgram_error_kind:
  assumes ret: "NewProgram vn gn tcn ten fn w = Inr ((h, Some err), w')"
  shows "error_kind w (map fst (stage_list vn gn tcn ten fn)) err"
proof -
  let ?names = "map fst (stage_list vn gn tcn ten fn)"
  let ?ut = "tcn \<noteq> [] \<and> ten \<noteq> []" and ?ug = "gn \<noteq> []"
  have nv: "vn \<in> set ?names" and nf: "fn \<in> set ?names"
    and nt: "?ut \<longrightarrow> tcn \<in> set ?names \<and> ten \<in> set ?names"
    and ng: "?ug \<longrightarrow> gn \<in> set ?names"
    by (auto simp: stage_list_def)
  obtain vsrc e0 where r0: "readFile vn w = (vsrc, e0)" by (cases "readFile vn w")
  show ?thesis
  proof (cases e0)
    case (Some a)
    with ret r0 have "a = err" by (simp add: NewProgram_def)
    with r0 Some show ?thesis using stage_read_error [OF _ refl nv] by simp
  next
    case None
    note r0 = r0 [unfolded None]
    from ret r0 obtain v e1 w1 where c1: "compileShader vsrc VERTEX_SHADER w = Inr ((v, e1), w1)"
      by (cases "compileShader vsrc VERTEX_SHADER w") (auto simp: NewProgram_def bindP_def)
    show ?thesis
    proof (cases e1)
      case (Some a)
      with ret r0 c1 have "a = err" by (simp add: NewProgram_def bindP_def)
      with c1 Some show ?thesis using stage_compile_error by blast
    next
      case None
      note c1 = c1 [unfolded None]
      have f1: "files w1 = files w" using compileShader_env(1) [OF c1] .
      from ret r0 c1 obtain tc te e2 w2 where
        c2: "NewProgram_tessellation ?ut tcn ten w1 = Inr ((tc, te, e2), w2)"
        by (cases "NewProgram_tessellation ?ut tcn ten w1")
           (auto simp: NewProgram_def bindP_def)
      show ?thesis
      proof (cases e2)
        case (Some a)
        with ret r0 c1 c2 have "a = err" by (simp add: NewProgram_def bindP_def)
        with c2 Some show ?thesis using tessellation_error [OF _ f1 nt] by blast
      next
        case None
        note c2 = c2 [unfolded None]
        have f2: "files w2 = files w" using NewProgram_tessellation_files [OF c2] f1 by simp
        obtain fsrc e3 where r3: "readFile fn w2 = (fsrc, e3)" by (cases "readFile fn w2")
        show ?thesis
        proof (cases e3)
          case (Some a)
          with ret r0 c1 c2 r3 have "a = err" by (simp add: NewProgram_def bindP_def)
          with r3 Some show ?thesis using stage_read_error [OF _ f2 nf] by simp
        next
          case None
          note r3 = r3 [unfolded None]
          from ret r0 c1 c2 r3 obtain f e4 w3 where
            c4: "compileShader fsrc FRAGMENT_SHADER w2 = Inr ((f, e4), w3)"
            by (cases "compileShader fsrc FRAGMENT_SHADER w2")
               (auto simp: NewProgram_def bindP_def)
          show ?thesis
          proof (cases e4)
            case (Some a)
            with ret r0 c1 c2 r3 c4 have "a = err" by (simp add: NewProgram_def bindP_def)
            with c4 Some show ?thesis using stage_compile_error by blast
          next
            case None
            note c4 = c4 [unfolded None]
            have f3: "files w3 = files w" using compileShader_env(1) [OF c4] f2 by simp
            from ret r0 c1 c2 r3 c4 obtain g e5 w4 where
              c5: "NewProgram_geometry ?ug gn w3 = Inr ((g, e5), w4)"
              by (cases "NewProgram_geometry ?ug gn w3")
                 (auto simp: NewProgram_def bindP_def)
            show ?thesis
            proof (cases e5)
              case (Some a)
              with ret r0 c1 c2 r3 c4 c5 have "a = err" by (simp add: NewProgram_def bindP_def)
              with c5 Some show ?thesis using geometry_error [OF _ f3 ng] by blast
            next
              case None
              with ret r0 c1 c2 r3 c4 c5
              have "NewProgram_link ?ut ?ug v tc te f g w4 = Inr ((h, Some err), w')"
                by (simp add: NewProgram_def bindP_def)
              then show ?thesis by (rule link_error)
            qed
          qed
        qed
      qed
    qed
  qed
qed

lemma NewComputeProgram_error_kind:
  assumes ret: "NewComputeProgram cn w = Inr ((h, Some err), w')"
  shows "error_kind w [cn] err"
proof -
  obtain src e0 where r0: "readFile cn w = (src, e0)" by (cases "readFile cn w")
  show ?thesis
  proof (cases e0)
    case (Some a)
    with ret r0 have "a = err" by (simp add: NewComputeProgram_def)
    with r0 Some show ?thesis using stage_read_error [OF _ refl, of cn w src err "[cn]"] by simp
  next
    case None
    note r0 = r0 [unfolded None]
    from ret r0 obtain c e1 w1 where c1: "compileShader src COMPUTE_SHADER w = Inr ((c, e1), w1)"
      by (cases "compileShader src COMPUTE_SHADER w") (auto simp: NewComputeProgram_def bindP_def)
    show ?thesis
    proof (cases e1)
      case (Some a)
      with ret r0 c1 have "a = err" by (simp add: NewComputeProgram_def bindP_def)
      with c1 Some show ?thesis using stage_compile_error by blast
    next
      case None
      with ret r0 c1 have "\<exists>m. err = Errorf (''failed to link program: '' @ m)"
        by (auto simp: NewComputeProgram_def bindP_def Let_def split_def
            split: if_splits sum.splits)
      then show ?thesis by (auto simp: error_kind_def)
    qed
  qed
qed

subsection \<open>Runs in the small world\<close>

lemma demo_world_fields [simp]:
  "files demo_world = (\<lambda>name. if name = ''missing''
       then Inl (Errorf ''open missing: no such file or directory'') else Inr name)"
  "compiler demo_world = (\<lambda>ty src. if src = ''bad'' then (False, ''syntax error'') else (True, []))"
  "linker demo_world = (\<lambda>stages. if (FRAGMENT_SHADER, ''nolink'') \<in> set stages
       then (False, ''link error'') else (True, []))"
  "name_count demo_world = 7"
  "shaders demo_world = (\<lambda>_. None)"
  "programs demo_world = (\<lambda>_. None)"
  "stdout demo_world = []"
  by (simp_all add: demo_world_def)

lemma after_compile_linker [simp]: "linker (after_compile s t w) = linker w"
  by simp

lemmas demo_front =
  NewProgram_def NewProgram_tessellation_def NewProgram_geometry_def NewComputeProgram_def
  bindP_def compileShader_ok compiles_def readFile_def shader_text_def name_of_def

lemmas demo_link =
  stage_handles_def after_compile_shaders links_def link_log_def stage_of_def name_of_def
  shader_text_def

lemma demo_five_stages:
  "NewProgram ''v'' ''g'' ''tc'' ''te'' ''f'' demo_world =
     Inr ((13, None), delete_all [8, 9, 10, 11, 12] (linked_world [8, 9, 10, 11, 12]
       (after_compile ''g'' GEOMETRY_SHADER (after_compile ''f'' FRAGMENT_SHADER
          (after_compile ''te'' TESS_EVALUATION_SHADER (after_compile ''tc'' TESS_CONTROL_SHADER
             (after_compile ''v'' VERTEX_SHADER demo_world)))))))"
proof -
  define w5 where "w5 = after_compile ''g'' GEOMETRY_SHADER (after_compile ''f'' FRAGMENT_SHADER
          (after_compile ''te'' TESS_EVALUATION_SHADER (after_compile ''tc'' TESS_CONTROL_SHADER
             (after_compile ''v'' VERTEX_SHADER demo_world))))"
  have front: "NewProgram ''v'' ''g'' ''tc'' ''te'' ''f'' demo_world =
                 NewProgram_link True True 8 9 10 11 12 w5"
    by (simp add: demo_front w5_def)
  have hs: "[8, 9, 10, 11, 12] = stage_handles True True 8 9 10 11 (12 :: u32)"
    by (simp add: stage_handles_def)
  have live: "\<forall>h \<in> set [8, 9, 10, 11, 12 :: u32]. shaders w5 h \<noteq> None"
    by (simp add: w5_def demo_link)
  have ok: "links [8, 9, 10, 11, 12] w5"
    by (simp add: w5_def demo_link)
  have "NewProgram_link True True 8 9 10 11 12 w5 =
          Inr ((name_of (name_count w5), None),
               delete_all [8, 9, 10, 11, 12] (linked_world [8, 9, 10, 11, 12] w5))"
    by (rule NewProgram_link_ok [OF hs _ live ok]) simp
  then show ?thesis
    by (simp add: front) (simp add: w5_def name_of_def)
qed

text \<open>
  C1, as stated, fails: with all five file names given, five stage objects are attached
  to the program.
\<close>

theorem NewProgram_five_stages_counterexample:
  "\<exists>w'. NewProgram ''v'' ''g'' ''tc'' ''te'' ''f'' demo_world = Inr ((13, None), w')
        \<and> attached_to 13 w' = [8, 9, 10, 11, 12]
        \<and> \<not> length (attached_to 13 w') \<le> 4"
  by (simp add: demo_five_stages attached_to_def name_of_def)


lemma demo_two_stages:
  "NewProgram ''v'' [] [] [] ''f'' demo_world =
     Inr ((10, None), delete_all [8, 9] (linked_world [8, 9]
       (after_compile ''f'' FRAGMENT_SHADER (after_compile ''v'' VERTEX_SHADER demo_world))))"
proof -
  define w2 where
    "w2 = after_compile ''f'' FRAGMENT_SHADER (after_compile ''v'' VERTEX_SHADER demo_world)"
  have front: "NewProgram ''v'' [] [] [] ''f'' demo_world = NewProgram_link False False 8 0 0 9 0 w2"
    by (simp add: demo_front w2_def)
  have hs: "[8, 9] = stage_handles False False 8 0 0 9 (0 :: u32)"
    by (simp add: stage_handles_def)
  have live: "\<forall>h \<in> set [8, 9 :: u32]. shaders w2 h \<noteq> None"
    by (simp add: w2_def demo_link)
  have ok: "links [8, 9] w2"
    by (simp add: w2_def demo_link)
  have "NewProgram_link False False 8 0 0 9 0 w2 =
          Inr ((name_of (name_count w2), None), delete_all [8, 9] (linked_world [8, 9] w2))"
    by (rule NewProgram_link_ok [OF hs _ live ok]) simp
  then show ?thesis
    by (simp add: front) (simp add: w2_def name_of_def)
qed

lemma demo_link_failure:
  "NewProgram ''v'' [] [] [] ''nolink'' demo_world =
     Inr ((0, Some (Errorf (''failed to link program: link error'' @ [NUL, NUL]))),
          linked_world [8, 9]
            (after_compile ''nolink'' FRAGMENT_SHADER
               (after_compile ''v'' VERTEX_SHADER demo_world)))"
proof -
  define w2 where
    "w2 = after_compile ''nolink'' FRAGMENT_SHADER (after_compile ''v'' VERTEX_SHADER demo_world)"
  have front: "NewProgram ''v'' [] [] [] ''nolink'' demo_world =
                 NewProgram_link False False 8 0 0 9 0 w2"
    by (simp add: demo_front w2_def)
  have hs: "[8, 9] = stage_handles False False 8 0 0 9 (0 :: u32)"
    by (simp add: stage_handles_def)
  have live: "\<forall>h \<in> set [8, 9 :: u32]. shaders w2 h \<noteq> None"
    by (simp add: w2_def demo_link)
  have no: "\<not> links [8, 9] w2"
    by (simp add: w2_def demo_link)
  have lg: "link_log [8, 9] w2 = ''link error''"
    by (simp add: w2_def demo_link)
  have "NewProgram_link False False 8 0 0 9 0 w2 =
          Inr ((0, Some (Errorf (''failed to link program: '' @ link_log [8, 9] w2 @
                  (if link_log [8, 9] w2 = [] then [NUL] else [NUL, NUL])))),
               linked_world [8, 9] w2)"
    by (rule NewProgram_link_fail [OF hs _ live no]) (simp_all add: lg)
  then show ?thesis
    by (simp add: front lg) (simp add: w2_def)
qed

text \<open>A run with the two mandatory stages.\<close>

theorem NewProgram_attaches_two_to_five_stages_witness:
  "\<exists>w'. NewProgram ''v'' [] [] [] ''f'' demo_world = Inr ((10, None), w')
     \<and> (let program = name_of (name_count w' - 1); hs = attached_to program w'
        in programs w' = (programs demo_world)(program := programs w' program)
           \<and> 10 = program
           \<and> distinct hs
           \<and> map (stage_type w') hs = map Some [VERTEX_SHADER, FRAGMENT_SHADER]
           \<and> 2 \<le> length hs \<and> length hs \<le> 5)"
proof -
  let ?w' = "delete_all [8, 9] (linked_world [8, 9]
       (after_compile ''f'' FRAGMENT_SHADER (after_compile ''v'' VERTEX_SHADER demo_world)))"
  have run: "NewProgram ''v'' [] [] [] ''f'' demo_world = Inr ((10, None), ?w')"
    by (rule demo_two_stages)
  from NewProgram_attaches_two_to_five_stages [OF run]
  have "let program = name_of (name_count ?w' - 1); hs = attached_to program ?w'
        in programs ?w' = (programs demo_world)(program := programs ?w' program)
           \<and> 10 = program
           \<and> distinct hs
           \<and> map (stage_type ?w') hs = map Some [VERTEX_SHADER, FRAGMENT_SHADER]
           \<and> 2 \<le> length hs \<and> length hs \<le> 5"
    by (simp add: Let_def name_of_def)
  with run show ?thesis by blast
qed

text \<open>
  C2 fails on the code when linking fails: \<open>NewProgram\<close> returns from inside the
  link-status check, before the calls of \<open>DeleteShader\<close>. Here the vertex shader 8 and the
  fragment shader 9 compile, the program 10 does not link, and at the return both shader
  objects are still attached and neither is flagged for deletion.
\<close>

theorem NewProgram_link_failure_leaves_shaders:
  "\<exists>w'. NewProgram ''v'' [] [] [] ''nolink'' demo_world =
          Inr ((0, Some (Errorf (''failed to link program: link error'' @ [NUL, NUL]))), w')
     \<and> attached_to 10 w' = [8, 9]
     \<and> map_option link_status (programs w' 10) = Some False
     \<and> map_option delete_status (shaders w' 8) = Some False
     \<and> map_option delete_status (shaders w' 9) = Some False"
  by (simp add: demo_link_failure attached_to_def demo_link)

text \<open>On the path where linking succeeds every attached stage object is flagged.\<close>

lemma NewProgram_success_deletes_shaders:
  assumes "NewProgram vn gn tcn ten fn w = Inr ((h, None), w')"
  shows "\<forall>s \<in> set (attached_to h w'). map_option delete_status (shaders w' s) = Some True"
proof -
  from NewProgram_Inr [OF assms] obtain hs w4 where
    st: "staged w w4 hs (stage_types (tcn \<noteq> [] \<and> ten \<noteq> []) (gn \<noteq> []))"
    and r: "links hs w4" "h = name_of (name_count w4)" "w' = delete_all hs (linked_world hs w4)"
    by (auto split: if_splits)
  have "\<forall>s \<in> set hs. shaders w4 s \<noteq> None"
    using st by (rule staged_live)
  then show ?thesis
    by (auto simp: r attached_to_def delete_all_shaders)
qed


lemma NewComputeProgram_Inr:
  assumes "NewComputeProgram computeShaderName w = Inr ((h, e), w')"
  shows "(h = 0 \<and> e \<noteq> None) \<or>
         (e = None \<and> h = name_of (Suc (name_count w))
          \<and> name_count w' = Suc (Suc (name_count w))
          \<and> map_option link_status (programs w' h) = Some True)"
proof (cases "readFile computeShaderName w")
  case (Pair src err)
  show ?thesis
  proof (cases err)
    case (Some a)
    with Pair assms show ?thesis
      by (auto simp: NewComputeProgram_def)
  next
    case None
    note rf = Pair [unfolded None]
    from assms rf obtain cs e1 w1 where
      c: "compileShader src COMPUTE_SHADER w = Inr ((cs, e1), w1)"
      by (cases "compileShader src COMPUTE_SHADER w")
         (auto simp: NewComputeProgram_def bindP_def)
    show ?thesis
    proof (cases e1)
      case (Some a)
      with assms rf c show ?thesis
        by (auto simp: NewComputeProgram_def bindP_def)
    next
      case None
      have w1: "w1 = after_compile src COMPUTE_SHADER w"
        using compileShader_Inr(1) [OF c] .
      have "compiles src COMPUTE_SHADER w"
        using compileShader_Inr(3) [OF c] None by auto
      then have cs: "cs = name_of (name_count w)"
        using compileShader_Inr(2) [OF c] by simp
      have ne: "name_of (Suc (name_count w)) \<noteq> name_of (name_count w)"
        using name_of_distinct [of 1 "name_count w"] by simp
      from assms show ?thesis
        unfolding NewComputeProgram_def rf
        by (auto simp: c None bindP_def w1 cs ne gl_CreateProgram_def gen_name_def
            gl_AttachShader_def gl_LinkProgram_def gl_GetProgramiv_def gl_DeleteShader_def
            after_compile_shaders Let_def
            split: prod.splits if_splits sum.splits)
    qed
  qed
qed

text \<open>
  C3. With info logs that fit, \<open>NewProgram\<close> and \<open>NewComputeProgram\<close> return. Whenever
  either returns, the handle is 0 exactly when the error is non-nil, and the error is
  non-nil exactly when the file of a stage cannot be read, or the source of a stage does
  not compile, or the program of the compiled stages does not link; the error is then
  the read error of one of the files, a compile error or a link error. With a nil error
  the handle is the name the driver handed out last, after one name for each stage, and
  at that name the call has put a new program object, linked, with the stage objects of
  the call attached; no other program has changed.
\<close>

theorem zero_handle_iff_error:
  "(logs_fit w \<longrightarrow>
      (\<exists>r. NewProgram vertexShaderName geometryShaderName tessControlShaderName
             tessEvalShaderName fragmentShaderName w = Inr r)
      \<and> (\<exists>r. NewComputeProgram computeShaderName w = Inr r))
   \<and> (NewProgram vertexShaderName geometryShaderName tessControlShaderName tessEvalShaderName
      fragmentShaderName w = Inr ((h, e), w')
    \<longrightarrow> (let ss = stage_list vertexShaderName geometryShaderName tessControlShaderName
                    tessEvalShaderName fragmentShaderName;
             hs = stage_names (length ss) w;
             w4 = stages_world ss w
         in (h = 0 \<longleftrightarrow> e \<noteq> None)
            \<and> (e \<noteq> None \<longleftrightarrow>
                 (\<exists>s \<in> set ss. read_fails w (fst s) \<or> compile_fails w s) \<or> \<not> links hs w4)
            \<and> (\<forall>err. e = Some err \<longrightarrow> error_kind w (map fst ss) err)
            \<and> (e = None \<longrightarrow>
                 h = name_of (name_count w + length ss)
                 \<and> h = name_of (name_count w' - 1)
                 \<and> name_count w' = name_count w + length ss + 1
                 \<and> map_option link_status (programs w' h) = Some True
                 \<and> programs w' = (programs w)(h \<mapsto>
                       \<lparr>attached = hs, link_status = True, pinfo_log = link_log hs w4\<rparr>))))
   \<and> (NewComputeProgram computeShaderName w = Inr ((hc, ec), wc')
    \<longrightarrow> (let ss = [(computeShaderName, COMPUTE_SHADER)];
             hs = stage_names (length ss) w;
             w4 = stages_world ss w
         in (hc = 0 \<longleftrightarrow> ec \<noteq> None)
            \<and> (ec \<noteq> None \<longleftrightarrow>
                 (\<exists>s \<in> set ss. read_fails w (fst s) \<or> compile_fails w s) \<or> \<not> links hs w4)
            \<and> (\<forall>err. ec = Some err \<longrightarrow> error_kind w (map fst ss) err)
            \<and> (ec = None \<longrightarrow>
                 hc = name_of (name_count w + length ss)
                 \<and> hc = name_of (name_count wc' - 1)
                 \<and> name_count wc' = name_count w + length ss + 1
                 \<and> map_option link_status (programs wc' hc) = Some True
                 \<and> programs wc' = (programs w)(hc \<mapsto>
                       \<lparr>attached = hs, link_status = True, pinfo_log = link_log hs w4\<rparr>))))"
proof (intro conjI impI)
  assume "logs_fit w"
  then show "\<exists>r. NewProgram vertexShaderName geometryShaderName tessControlShaderName
             tessEvalShaderName fragmentShaderName w = Inr r"
    by (rule NewProgram_returns)
next
  assume "logs_fit w"
  then show "\<exists>r. NewComputeProgram computeShaderName w = Inr r"
    by (rule NewComputeProgram_returns)
next
  assume a: "NewProgram vertexShaderName geometryShaderName tessControlShaderName
               tessEvalShaderName fragmentShaderName w = Inr ((h, e), w')"
  have k: "error_kind w (map fst (stage_list vertexShaderName geometryShaderName
             tessControlShaderName tessEvalShaderName fragmentShaderName)) err"
    if "e = Some err" for err
    using a that by (auto intro: NewProgram_error_kind)
  show "let ss = stage_list vertexShaderName geometryShaderName tessControlShaderName
                    tessEvalShaderName fragmentShaderName;
             hs = stage_names (length ss) w;
             w4 = stages_world ss w
         in (h = 0 \<longleftrightarrow> e \<noteq> None)
            \<and> (e \<noteq> None \<longleftrightarrow>
                 (\<exists>s \<in> set ss. read_fails w (fst s) \<or> compile_fails w s) \<or> \<not> links hs w4)
            \<and> (\<forall>err. e = Some err \<longrightarrow> error_kind w (map fst ss) err)
            \<and> (e = None \<longrightarrow>
                 h = name_of (name_count w + length ss)
                 \<and> h = name_of (name_count w' - 1)
                 \<and> name_count w' = name_count w + length ss + 1
                 \<and> map_option link_status (programs w' h) = Some True
                 \<and> programs w' = (programs w)(h \<mapsto>
                       \<lparr>attached = hs, link_status = True, pinfo_log = link_log hs w4\<rparr>))"
    using NewProgram_outcome [OF a] k
    by (auto simp: Let_def stage_fails_def name_of_nonzero split: if_splits)
next
  assume a: "NewComputeProgram computeShaderName w = Inr ((hc, ec), wc')"
  have k: "error_kind w [computeShaderName] err" if "ec = Some err" for err
    using a that by (auto intro: NewComputeProgram_error_kind)
  show "let ss = [(computeShaderName, COMPUTE_SHADER)];
             hs = stage_names (length ss) w;
             w4 = stages_world ss w
         in (hc = 0 \<longleftrightarrow> ec \<noteq> None)
            \<and> (ec \<noteq> None \<longleftrightarrow>
                 (\<exists>s \<in> set ss. read_fails w (fst s) \<or> compile_fails w s) \<or> \<not> links hs w4)
            \<and> (\<forall>err. ec = Some err \<longrightarrow> error_kind w (map fst ss) err)
            \<and> (ec = None \<longrightarrow>
                 hc = name_of (name_count w + length ss)
                 \<and> hc = name_of (name_count wc' - 1)
                 \<and> name_count wc' = name_count w + length ss + 1
                 \<and> map_option link_status (programs wc' hc) = Some True
                 \<and> programs wc' = (programs w)(hc \<mapsto>
                       \<lparr>attached = hs, link_status = True, pinfo_log = link_log hs w4\<rparr>))"
    using NewComputeProgram_outcome [OF a] k
    by (auto simp: Let_def stage_fails_def name_of_nonzero split: if_splits)
qed

lemma demo_compute:
  "NewComputeProgram ''c'' demo_world =
     Inr ((9, None),
          gl_DeleteShader 8 (gl_LinkProgram 9 (gl_AttachShader 9 8
            (snd (gl_CreateProgram (after_compile ''c'' COMPUTE_SHADER demo_world))))))"
  by (simp add: demo_front gl_CreateProgram_def gen_name_def gl_AttachShader_def
      gl_LinkProgram_def gl_GetProgramiv_def after_compile_shaders stage_of_def Let_def)

lemma demo_missing:
  "NewProgram ''missing'' [] [] [] ''f'' demo_world =
     Inr ((0, Some (Errorf ''open missing: no such file or directory'')), demo_world)"
  by (simp add: demo_front)

lemma demo_bad:
  "\<exists>w'. NewProgram ''bad'' [] [] [] ''f'' demo_world =
     Inr ((0, Some (Errorf (''failed to compile bad: syntax error'' @ [NUL, NUL]))), w')"
  by (simp add: demo_front compileShader_fail compile_log_def logs_fit_def)

lemma demo_logs_fit: "logs_fit demo_world"
  by (simp add: logs_fit_def)

lemma demo_stage_names:
  "stage_names (Suc (Suc 0)) demo_world = [8, 9]"
  "stage_names (Suc 0) demo_world = [8]"
  by (simp_all add: stage_names_def name_of_def)

lemma demo_stage_list:
  "stage_list ''v'' [] [] [] ''f'' = [(''v'', VERTEX_SHADER), (''f'', FRAGMENT_SHADER)]"
  "stage_list ''v'' [] [] [] ''nolink'' = [(''v'', VERTEX_SHADER), (''nolink'', FRAGMENT_SHADER)]"
  "stage_list ''missing'' [] [] [] ''f'' = [(''missing'', VERTEX_SHADER), (''f'', FRAGMENT_SHADER)]"
  "stage_list ''bad'' [] [] [] ''f'' = [(''bad'', VERTEX_SHADER), (''f'', FRAGMENT_SHADER)]"
  by (simp_all add: stage_list_def)

lemma demo_stage_fails:
  "read_fails demo_world ''missing''"
  "compile_fails demo_world (''bad'', VERTEX_SHADER)"
  by (simp_all add: read_fails_def compile_fails_def stage_source_def compiles_def
      shader_text_def)

lemmas demo_stages = demo_stage_names demo_stage_list list.size list.map fst_conv snd_conv
  Let_def list.set ball_simps bex_simps

text \<open>
  Runs of both functions: the stages compile and link, a file is missing, a source does
  not compile, the program does not link.
\<close>

theorem zero_handle_iff_error_witness:
  "logs_fit demo_world
   \<and> (\<exists>r. NewProgram ''v'' [] [] [] ''f'' demo_world = Inr r)
   \<and> (\<exists>r. NewComputeProgram ''c'' demo_world = Inr r)
   \<and> (\<exists>w'. NewProgram ''v'' [] [] [] ''f'' demo_world = Inr ((10, None), w')
         \<and> \<not> read_fails demo_world ''v'' \<and> \<not> compile_fails demo_world (''v'', VERTEX_SHADER)
         \<and> \<not> read_fails demo_world ''f'' \<and> \<not> compile_fails demo_world (''f'', FRAGMENT_SHADER)
         \<and> links [8, 9] (stages_world [(''v'', VERTEX_SHADER), (''f'', FRAGMENT_SHADER)] demo_world)
         \<and> name_count w' = 10
         \<and> map_option link_status (programs w' 10) = Some True
         \<and> map_option attached (programs w' 10) = Some [8, 9]
         \<and> programs w' 7 = programs demo_world 7)
   \<and> (\<exists>err. NewProgram ''missing'' [] [] [] ''f'' demo_world = Inr ((0, Some err), demo_world)
         \<and> read_fails demo_world ''missing''
         \<and> error_kind demo_world [''missing'', ''f''] err)
   \<and> (\<exists>err w'. NewProgram ''bad'' [] [] [] ''f'' demo_world = Inr ((0, Some err), w')
         \<and> compile_fails demo_world (''bad'', VERTEX_SHADER)
         \<and> error_kind demo_world [''bad'', ''f''] err)
   \<and> (\<exists>err w'. NewProgram ''v'' [] [] [] ''nolink'' demo_world = Inr ((0, Some err), w')
         \<and> error_kind demo_world [''v'', ''nolink''] err
         \<and> ((read_fails demo_world ''v'' \<or> compile_fails demo_world (''v'', VERTEX_SHADER)
              \<or> read_fails demo_world ''nolink''
              \<or> compile_fails demo_world (''nolink'', FRAGMENT_SHADER))
             \<or> \<not> links [8, 9] (stages_world
                   [(''v'', VERTEX_SHADER), (''nolink'', FRAGMENT_SHADER)] demo_world)))
   \<and> (\<exists>wc'. NewComputeProgram ''c'' demo_world = Inr ((9, None), wc')
         \<and> \<not> read_fails demo_world ''c'' \<and> \<not> compile_fails demo_world (''c'', COMPUTE_SHADER)
         \<and> links [8] (stages_world [(''c'', COMPUTE_SHADER)] demo_world)
         \<and> name_count wc' = 9
         \<and> map_option link_status (programs wc' 9) = Some True
         \<and> map_option attached (programs wc' 9) = Some [8])"
proof -
  obtain w1 where r1: "NewProgram ''v'' [] [] [] ''f'' demo_world = Inr ((10, None), w1)"
    using demo_two_stages by simp
  obtain w2 where r2: "NewComputeProgram ''c'' demo_world = Inr ((9, None), w2)"
    using demo_compute by simp
  obtain w3 where r3: "NewProgram ''bad'' [] [] [] ''f'' demo_world =
      Inr ((0, Some (Errorf (''failed to compile bad: syntax error'' @ [NUL, NUL]))), w3)"
    using demo_bad by blast
  obtain w4 where r4: "NewProgram ''v'' [] [] [] ''nolink'' demo_world =
      Inr ((0, Some (Errorf (''failed to link program: link error'' @ [NUL, NUL]))), w4)"
    using demo_link_failure by simp
  note t = zero_handle_iff_error [where w = demo_world and vertexShaderName = "''v''"
      and geometryShaderName = "[]" and tessControlShaderName = "[]"
      and tessEvalShaderName = "[]" and fragmentShaderName = "''f''" and h = 10 and e = None
      and w' = w1 and computeShaderName = "''c''" and hc = 9 and ec = None and wc' = w2]
  note u1 = t [THEN conjunct2, THEN conjunct1, rule_format, OF r1, unfolded demo_stages]
  note u2 = t [THEN conjunct2, THEN conjunct2, rule_format, OF r2, unfolded demo_stages]
  note u3 = zero_handle_iff_error [where w = demo_world and vertexShaderName = "''missing''"
      and geometryShaderName = "[]" and tessControlShaderName = "[]"
      and tessEvalShaderName = "[]" and fragmentShaderName = "''f''" and h = 0
      and w' = demo_world
      and e = "Some (Errorf ''open missing: no such file or directory'')",
      THEN conjunct2, THEN conjunct1, rule_format, OF demo_missing, unfolded demo_stages]
  note u4 = zero_handle_iff_error [where w = demo_world and vertexShaderName = "''bad''"
      and geometryShaderName = "[]" and tessControlShaderName = "[]"
      and tessEvalShaderName = "[]" and fragmentShaderName = "''f''" and h = 0 and w' = w3
      and e = "Some (Errorf (''failed to compile bad: syntax error'' @ [NUL, NUL]))",
      THEN conjunct2, THEN conjunct1, rule_format, OF r3, unfolded demo_stages]
  note u5 = zero_handle_iff_error [where w = demo_world and vertexShaderName = "''v''"
      and geometryShaderName = "[]" and tessControlShaderName = "[]"
      and tessEvalShaderName = "[]" and fragmentShaderName = "''nolink''" and h = 0 and w' = w4
      and e = "Some (Errorf (''failed to link program: link error'' @ [NUL, NUL]))",
      THEN conjunct2, THEN conjunct1, rule_format, OF r4, unfolded demo_stages]
  have a: "\<exists>r. NewProgram ''v'' [] [] [] ''f'' demo_world = Inr r"
          "\<exists>r. NewComputeProgram ''c'' demo_world = Inr r"
    using t demo_logs_fit by blast+
  have c1: "\<not> read_fails demo_world ''v'' \<and> \<not> compile_fails demo_world (''v'', VERTEX_SHADER)
         \<and> \<not> read_fails demo_world ''f'' \<and> \<not> compile_fails demo_world (''f'', FRAGMENT_SHADER)
         \<and> links [8, 9] (stages_world [(''v'', VERTEX_SHADER), (''f'', FRAGMENT_SHADER)] demo_world)
         \<and> name_count w1 = 10
         \<and> map_option link_status (programs w1 10) = Some True
         \<and> map_option attached (programs w1 10) = Some [8, 9]
         \<and> programs w1 7 = programs demo_world 7"
    using u1 by (simp add: demo_stage_names)
  have c2: "\<not> read_fails demo_world ''c'' \<and> \<not> compile_fails demo_world (''c'', COMPUTE_SHADER)
         \<and> links [8] (stages_world [(''c'', COMPUTE_SHADER)] demo_world)
         \<and> name_count w2 = 9
         \<and> map_option link_status (programs w2 9) = Some True
         \<and> map_option attached (programs w2 9) = Some [8]"
    using u2 by (simp add: demo_stage_names)
  have c3: "error_kind demo_world [''missing'', ''f'']
              (Errorf ''open missing: no such file or directory'')"
    using u3 by simp
  have c4: "error_kind demo_world [''bad'', ''f'']
              (Errorf (''failed to compile bad: syntax error'' @ [NUL, NUL]))"
    using u4 by simp
  have c5: "error_kind demo_world [''v'', ''nolink'']
              (Errorf (''failed to link program: link error'' @ [NUL, NUL]))
         \<and> ((read_fails demo_world ''v'' \<or> compile_fails demo_world (''v'', VERTEX_SHADER)
              \<or> read_fails demo_world ''nolink''
              \<or> compile_fails demo_world (''nolink'', FRAGMENT_SHADER))
             \<or> \<not> links [8, 9] (stages_world
                   [(''v'', VERTEX_SHADER), (''nolink'', FRAGMENT_SHADER)] demo_world))"
    using u5 by (simp add: demo_stage_names)
  have b: "read_fails demo_world ''missing''" "compile_fails demo_world (''bad'', VERTEX_SHADER)"
    by (rule demo_stage_fails)+
  from demo_logs_fit a r1 c1 demo_missing b c3 r3 c4 r4 c5 r2 c2 show ?thesis
    by blast
qed

subsection \<open>Textures\<close>

lemma gl_GenTextures_fields [simp]:
  "fst (gl_GenTextures w) = name_of (name_count w)"
  "name_count (snd (gl_GenTextures w)) = Suc (name_count w)"
  "textures (snd (gl_GenTextures w)) = (textures w)(name_of (name_count w) := new_texture)"
  "tex_binding (snd (gl_GenTextures w)) = tex_binding w"
  "mem (snd (gl_GenTextures w)) = mem w"
  "framebuffers (snd (gl_GenTextures w)) = framebuffers w"
  "fbo_binding (snd (gl_GenTextures w)) = fbo_binding w"
  "stdout (snd (gl_GenTextures w)) = stdout w"
  "float32_of_int (snd (gl_GenTextures w)) = float32_of_int w"
  by (simp_all add: gl_GenTextures_def gen_name_def)

lemma gl_BindTexture_fields [simp]:
  "name_count (gl_BindTexture target t w) = name_count w"
  "textures (gl_BindTexture target t w) = textures w"
  "tex_binding (gl_BindTexture target t w) = (tex_binding w)(target := t)"
  "mem (gl_BindTexture target t w) = mem w"
  "framebuffers (gl_BindTexture target t w) = framebuffers w"
  "fbo_binding (gl_BindTexture target t w) = fbo_binding w"
  "stdout (gl_BindTexture target t w) = stdout w"
  "float32_of_int (gl_BindTexture target t w) = float32_of_int w"
  by (simp_all add: gl_BindTexture_def)

lemma gl_TexParameteri_fields [simp]:
  "name_count (gl_TexParameteri target p v w) = name_count w"
  "textures (gl_TexParameteri target p v w) =
     (textures w)(tex_binding w target :=
        (textures w (tex_binding w target))
          \<lparr>tparams := (tparams (textures w (tex_binding w target)))(p \<mapsto> v)\<rparr>)"
  "tex_binding (gl_TexParameteri target p v w) = tex_binding w"
  "mem (gl_TexParameteri target p v w) = mem w"
  "framebuffers (gl_TexParameteri target p v w) = framebuffers w"
  "fbo_binding (gl_TexParameteri target p v w) = fbo_binding w"
  "stdout (gl_TexParameteri target p v w) = stdout w"
  "float32_of_int (gl_TexParameteri target p v w) = float32_of_int w"
  by (simp_all add: gl_TexParameteri_def Let_def)

lemma gl_TexStorage2D_fields [simp]:
  "name_count (gl_TexStorage2D target l f wd ht w) = name_count w"
  "textures (gl_TexStorage2D target l f wd ht w) =
     (if tex_binding w target = 0 then textures w
      else (textures w)(tex_binding w target :=
             (textures w (tex_binding w target))\<lparr>tstore := Storage2D l f wd ht\<rparr>))"
  "tex_binding (gl_TexStorage2D target l f wd ht w) = tex_binding w"
  "mem (gl_TexStorage2D target l f wd ht w) = mem w"
  "framebuffers (gl_TexStorage2D target l f wd ht w) = framebuffers w"
  "fbo_binding (gl_TexStorage2D target l f wd ht w) = fbo_binding w"
  by (simp_all add: gl_TexStorage2D_def Let_def)

lemma gl_TexStorage2DMultisample_fields [simp]:
  "name_count (gl_TexStorage2DMultisample target s f wd ht fx w) = name_count w"
  "textures (gl_TexStorage2DMultisample target s f wd ht fx w) =
     (if tex_binding w target = 0 then textures w
      else (textures w)(tex_binding w target :=
             (textures w (tex_binding w target))\<lparr>tstore := Storage2DMultisample s f wd ht fx\<rparr>))"
  "tex_binding (gl_TexStorage2DMultisample target s f wd ht fx w) = tex_binding w"
  "mem (gl_TexStorage2DMultisample target s f wd ht fx w) = mem w"
  "framebuffers (gl_TexStorage2DMultisample target s f wd ht fx w) = framebuffers w"
  "fbo_binding (gl_TexStorage2DMultisample target s f wd ht fx w) = fbo_binding w"
  by (simp_all add: gl_TexStorage2DMultisample_def Let_def)

lemma CreateTexture_fields [simp]:
  "fst (CreateTexture wd ht ifmt fmt ty ms smp mip w) = name_of (name_count w)"
  "name_count (snd (CreateTexture wd ht ifmt fmt ty ms smp mip w)) = Suc (name_count w)"
  "mem (snd (CreateTexture wd ht ifmt fmt ty ms smp mip w)) = mem w"
  "framebuffers (snd (CreateTexture wd ht ifmt fmt ty ms smp mip w)) = framebuffers w"
  "fbo_binding (snd (CreateTexture wd ht ifmt fmt ty ms smp mip w)) = fbo_binding w"
  "tex_binding (snd (CreateTexture wd ht ifmt fmt ty ms smp mip w)) =
     (tex_binding w)((if ms then TEXTURE_2D_MULTISAMPLE else TEXTURE_2D) := name_of (name_count w))"
  by (simp_all add: CreateTexture_def Let_def split_def)

lemma CreateTexture_tstore:
  "tstore (textures (snd (CreateTexture wd ht ifmt fmt ty ms smp mip w)) t) =
     (if t = name_of (name_count w)
      then (if ms then Storage2DMultisample smp ifmt wd ht False else Storage2D mip ifmt wd ht)
      else tstore (textures w t))"
  by (simp add: CreateTexture_def Let_def split_def name_of_nonzero new_texture_def)

lemma CreateTexture_tparams:
  "tparams (textures (snd (CreateTexture wd ht ifmt fmt ty ms smp mip w)) t) =
     (let n = name_of (name_count w);
          b = (if ms then tex_binding w TEXTURE_2D else n);
          old = (\<lambda>x. if x = n then (\<lambda>_. None) else tparams (textures w x))
      in if t = b
         then (old b)(TEXTURE_WRAP_S \<mapsto> CLAMP_TO_EDGE, TEXTURE_WRAP_T \<mapsto> CLAMP_TO_EDGE,
                      TEXTURE_MIN_FILTER \<mapsto> NEAREST, TEXTURE_MAG_FILTER \<mapsto> NEAREST)
         else old t)"
  by (simp add: CreateTexture_def Let_def split_def name_of_nonzero new_texture_def)


lemma demo_world_textures [simp]:
  "textures demo_world = (\<lambda>_. new_texture)"
  "tex_binding demo_world = (\<lambda>t. if t = TEXTURE_2D then 7 else 0)"
  by (simp_all add: demo_world_def)

text \<open>
  C5 fails on the code for a multisampled texture: the new texture is bound to the
  multisample target, and the four parameter calls name the plain 2D target. Here
  texture 7 is bound to the 2D target before the call; the call creates texture 8, whose
  four parameters stay unset, and sets them on texture 7.
\<close>

theorem CreateTexture_multisampling_sets_parameters_of_other_texture:
  "fst (CreateTexture 4 4 RGBA8 RGBA UNSIGNED_BYTE True 2 1 demo_world) = 8
   \<and> tex_binding (snd (CreateTexture 4 4 RGBA8 RGBA UNSIGNED_BYTE True 2 1 demo_world))
        TEXTURE_2D_MULTISAMPLE = 8
   \<and> tex_binding (snd (CreateTexture 4 4 RGBA8 RGBA UNSIGNED_BYTE True 2 1 demo_world))
        TEXTURE_2D = 7
   \<and> sampling_of (snd (CreateTexture 4 4 RGBA8 RGBA UNSIGNED_BYTE True 2 1 demo_world)) 8
        = [None, None, None, None]
   \<and> sampling_of (snd (CreateTexture 4 4 RGBA8 RGBA UNSIGNED_BYTE True 2 1 demo_world)) 7
        = [Some CLAMP_TO_EDGE, Some CLAMP_TO_EDGE, Some NEAREST, Some NEAREST]"
  by (simp add: sampling_of_def CreateTexture_tparams name_of_def Let_def)

text \<open>Without multisampling the parameters are those of the new texture.\<close>

lemma CreateTexture_plain_sets_parameters:
  "sampling_of (snd (CreateTexture wd ht ifmt fmt ty False smp mip w)) (name_of (name_count w))
     = [Some CLAMP_TO_EDGE, Some CLAMP_TO_EDGE, Some NEAREST, Some NEAREST]"
  by (simp add: sampling_of_def CreateTexture_tparams Let_def)

text \<open>With multisampling they go to the texture bound to the 2D target before the call.\<close>

lemma CreateTexture_multisample_sets_parameters:
  "sampling_of (snd (CreateTexture wd ht ifmt fmt ty True smp mip w)) (tex_binding w TEXTURE_2D)
     = [Some CLAMP_TO_EDGE, Some CLAMP_TO_EDGE, Some NEAREST, Some NEAREST]"
  "tex_binding w TEXTURE_2D \<noteq> name_of (name_count w) \<Longrightarrow>
   sampling_of (snd (CreateTexture wd ht ifmt fmt ty True smp mip w)) (name_of (name_count w))
     = [None, None, None, None]"
  by (simp_all add: sampling_of_def CreateTexture_tparams Let_def)


subsection \<open>Framebuffers\<close>

lemma CreateFboWithExistingTextures_fields [simp]:
  "fst (CreateFboWithExistingTextures colorTex depthTex texType w) = name_of (name_count w)"
  "name_count (snd (CreateFboWithExistingTextures colorTex depthTex texType w))
     = Suc (name_count w)"
  "textures (snd (CreateFboWithExistingTextures colorTex depthTex texType w)) = textures w"
  "mem (snd (CreateFboWithExistingTextures colorTex depthTex texType w)) = mem w"
  by (simp_all add: CreateFboWithExistingTextures_def gl_GenFramebuffers_def gen_name_def
      gl_BindFramebuffer_def gl_FramebufferTexture2D_def Let_def split_def
      split: option.splits)

lemma store_texture_fields [simp]:
  "name_count (store_texture p r) = name_count (snd r)"
  "textures (store_texture p r) = textures (snd r)"
  "mem (store_texture p r) = (mem (snd r))(p := fst r)"
  by (simp_all add: store_texture_def split_def)

lemma name_of_Suc_neq [simp]:
  "name_of (Suc c) \<noteq> name_of c" "name_of c \<noteq> name_of (Suc c)"
  using name_of_distinct [of 1 c] by auto

lemma CreateFbo_eq:
  "CreateFbo colorTex depthTex width height multisampling samples isFloatingPoint mipmapLevels w =
     fbo_with_textures colorTex depthTex multisampling
       (CreateTexture width height (if isFloatingPoint then RGBA32F else RGBA8) RGBA
          (if isFloatingPoint then FLOAT else UNSIGNED_BYTE) multisampling samples mipmapLevels)
       (CreateTexture width height DEPTH_COMPONENT32 DEPTH_COMPONENT FLOAT multisampling samples 1)
       w"
  by (simp add: CreateFbo_def fbo_with_textures_def create_if_def Let_def)

lemma CreateLightFbo_eq:
  "CreateLightFbo colorTex depthTex width height multisampling samples w =
     fbo_with_textures colorTex depthTex multisampling
       (CreateTexture width height RG32F RG FLOAT multisampling samples 1)
       (CreateTexture width height DEPTH_COMPONENT32 DEPTH_COMPONENT FLOAT multisampling samples 1)
       w"
  by (simp add: CreateLightFbo_def fbo_with_textures_def create_if_def Let_def)

lemma CreateTexture_storage:
  "tstore (textures (snd (CreateTexture wd ht ifmt fmt ty ms smp mip w)) t) =
     (if t = name_of (name_count w) then texture_storage ms smp mip ifmt wd ht
      else tstore (textures w t))"
  by (simp add: CreateTexture_tstore texture_storage_def)

lemma pixel_type_of_texture_storage [simp]:
  "pixel_type_of (texture_storage ms smp mip ifmt wd ht) = None"
  by (simp add: texture_storage_def)

lemma fbo_with_textures_creates:
  "creates_textures colorTex depthTex (texture_storage ms smp cmip cf wd ht)
     (texture_storage ms smp dmip df wd ht) w
     (snd (fbo_with_textures colorTex depthTex ms
             (CreateTexture wd ht cf cfmt cty ms smp cmip)
             (CreateTexture wd ht df dfmt dty ms smp dmip) w))"
  by (auto simp: creates_textures_def fbo_with_textures_def create_if_def CreateTexture_storage
      split: option.splits)

lemma CreateTexture_ignores:
  "CreateTexture wd ht ifmt fmt ty ms smp mip w = CreateTexture wd ht ifmt fmt' ty' ms smp mip w"
  by (simp add: CreateTexture_def)


lemma CreateFbo_any_type:
  "CreateFbo colorTex depthTex width height multisampling samples isFloatingPoint mipmapLevels w =
     fbo_with_textures colorTex depthTex multisampling
       (CreateTexture width height (if isFloatingPoint then RGBA32F else RGBA8) colorFormat
          colorType multisampling samples mipmapLevels)
       (CreateTexture width height DEPTH_COMPONENT32 depthFormat depthType multisampling samples 1)
       w"
  unfolding CreateFbo_eq
  by (rule arg_cong2 [where f = "\<lambda>a b. fbo_with_textures colorTex depthTex multisampling a b w"])
     (rule ext, rule CreateTexture_ignores)+

lemma CreateLightFbo_any_type:
  "CreateLightFbo colorTex depthTex width height multisampling samples w =
     fbo_with_textures colorTex depthTex multisampling
       (CreateTexture width height RG32F colorFormat colorType multisampling samples 1)
       (CreateTexture width height DEPTH_COMPONENT32 depthFormat depthType multisampling samples 1)
       w"
  unfolding CreateLightFbo_eq
  by (rule arg_cong2 [where f = "\<lambda>a b. fbo_with_textures colorTex depthTex multisampling a b w"])
     (rule ext, rule CreateTexture_ignores)+

text \<open>
  C6, as stated, fails: \<open>CreateFbo\<close> without \<open>isFloatingPoint\<close> gives the color texture a
  storage of internal format RGBA8 that has no pixel type, so the texture is not created
  with type UNSIGNED_BYTE: \<open>CreateTexture\<close> does the same with FLOAT in its place.
\<close>

theorem CreateFbo_pixel_type_counterexample:
  "tstore (textures (snd (CreateFbo (Some 0) (Some 1) 4 4 False 0 False 1 demo_world)) 8)
     = Storage2D 1 RGBA8 4 4
   \<and> pixel_type_of (tstore (textures
        (snd (CreateFbo (Some 0) (Some 1) 4 4 False 0 False 1 demo_world)) 8))
       \<noteq> Some UNSIGNED_BYTE
   \<and> CreateTexture 4 4 RGBA8 RGBA UNSIGNED_BYTE False 0 1 demo_world
       = CreateTexture 4 4 RGBA8 RGBA FLOAT False 0 1 demo_world"
proof -
  have "tstore (textures (snd (CreateFbo (Some 0) (Some 1) 4 4 False 0 False 1 demo_world)) 8)
          = Storage2D 1 RGBA8 4 4"
    by (simp add: CreateFbo_eq fbo_with_textures_def create_if_def CreateTexture_tstore
        name_of_def)
  moreover have "CreateTexture 4 4 RGBA8 RGBA UNSIGNED_BYTE False 0 1 demo_world
       = CreateTexture 4 4 RGBA8 RGBA FLOAT False 0 1 demo_world"
    by (rule CreateTexture_ignores)
  ultimately show ?thesis
    by simp
qed

text \<open>
  C6, amended. \<open>CreateFbo\<close> creates its color texture with internal format RGBA8, or
  RGBA32F when \<open>isFloatingPoint\<close> is set, and its depth texture with DEPTH_COMPONENT32;
  \<open>CreateLightFbo\<close> creates its color texture with RG32F and the same depth texture. The
  textures get the size, the samples and the levels of the call, and no pixel type: each
  preset is the same whatever pixel format and type are handed to \<open>CreateTexture\<close>, which
  ignores both. A texture is created, and its name stored through the pointer, only for
  a pointer that is not nil; the storage of no other texture changes.
\<close>

theorem CreateFbo_texture_formats:
  "creates_textures colorTex depthTex
       (texture_storage multisampling samples mipmapLevels
          (if isFloatingPoint then RGBA32F else RGBA8) width height)
       (texture_storage multisampling samples 1 DEPTH_COMPONENT32 width height) w
       (snd (CreateFbo colorTex depthTex width height multisampling samples isFloatingPoint
               mipmapLevels w))
   \<and> creates_textures colorTex depthTex
       (texture_storage multisampling samples 1 RG32F width height)
       (texture_storage multisampling samples 1 DEPTH_COMPONENT32 width height) w
       (snd (CreateLightFbo colorTex depthTex width height multisampling samples w))
   \<and> CreateFbo colorTex depthTex width height multisampling samples isFloatingPoint
         mipmapLevels w =
       fbo_with_textures colorTex depthTex multisampling
         (CreateTexture width height (if isFloatingPoint then RGBA32F else RGBA8) colorFormat
            colorType multisampling samples mipmapLevels)
         (CreateTexture width height DEPTH_COMPONENT32 depthFormat depthType multisampling
            samples 1) w
   \<and> CreateLightFbo colorTex depthTex width height multisampling samples w =
       fbo_with_textures colorTex depthTex multisampling
         (CreateTexture width height RG32F colorFormat colorType multisampling samples 1)
         (CreateTexture width height DEPTH_COMPONENT32 depthFormat depthType multisampling
            samples 1) w"
proof (intro conjI)
  show "creates_textures colorTex depthTex
       (texture_storage multisampling samples mipmapLevels
          (if isFloatingPoint then RGBA32F else RGBA8) width height)
       (texture_storage multisampling samples 1 DEPTH_COMPONENT32 width height) w
       (snd (CreateFbo colorTex depthTex width height multisampling samples isFloatingPoint
               mipmapLevels w))"
    unfolding CreateFbo_eq by (rule fbo_with_textures_creates)
  show "creates_textures colorTex depthTex
       (texture_storage multisampling samples 1 RG32F width height)
       (texture_storage multisampling samples 1 DEPTH_COMPONENT32 width height) w
       (snd (CreateLightFbo colorTex depthTex width height multisampling samples w))"
    unfolding CreateLightFbo_eq by (rule fbo_with_textures_creates)
qed (rule CreateFbo_any_type CreateLightFbo_any_type)+

text \<open>Both pointers given, the color pointer alone, and neither.\<close>

theorem CreateFbo_texture_formats_witness:
  "name_count (snd (CreateFbo (Some 0) (Some 1) 640 480 False 0 True 3 demo_world)) = 10
   \<and> tstore (textures (snd (CreateFbo (Some 0) (Some 1) 640 480 False 0 True 3 demo_world)) 8)
       = Storage2D 3 RGBA32F 640 480
   \<and> tstore (textures (snd (CreateFbo (Some 0) (Some 1) 640 480 False 0 True 3 demo_world)) 9)
       = Storage2D 1 DEPTH_COMPONENT32 640 480
   \<and> internal_format_of (tstore (textures
        (snd (CreateFbo (Some 0) (Some 1) 640 480 False 0 True 3 demo_world)) 8)) = Some RGBA32F
   \<and> internal_format_of (tstore (textures
        (snd (CreateFbo (Some 0) (Some 1) 640 480 False 0 True 3 demo_world)) 9))
       = Some DEPTH_COMPONENT32
   \<and> pixel_type_of (tstore (textures
        (snd (CreateFbo (Some 0) (Some 1) 640 480 False 0 True 3 demo_world)) 8)) = None
   \<and> mem (snd (CreateFbo (Some 0) (Some 1) 640 480 False 0 True 3 demo_world)) 0 = 8
   \<and> mem (snd (CreateFbo (Some 0) (Some 1) 640 480 False 0 True 3 demo_world)) 1 = 9
   \<and> name_count (snd (CreateLightFbo (Some 0) None 640 480 True 4 demo_world)) = 9
   \<and> tstore (textures (snd (CreateLightFbo (Some 0) None 640 480 True 4 demo_world)) 8)
       = Storage2DMultisample 4 RG32F 640 480 False
   \<and> tstore (textures (snd (CreateLightFbo (Some 0) None 640 480 True 4 demo_world)) 9)
       = tstore (textures demo_world 9)
   \<and> name_count (snd (CreateFbo None None 640 480 False 0 False 1 demo_world)) = 8
   \<and> tstore (textures (snd (CreateFbo None None 640 480 False 0 False 1 demo_world)) 8)
       = tstore (textures demo_world 8)
   \<and> mem (snd (CreateFbo None None 640 480 False 0 False 1 demo_world)) 0 = mem demo_world 0"
proof -
  note a = CreateFbo_texture_formats [where colorTex = "Some 0" and depthTex = "Some 1"
      and width = 640 and height = 480 and multisampling = False and samples = 0
      and isFloatingPoint = True and mipmapLevels = 3 and w = demo_world, THEN conjunct1]
  note b = CreateFbo_texture_formats [where colorTex = "Some 0" and depthTex = None
      and width = 640 and height = 480 and multisampling = True and samples = 4
      and w = demo_world, THEN conjunct2, THEN conjunct1]
  note c = CreateFbo_texture_formats [where colorTex = None and depthTex = None
      and width = 640 and height = 480 and multisampling = False and samples = 0
      and isFloatingPoint = False and mipmapLevels = 1 and w = demo_world, THEN conjunct1]
  have n: "name_of 7 = 8" "name_of 8 = 9" "name_count demo_world = 7"
    by (simp_all add: name_of_def)
  from a have a': "name_count (snd (CreateFbo (Some 0) (Some 1) 640 480 False 0 True 3 demo_world)) = 10
   \<and> tstore (textures (snd (CreateFbo (Some 0) (Some 1) 640 480 False 0 True 3 demo_world)) 8)
       = Storage2D 3 RGBA32F 640 480
   \<and> tstore (textures (snd (CreateFbo (Some 0) (Some 1) 640 480 False 0 True 3 demo_world)) 9)
       = Storage2D 1 DEPTH_COMPONENT32 640 480
   \<and> pixel_type_of (tstore (textures
        (snd (CreateFbo (Some 0) (Some 1) 640 480 False 0 True 3 demo_world)) 8)) = None
   \<and> mem (snd (CreateFbo (Some 0) (Some 1) 640 480 False 0 True 3 demo_world)) 0 = 8
   \<and> mem (snd (CreateFbo (Some 0) (Some 1) 640 480 False 0 True 3 demo_world)) 1 = 9"
    by (simp add: creates_textures_def texture_storage_def n Let_def)
  from b have b': "name_count (snd (CreateLightFbo (Some 0) None 640 480 True 4 demo_world)) = 9
   \<and> tstore (textures (snd (CreateLightFbo (Some 0) None 640 480 True 4 demo_world)) 8)
       = Storage2DMultisample 4 RG32F 640 480 False
   \<and> tstore (textures (snd (CreateLightFbo (Some 0) None 640 480 True 4 demo_world)) 9)
       = tstore (textures demo_world 9)"
    by (simp add: creates_textures_def texture_storage_def n Let_def)
  from c have c': "name_count (snd (CreateFbo None None 640 480 False 0 False 1 demo_world)) = 8
   \<and> tstore (textures (snd (CreateFbo None None 640 480 False 0 False 1 demo_world)) 8)
       = tstore (textures demo_world 8)
   \<and> mem (snd (CreateFbo None None 640 480 False 0 False 1 demo_world)) 0 = mem demo_world 0"
    by (simp add: creates_textures_def texture_storage_def n Let_def)
  from a' b' c' show ?thesis by simp
qed

subsection \<open>Vertex and index buffers\<close>

lemma gl_GenBuffers_fields [simp]:
  "fst (gl_GenBuffers w) = name_of (name_count w)"
  "name_count (snd (gl_GenBuffers w)) = Suc (name_count w)"
  "buffers (snd (gl_GenBuffers w)) = (buffers w)(name_of (name_count w) := None)"
  "buffer_binding (snd (gl_GenBuffers w)) = buffer_binding w"
  "vaos (snd (gl_GenBuffers w)) = vaos w"
  "vao_binding (snd (gl_GenBuffers w)) = vao_binding w"
  by (simp_all add: gl_GenBuffers_def gen_name_def)

lemma gl_BindBuffer_fields [simp]:
  "name_count (gl_BindBuffer target b w) = name_count w"
  "buffers (gl_BindBuffer target b w) = buffers w"
  "buffer_binding (gl_BindBuffer target b w) = (buffer_binding w)(target := b)"
  "vaos (gl_BindBuffer target b w) = vaos w"
  "vao_binding (gl_BindBuffer target b w) = vao_binding w"
  by (simp_all add: gl_BindBuffer_def)

lemma gl_BufferData_fields [simp]:
  "name_count (gl_BufferData target n d u w) = name_count w"
  "buffers (gl_BufferData target n d u w) =
     (if buffer_binding w target = 0 then buffers w
      else (buffers w)(buffer_binding w target \<mapsto> \<lparr>bsize = n, bdata = d, busage = u\<rparr>))"
  "buffer_binding (gl_BufferData target n d u w) = buffer_binding w"
  "vaos (gl_BufferData target n d u w) = vaos w"
  "vao_binding (gl_BufferData target n d u w) = vao_binding w"
  by (simp_all add: gl_BufferData_def Let_def)

lemma gl_GenVertexArrays_fields [simp]:
  "fst (gl_GenVertexArrays w) = name_of (name_count w)"
  "name_count (snd (gl_GenVertexArrays w)) = Suc (name_count w)"
  "buffers (snd (gl_GenVertexArrays w)) = buffers w"
  "buffer_binding (snd (gl_GenVertexArrays w)) = buffer_binding w"
  "vaos (snd (gl_GenVertexArrays w)) = (vaos w)(name_of (name_count w) := new_vao)"
  "vao_binding (snd (gl_GenVertexArrays w)) = vao_binding w"
  by (simp_all add: gl_GenVertexArrays_def gen_name_def)

lemma gl_BindVertexArray_fields [simp]:
  "name_count (gl_BindVertexArray v w) = name_count w"
  "buffers (gl_BindVertexArray v w) = buffers w"
  "buffer_binding (gl_BindVertexArray v w) = buffer_binding w"
  "vaos (gl_BindVertexArray v w) = vaos w"
  "vao_binding (gl_BindVertexArray v w) = v"
  by (simp_all add: gl_BindVertexArray_def)

lemma gl_EnableVertexAttribArray_fields [simp]:
  "name_count (gl_EnableVertexAttribArray i w) = name_count w"
  "buffers (gl_EnableVertexAttribArray i w) = buffers w"
  "buffer_binding (gl_EnableVertexAttribArray i w) = buffer_binding w"
  "vaos (gl_EnableVertexAttribArray i w) =
     (if vao_binding w = 0 then vaos w
      else (vaos w)(vao_binding w :=
             (vaos w (vao_binding w))\<lparr>enabled := insert i (enabled (vaos w (vao_binding w)))\<rparr>))"
  "vao_binding (gl_EnableVertexAttribArray i w) = vao_binding w"
  by (simp_all add: gl_EnableVertexAttribArray_def Let_def)

lemma gl_VertexAttribPointer_fields [simp]:
  "name_count (gl_VertexAttribPointer i n t nm st off w) = name_count w"
  "buffers (gl_VertexAttribPointer i n t nm st off w) = buffers w"
  "buffer_binding (gl_VertexAttribPointer i n t nm st off w) = buffer_binding w"
  "vaos (gl_VertexAttribPointer i n t nm st off w) =
     (if vao_binding w = 0 then vaos w
      else (vaos w)(vao_binding w :=
             (vaos w (vao_binding w))\<lparr>pointers := (pointers (vaos w (vao_binding w)))(i \<mapsto>
                \<lparr>asize = n, atype = t, anormalized = nm, astride = st, aoffset = off,
                 abuffer = buffer_binding w ARRAY_BUFFER\<rparr>)\<rparr>))"
  "vao_binding (gl_VertexAttribPointer i n t nm st off w) = vao_binding w"
  by (simp_all add: gl_VertexAttribPointer_def Let_def)

lemma name_of_Suc_Suc_neq [simp]:
  "name_of (Suc (Suc c)) \<noteq> name_of c" "name_of c \<noteq> name_of (Suc (Suc c))"
  using name_of_distinct [of 2 c] by auto

lemma GenerateBufferFromTriangles2D_result:
  assumes "3 \<le> length points"
  shows "fst (GenerateBufferFromTriangles2D b points w) =
           b\<lparr>ArrayBuffer := name_of (name_count w), VertexBuffer := name_of (Suc (name_count w)),
             VertexCount := word_of_nat (length points)\<rparr>"
    and "vaos (snd (GenerateBufferFromTriangles2D b points w)) =
           (vaos w)(name_of (Suc (name_count w)) := vertex_layout (name_of (name_count w)))"
    and "buffers (snd (GenerateBufferFromTriangles2D b points w)) =
           (buffers w)(name_of (name_count w) \<mapsto>
              \<lparr>bsize = sizeof_Vec2 * int (length points), bdata = Points points,
               busage = STATIC_DRAW\<rparr>)"
    and "name_count (snd (GenerateBufferFromTriangles2D b points w)) = Suc (Suc (name_count w))"
  using assms
  by (simp_all add: GenerateBufferFromTriangles2D_def Let_def split_def name_of_nonzero
      vertex_layout_def new_vao_def sizeof_Vec2_def)

lemma GenerateBufferFromLines2D_result:
  assumes "2 \<le> length points" and "2 \<le> length indices"
  shows "fst (GenerateBufferFromLines2D b points indices w) =
           b\<lparr>ArrayBuffer := name_of (name_count w), VertexBuffer := name_of (Suc (name_count w)),
             VertexCount := word_of_nat (length points),
             IndexBuffer := name_of (Suc (Suc (name_count w))),
             IndexCount := word_of_nat (length indices)\<rparr>"
    and "vaos (snd (GenerateBufferFromLines2D b points indices w)) =
           (vaos w)(name_of (Suc (name_count w)) := vertex_layout (name_of (name_count w)))"
    and "buffers (snd (GenerateBufferFromLines2D b points indices w)) =
           (buffers w)(name_of (name_count w) \<mapsto>
              \<lparr>bsize = sizeof_Vec2 * int (length points), bdata = Points points,
               busage = STATIC_DRAW\<rparr>,
            name_of (Suc (Suc (name_count w))) \<mapsto>
              \<lparr>bsize = sizeof_uint32 * int (length indices), bdata = Indices indices,
               busage = STATIC_DRAW\<rparr>)"
    and "name_count (snd (GenerateBufferFromLines2D b points indices w))
           = Suc (Suc (Suc (name_count w)))"
  using assms
  by (simp_all add: GenerateBufferFromLines2D_def Let_def split_def name_of_nonzero
      vertex_layout_def new_vao_def sizeof_Vec2_def sizeof_uint32_def)


text \<open>
  C7, as stated, fails: \<open>VertexCount\<close> is \<open>int32(len(points))\<close>, and for a slice of
  \<open>2 ^ 31\<close> points that is negative.
\<close>

theorem VertexCount_truncated_counterexample:
  "length (replicate 2147483648 ((0, 0) :: Vec2)) = 2147483648
   \<and> sint (VertexCount (fst (GenerateBufferFromTriangles2D empty_mesh
              (replicate 2147483648 (0, 0)) demo_world))) = - 2147483648"
  by (simp add: GenerateBufferFromTriangles2D_result)

text \<open>
  C7, amended. For inputs meeting the minimum sizes, \<open>GenerateBufferFromTriangles2D\<close> and
  \<open>GenerateBufferFromLines2D\<close> each leave a new vertex array with exactly one enabled
  attribute, index 0, of 2 FLOAT components, not normalised, with the size of a \<open>Vec2\<close> as
  stride, at offset 0 of the new array buffer, and record as \<open>VertexCount\<close> the number of
  points converted to \<open>int32\<close>, which is the number of points when that is below \<open>2 ^ 31\<close>;
  \<open>GenerateBufferFromLines2D\<close> also uploads the indices into a new element buffer and
  records as \<open>IndexCount\<close> their number converted to \<open>int32\<close>.
\<close>

theorem GenerateBuffer_layout_and_counts:
  "(3 \<le> length points \<longrightarrow>
      (let (b', w') = GenerateBufferFromTriangles2D b points w
       in enabled (vaos w' (VertexBuffer b')) = {0}
          \<and> pointers (vaos w' (VertexBuffer b')) 0 =
                Some \<lparr>asize = 2, atype = FLOAT, anormalized = False, astride = 8, aoffset = 0,
                      abuffer = ArrayBuffer b'\<rparr>
          \<and> sint (8 :: i32) = sizeof_Vec2
          \<and> VertexCount b' = word_of_nat (length points)
          \<and> (length points < 2 ^ 31 \<longrightarrow> sint (VertexCount b') = int (length points))))
   \<and> (2 \<le> length points \<and> 2 \<le> length indices \<longrightarrow>
      (let (b', w') = GenerateBufferFromLines2D b points indices w
       in enabled (vaos w' (VertexBuffer b')) = {0}
          \<and> pointers (vaos w' (VertexBuffer b')) 0 =
                Some \<lparr>asize = 2, atype = FLOAT, anormalized = False, astride = 8, aoffset = 0,
                      abuffer = ArrayBuffer b'\<rparr>
          \<and> sint (8 :: i32) = sizeof_Vec2
          \<and> VertexCount b' = word_of_nat (length points)
          \<and> (length points < 2 ^ 31 \<longrightarrow> sint (VertexCount b') = int (length points))
          \<and> buffers w' (IndexBuffer b') =
                Some \<lparr>bsize = sizeof_uint32 * int (length indices), bdata = Indices indices,
                      busage = STATIC_DRAW\<rparr>
          \<and> IndexCount b' = word_of_nat (length indices)
          \<and> (length indices < 2 ^ 31 \<longrightarrow> sint (IndexCount b') = int (length indices))))"
  by (simp add: split_def Let_def GenerateBufferFromTriangles2D_result
      GenerateBufferFromLines2D_result vertex_layout_def sizeof_Vec2_def sint_nat)

theorem GenerateBuffer_layout_and_counts_witness:
  "3 \<le> length demo_points \<and> 2 \<le> length [0, 1, 2, 0 :: u32]
   \<and> enabled (vaos (snd (GenerateBufferFromTriangles2D empty_mesh demo_points demo_world)) 9) = {0}
   \<and> fst (GenerateBufferFromTriangles2D empty_mesh demo_points demo_world) =
        \<lparr>ArrayBuffer = 8, VertexBuffer = 9, VertexCount = 3, IndexBuffer = 0, IndexCount = 0\<rparr>
   \<and> fst (GenerateBufferFromLines2D empty_mesh demo_points [0, 1, 2, 0] demo_world) =
        \<lparr>ArrayBuffer = 8, VertexBuffer = 9, VertexCount = 3, IndexBuffer = 10, IndexCount = 4\<rparr>
   \<and> map_option bdata (buffers
          (snd (GenerateBufferFromLines2D empty_mesh demo_points [0, 1, 2, 0] demo_world)) 10)
        = Some (Indices [0, 1, 2, 0])"
proof -
  have r: "fst (GenerateBufferFromTriangles2D empty_mesh demo_points demo_world) =
        \<lparr>ArrayBuffer = 8, VertexBuffer = 9, VertexCount = 3, IndexBuffer = 0, IndexCount = 0\<rparr>"
      "fst (GenerateBufferFromLines2D empty_mesh demo_points [0, 1, 2, 0] demo_world) =
        \<lparr>ArrayBuffer = 8, VertexBuffer = 9, VertexCount = 3, IndexBuffer = 10, IndexCount = 4\<rparr>"
    by (simp_all add: GenerateBufferFromTriangles2D_result GenerateBufferFromLines2D_result
        demo_points_def empty_mesh_def name_of_def)
  from GenerateBuffer_layout_and_counts [of demo_points empty_mesh demo_world "[0, 1, 2, 0]"] r
  show ?thesis
    by (simp add: split_def Let_def demo_points_def)
qed

text \<open>
  C8. Below the minimum sizes both functions return at once: the \<open>MeshBuffer\<close> and the
  world, with every driver object in it, are as they were.
\<close>

theorem GenerateBuffer_too_few_is_noop:
  "(length points < 3 \<longrightarrow> GenerateBufferFromTriangles2D b points w = (b, w))
   \<and> (length points < 2 \<or> length indices < 2 \<longrightarrow>
        GenerateBufferFromLines2D b points indices w = (b, w))"
  by (simp add: GenerateBufferFromTriangles2D_def GenerateBufferFromLines2D_def)

theorem GenerateBuffer_too_few_is_noop_witness:
  "length (take 2 demo_points) < 3
   \<and> GenerateBufferFromTriangles2D empty_mesh (take 2 demo_points) demo_world
        = (empty_mesh, demo_world)
   \<and> length [7 :: u32] < 2
   \<and> GenerateBufferFromLines2D empty_mesh demo_points [7] demo_world = (empty_mesh, demo_world)
   \<and> length (take 1 demo_points) < 2
   \<and> GenerateBufferFromLines2D empty_mesh (take 1 demo_points) [0, 1] demo_world
        = (empty_mesh, demo_world)"
  using GenerateBuffer_too_few_is_noop [of "take 2 demo_points" empty_mesh demo_world "[7]"]
    GenerateBuffer_too_few_is_noop [of demo_points empty_mesh demo_world "[7]"]
    GenerateBuffer_too_few_is_noop [of "take 1 demo_points" empty_mesh demo_world "[0, 1]"]
  by (simp add: demo_points_def)

text \<open>
  C10. \<open>FreeGLBuffer\<close> never changes \<open>IndexCount\<close>; with a positive \<open>VertexCount\<close> it sets
  \<open>ArrayBuffer\<close>, \<open>VertexBuffer\<close> and \<open>VertexCount\<close> to 0, with a positive \<open>IndexCount\<close> it
  sets \<open>IndexBuffer\<close> and \<open>VertexCount\<close> to 0; freeing the freed buffer again, in whatever
  world, leaves the fields as the first call left them.
\<close>

theorem FreeGLBuffer_fields:
  "IndexCount (fst (FreeGLBuffer b w)) = IndexCount b
   \<and> (0 < sint (VertexCount b) \<longrightarrow>
        ArrayBuffer (fst (FreeGLBuffer b w)) = 0 \<and> VertexBuffer (fst (FreeGLBuffer b w)) = 0
        \<and> VertexCount (fst (FreeGLBuffer b w)) = 0)
   \<and> (0 < sint (IndexCount b) \<longrightarrow>
        IndexBuffer (fst (FreeGLBuffer b w)) = 0 \<and> VertexCount (fst (FreeGLBuffer b w)) = 0)
   \<and> fst (FreeGLBuffer (fst (FreeGLBuffer b w)) w2) = fst (FreeGLBuffer b w)"
  by (simp add: FreeGLBuffer_def Let_def split_def)

theorem FreeGLBuffer_fields_witness:
  "0 < sint (3 :: i32) \<and> 0 < sint (4 :: i32)
   \<and> fst (FreeGLBuffer \<lparr>ArrayBuffer = 8, VertexBuffer = 9, VertexCount = 3, IndexBuffer = 10,
                          IndexCount = 4\<rparr> demo_world)
        = \<lparr>ArrayBuffer = 0, VertexBuffer = 0, VertexCount = 0, IndexBuffer = 0, IndexCount = 4\<rparr>
   \<and> fst (FreeGLBuffer (fst (FreeGLBuffer \<lparr>ArrayBuffer = 8, VertexBuffer = 9, VertexCount = 3,
                          IndexBuffer = 10, IndexCount = 4\<rparr> demo_world)) demo_world)
        = \<lparr>ArrayBuffer = 0, VertexBuffer = 0, VertexCount = 0, IndexBuffer = 0, IndexCount = 4\<rparr>"
proof -
  let ?b = "\<lparr>ArrayBuffer = 8, VertexBuffer = 9, VertexCount = 3, IndexBuffer = 10,
              IndexCount = 4\<rparr> :: MeshBuffer"
  have p: "0 < sint (VertexCount ?b)" "0 < sint (IndexCount ?b)"
    by simp_all
  note t = FreeGLBuffer_fields [of ?b demo_world demo_world]
  have "fst (FreeGLBuffer ?b demo_world)
          = \<lparr>ArrayBuffer = 0, VertexBuffer = 0, VertexCount = 0, IndexBuffer = 0, IndexCount = 4\<rparr>"
    using t p by (intro MeshBuffer.equality) simp_all
  with t show ?thesis by simp
qed

subsection \<open>Image textures\<close>

lemma gl_TexImage2D_fields [simp]:
  "name_count (gl_TexImage2D target l f wd ht bd fmt ty px w) = name_count w"
  "textures (gl_TexImage2D target l f wd ht bd fmt ty px w) =
     (textures w)(tex_binding w target :=
        (textures w (tex_binding w target))\<lparr>tstore := TexImage l f wd ht bd fmt ty px\<rparr>)"
  "tex_binding (gl_TexImage2D target l f wd ht bd fmt ty px w) = tex_binding w"
  "stdout (gl_TexImage2D target l f wd ht bd fmt ty px w) = stdout w"
  "float32_of_int (gl_TexImage2D target l f wd ht bd fmt ty px w) = float32_of_int w"
  by (simp_all add: gl_TexImage2D_def Let_def)

lemma demo_world_load [simp]:
  "load_image demo_world = (\<lambda>name. if name = ''missing''
       then (\<lparr>Img = None\<rparr>, Some (Errorf ''open missing: no such file''))
       else if name = ''broken''
       then (\<lparr>Img = Some demo_image\<rparr>, Some (Errorf ''unexpected EOF''))
       else (\<lparr>Img = Some demo_image\<rparr>, None))"
  "float32_of_int demo_world = (\<lambda>k. if k = 1 then 0x3F800000 else if k = 2 then 0x40000000 else 0)"
  by (simp_all add: demo_world_def)

lemma CreateImageTexture_nil_image:
  assumes "load_image w imageName = (img, err)" and "Img img = None"
  shows "CreateImageTexture imageName isRepeating w =
           Inl (Panic ''invalid memory address or nil pointer dereference'',
                w\<lparr>stdout := stdout w @ load_message err\<rparr>)"
  using assms
  by (cases err) (simp_all add: CreateImageTexture_def load_message_def)

text \<open>
  With an image that converts to a non-empty RGBA image the call returns, after a failed
  load too: a new texture with the pixels of the image and the size of its bounds.
\<close>

lemma CreateImageTexture_with_image:
  assumes "load_image w imageName = (img, err)" and "Img img = Some im"
      and "RGBA_Pix im = Inr pixels" and "pixels \<noteq> []"
  shows "\<exists>w'. CreateImageTexture imageName isRepeating w =
            Inr (\<lparr>TextureHandle = name_of (name_count w),
                  TextureSize = (float32_of_int w (Bounds_Max_X im),
                                 float32_of_int w (Bounds_Max_Y im))\<rparr>, w')
           \<and> stdout w' = stdout w @ load_message err
           \<and> tstore (textures w' (name_of (name_count w))) =
               TexImage 0 RGBA8 (word_of_int (Bounds_Max_X im)) (word_of_int (Bounds_Max_Y im)) 0
                 RGBA UNSIGNED_BYTE pixels
           \<and> map (tparams (textures w' (name_of (name_count w))))
               [TEXTURE_WRAP_S, TEXTURE_WRAP_T, TEXTURE_MIN_FILTER, TEXTURE_MAG_FILTER] =
               (let wrap = (if isRepeating then REPEAT else CLAMP_TO_EDGE)
                in [Some wrap, Some wrap, Some NEAREST, Some NEAREST])"
  using assms
  by (cases err)
     (simp_all add: CreateImageTexture_def gl_Ptr_def Let_def split_def load_message_def)

lemma demo_broken_image:
  "\<exists>w'. CreateImageTexture ''broken'' True demo_world =
            Inr (\<lparr>TextureHandle = 8, TextureSize = (0x40000000, 0x3F800000)\<rparr>, w')
         \<and> stdout w' = ''Image load failed: unexpected EOF.'' @ [CHR 0x0A]
         \<and> tstore (textures w' 8) =
             TexImage 0 RGBA8 2 1 0 RGBA UNSIGNED_BYTE [0, 0, 0, 255, 255, 255, 255, 255]"
proof -
  have l: "load_image demo_world ''broken''
             = (\<lparr>Img = Some demo_image\<rparr>, Some (Errorf ''unexpected EOF''))"
    by simp
  have i: "Img \<lparr>Img = Some demo_image\<rparr> = Some demo_image"
    by simp
  have p: "RGBA_Pix demo_image = Inr [0, 0, 0, 255, 255, 255, 255, 255]"
    by (simp add: demo_image_def)
  from CreateImageTexture_with_image [OF l i p, of True] show ?thesis
    by (auto simp: demo_image_def name_of_def load_message_def)
qed

text \<open>
  C9. \<open>CreateImageTexture\<close> has no error to return, and whatever the load returns, a
  non-nil error only adds its message to the standard output: the world the call leaves,
  returning or not, has this message printed. But the call does not always carry on to
  return an \<open>ImageTexture\<close> from the result of the failed load: when the load of the file
  "missing" fails and leaves no image, the message is printed and the call of \<open>Bounds\<close>
  on the nil image panics.
\<close>

theorem CreateImageTexture_nil_image_panics:
  "stdout (world_after (CreateImageTexture imageName isRepeating w))
     = stdout w @ load_message (snd (load_image w imageName))
   \<and> load_image demo_world ''missing''
       = (\<lparr>Img = None\<rparr>, Some (Errorf ''open missing: no such file''))
   \<and> CreateImageTexture ''missing'' False demo_world
       = Inl (Panic ''invalid memory address or nil pointer dereference'',
              demo_world\<lparr>stdout := ''Image load failed: open missing: no such file.''
                                      @ [CHR 0x0A]\<rparr>)"
proof (intro conjI)
  obtain img err where l: "load_image w imageName = (img, err)"
    by (cases "load_image w imageName")
  show "stdout (world_after (CreateImageTexture imageName isRepeating w))
          = stdout w @ load_message (snd (load_image w imageName))"
    by (cases err)
       (simp_all add: l CreateImageTexture_def world_after_def gl_Ptr_def Let_def split_def
          load_message_def split: option.splits sum.splits)
  show l': "load_image demo_world ''missing''
       = (\<lparr>Img = None\<rparr>, Some (Errorf ''open missing: no such file''))"
    by simp
  show "CreateImageTexture ''missing'' False demo_world
       = Inl (Panic ''invalid memory address or nil pointer dereference'',
              demo_world\<lparr>stdout := ''Image load failed: open missing: no such file.''
                                      @ [CHR 0x0A]\<rparr>)"
    using CreateImageTexture_nil_image [OF l', of False]
    by (simp add: load_message_def)
qed

end
